(* ===== verification/Prelude.thy ===== *)
theory Prelude
  imports Main "HOL-Library.AList" "HOL-Library.Word"
begin

text \<open>
  Shared material of the development: the collections of facts the component
  theories feed to the simplifier, the result type used for every operation of
  the program that can raise, decimal and hexadecimal rendering of numbers (used
  by \<open>str\<close>, \<open>repr\<close> and \<open>isoformat\<close>), and the facts on association lists
  that make them a model of Python's insertion-ordered \<open>dict\<close>.
\<close>

section \<open>Fact collections\<close>

named_theorems model_defs "definitions of the schema models, unfolded to evaluate a model"

named_theorems handler_defs "definitions of the request handlers, unfolded to run a request"

named_theorems dict_simps "rewrite rules for dictionary operations on association lists"

section \<open>Results of operations that may raise\<close>

text \<open>
  An operation that can raise returns \<open>'e + 'a\<close>: \<open>Inl e\<close> is the exception
  \<open>e\<close>, \<open>Inr x\<close> the returned value. \<open>raise_bind\<close> sequences two such
  operations the way Python statements do: the second runs only if the first returned.
\<close>

type_synonym ('e, 'a) result = "'e + 'a"

definition raise_bind :: "('e, 'a) result \<Rightarrow> ('a \<Rightarrow> ('e, 'b) result) \<Rightarrow> ('e, 'b) result" where
  "raise_bind r f = (case r of Inl e \<Rightarrow> Inl e | Inr x \<Rightarrow> f x)"

definition is_ok :: "('e, 'a) result \<Rightarrow> bool" where
  "is_ok r = (case r of Inl _ \<Rightarrow> False | Inr _ \<Rightarrow> True)"

section \<open>Decimal digits\<close>

text \<open>
  \<open>str_nat\<close> is Python's \<open>str\<close> on a non-negative integer, \<open>zfill\<close> is
  \<open>str.zfill\<close> (the padding of the \<open>%02d\<close> and \<open>%04d\<close> formats), and
  \<open>nat_of_digits\<close> reads a digit string back.
\<close>

definition digit_char :: "nat \<Rightarrow> char" where
  "digit_char d = char_of (48 + d)"

definition is_digit :: "char \<Rightarrow> bool" where
  "is_digit c \<longleftrightarrow> 48 \<le> (of_char c :: nat) \<and> (of_char c :: nat) \<le> 57"

definition digit_val :: "char \<Rightarrow> nat" where
  "digit_val c = of_char c - 48"

fun str_nat :: "nat \<Rightarrow> string" where
  "str_nat n = (if n < 10 then [digit_char n] else str_nat (n div 10) @ [digit_char (n mod 10)])"

definition nat_of_digits :: "string \<Rightarrow> nat" where
  "nat_of_digits s = foldl (\<lambda>n c. 10 * n + digit_val c) 0 s"

definition zfill :: "nat \<Rightarrow> string \<Rightarrow> string" where
  "zfill w s = replicate (w - length s) (CHR ''0'') @ s"

definition str_int :: "int \<Rightarrow> string" where
  "str_int i = (if i < 0 then CHR ''-'' # str_nat (nat (- i)) else str_nat (nat i))"

section \<open>Hexadecimal digits\<close>

text \<open>
  \<open>hex_fixed w n\<close> is the lower-case hexadecimal rendering of \<open>n\<close> on exactly
  \<open>w\<close> digits (Python's \<open>'%0wx'\<close>); below \<open>16 ^ w\<close> it loses nothing.
\<close>

definition hex_char :: "nat \<Rightarrow> char" where
  "hex_char d = (if d < 10 then char_of (48 + d) else char_of (87 + d))"

definition hex_val :: "char \<Rightarrow> nat" where
  "hex_val c = (if (of_char c :: nat) < 58 then of_char c - 48 else of_char c - 87)"

primrec hex_fixed :: "nat \<Rightarrow> nat \<Rightarrow> string" where
  "hex_fixed 0 n = []"
| "hex_fixed (Suc w) n = hex_fixed w (n div 16) @ [hex_char (n mod 16)]"

definition nat_of_hex :: "string \<Rightarrow> nat" where
  "nat_of_hex s = foldl (\<lambda>n c. 16 * n + hex_val c) 0 s"

section \<open>Joining strings\<close>

text \<open>\<open>join sep xs\<close> is Python's \<open>sep.join(xs)\<close>.\<close>

fun join :: "string \<Rightarrow> string list \<Rightarrow> string" where
  "join sep [] = []"
| "join sep [x] = x"
| "join sep (x # y # ys) = x @ sep @ join sep (y # ys)"

section \<open>Association lists as insertion-ordered dictionaries\<close>

text \<open>
  A Python \<open>dict\<close> keeps its keys in insertion order, and assignment to a key
  that is present keeps the key's position. On an association list with distinct keys
  this is \<open>AList.update\<close>; \<open>del d[k]\<close> is \<open>AList.delete\<close> and \<open>d.get(k)\<close>
  is \<open>map_of\<close>. The facts below are the ones the components share.
\<close>

abbreviation keys :: "('k \<times> 'v) list \<Rightarrow> 'k list" where
  "keys d \<equiv> map fst d"

section \<open>Facts about results, digits and dictionaries\<close>

lemma raise_bind_simps [simp]:
  "raise_bind (Inl e) f = Inl e"
  "raise_bind (Inr x) f = f x"
  by (simp_all add: raise_bind_def)

lemma is_ok_simps [simp]: "is_ok (Inr x)" "\<not> is_ok (Inl e)"
  by (simp_all add: is_ok_def)

lemma is_ok_iff: "is_ok r \<longleftrightarrow> (\<exists>x. r = Inr x)"
  by (cases r) simp_all

lemma raise_bind_eq_Inr_iff:
  "raise_bind r f = Inr y \<longleftrightarrow> (\<exists>x. r = Inr x \<and> f x = Inr y)"
  by (cases r) simp_all

lemma raise_bind_eq_Inl_iff:
  "raise_bind r f = Inl e \<longleftrightarrow> r = Inl e \<or> (\<exists>x. r = Inr x \<and> f x = Inl e)"
  by (cases r) simp_all

declare str_nat.simps [simp del]

lemma digit_val_digit_char [simp]: "d < 10 \<Longrightarrow> digit_val (digit_char d) = d"
  by (simp add: digit_val_def digit_char_def)

lemma is_digit_digit_char [simp]: "d < 10 \<Longrightarrow> is_digit (digit_char d)"
  by (simp add: is_digit_def digit_char_def)

lemma digit_char_inj: "d < 10 \<Longrightarrow> e < 10 \<Longrightarrow> digit_char d = digit_char e \<longleftrightarrow> d = e"
  by (metis digit_val_digit_char)

lemma nat_of_digits_simps [simp]:
  "nat_of_digits [] = 0"
  "nat_of_digits (s @ [c]) = 10 * nat_of_digits s + digit_val c"
  by (simp_all add: nat_of_digits_def)

lemma nat_of_digits_replicate_0 [simp]: "nat_of_digits (replicate k (CHR ''0'') @ s) = nat_of_digits s"
proof -
  have "foldl (\<lambda>n c. 10 * n + digit_val c) 0 (replicate k (CHR ''0'')) = 0"
    by (induction k) (simp_all add: digit_val_def)
  then show ?thesis by (simp add: nat_of_digits_def)
qed

lemma str_nat_nonempty [simp]: "str_nat n \<noteq> []"
  by (subst str_nat.simps) simp

lemma str_nat_digits: "c \<in> set (str_nat n) \<Longrightarrow> is_digit c"
proof (induction n rule: str_nat.induct)
  case (1 n)
  then show ?case
    by (subst (asm) (2) str_nat.simps) (auto split: if_splits)
qed

lemma nat_of_digits_str_nat [simp]: "nat_of_digits (str_nat n) = n"
proof (induction n rule: str_nat.induct)
  case (1 n)
  show ?case
  proof (cases "n < 10")
    case True
    then show ?thesis
      using nat_of_digits_simps(2) [of "[]"] by (subst str_nat.simps) simp
  next
    case False
    with 1 show ?thesis by (subst str_nat.simps) simp
  qed
qed

lemma str_nat_inj [simp]: "str_nat m = str_nat n \<longleftrightarrow> m = n"
  by (metis nat_of_digits_str_nat)

lemma length_str_nat_le: "n < 10 ^ w \<Longrightarrow> 0 < w \<Longrightarrow> length (str_nat n) \<le> w"
proof (induction n arbitrary: w rule: str_nat.induct)
  case (1 n)
  show ?case
  proof (cases "n < 10")
    case True
    with 1(3) show ?thesis by (subst str_nat.simps) simp
  next
    case False
    with 1(2) have "1 < w"
      by (cases "w = 1") (use 1(3) in auto)
    moreover from 1(2) \<open>1 < w\<close> have "n div 10 < 10 ^ (w - 1)"
      by (cases w) (auto simp: less_mult_imp_div_less mult.commute)
    ultimately have "length (str_nat (n div 10)) \<le> w - 1"
      using 1(1) [OF False] by simp
    with False \<open>1 < w\<close> show ?thesis by (subst str_nat.simps) simp
  qed
qed

lemma length_zfill: "length (zfill w s) = max w (length s)"
  by (simp add: zfill_def)

lemma length_zfill_str_nat [simp]: "n < 10 ^ w \<Longrightarrow> 0 < w \<Longrightarrow> length (zfill w (str_nat n)) = w"
  using length_str_nat_le [of n w] by (simp add: length_zfill)

lemma nat_of_digits_zfill [simp]: "nat_of_digits (zfill w (str_nat n)) = n"
  by (simp add: zfill_def)

lemma zfill_digits: "c \<in> set (zfill w (str_nat n)) \<Longrightarrow> is_digit c"
  by (auto simp: zfill_def is_digit_def dest: str_nat_digits)

lemma str_int_inj [simp]: "str_int i = str_int j \<longleftrightarrow> i = j"
proof -
  have neg: "str_nat n \<noteq> CHR ''-'' # s" for n s
    using str_nat_digits [of "CHR ''-''" n]
    by (cases "str_nat n") (auto simp: is_digit_def)
  show ?thesis
    using neg [of "nat i"] neg [of "nat j"]
    by (auto simp: str_int_def dest: sym)
qed

lemma hex_val_hex_char [simp]: "d < 16 \<Longrightarrow> hex_val (hex_char d) = d"
  by (auto simp: hex_val_def hex_char_def)

lemma length_hex_fixed [simp]: "length (hex_fixed w n) = w"
  by (induction w arbitrary: n) simp_all

lemma nat_of_hex_snoc [simp]: "nat_of_hex (s @ [c]) = 16 * nat_of_hex s + hex_val c"
  by (simp add: nat_of_hex_def)

lemma nat_of_hex_fixed: "n < 16 ^ w \<Longrightarrow> nat_of_hex (hex_fixed w n) = n"
proof (induction w arbitrary: n)
  case 0
  then show ?case by (simp add: nat_of_hex_def)
next
  case (Suc w)
  then have "n div 16 < 16 ^ w"
    by (simp add: less_mult_imp_div_less mult.commute)
  with Suc.IH show ?case by simp
qed

lemma length_join_ge: "x \<in> set xs \<Longrightarrow> length x \<le> length (join sep xs)"
  by (induction sep xs rule: join.induct) auto

lemma keys_update_present [dict_simps]:
  "k \<in> set (keys d) \<Longrightarrow> keys (AList.update k v d) = keys d"
  by (simp add: update_keys)

lemma keys_update_absent [dict_simps]:
  "k \<notin> set (keys d) \<Longrightarrow> keys (AList.update k v d) = keys d @ [k]"
  by (simp add: update_keys)

lemma update_absent [dict_simps]:
  "k \<notin> set (keys d) \<Longrightarrow> AList.update k v d = d @ [(k, v)]"
  by (induction d) auto

lemma map_of_update [dict_simps]:
  "map_of (AList.update k v d) k' = (if k' = k then Some v else map_of d k')"
  by (simp add: update_conv')

lemma map_of_delete_eq [dict_simps]:
  "map_of (AList.delete k d) k' = (if k' = k then None else map_of d k')"
  by (simp add: delete_conv')

lemma keys_delete [dict_simps]: "keys (AList.delete k d) = removeAll k (keys d)"
  by (rule delete_keys)

lemma length_update_present:
  "k \<in> set (keys d) \<Longrightarrow> length (AList.update k v d) = length d"
  by (induction d) auto

lemma map_of_eq_None_keys: "map_of d k = None \<longleftrightarrow> k \<notin> set (keys d)"
  by (simp add: map_of_eq_None_iff)

lemma map_of_Some_keys: "map_of d k = Some v \<Longrightarrow> k \<in> set (keys d)"
  by (metis map_of_eq_None_keys option.distinct(1))

lemmas dict_distinct = distinct_update distinct_delete

end
