(* ===== verification/PyValue.thy ===== *)
theory PyValue
  imports Prelude
begin

text \<open>
  The values the program passes around: what a \<open>Dict[str, Any]\<close> of
  \<open>src/main.py\<close> can hold. A document is a Python \<open>dict\<close> from field names to
  strings, integers, \<open>None\<close>, lists, nested dicts, \<open>datetime\<close> objects and the
  store's \<open>ObjectId\<close>. This theory gives the datatype, Python's truth test,
  \<open>str\<close>, \<open>repr\<close> and \<open>datetime.isoformat\<close> on it, and the three dictionary
  operations \<open>_serialize\<close> uses.
\<close>

section \<open>Date-time values\<close>

text \<open>
  A naive \<open>datetime.datetime\<close> (no \<open>tzinfo\<close>). \<open>valid_datetime\<close> is the range
  check of its constructor.
\<close>

record datetime =
  year :: nat
  month :: nat
  day :: nat
  hour :: nat
  minute :: nat
  second :: nat
  microsecond :: nat

definition is_leap :: "nat \<Rightarrow> bool" where
  "is_leap y \<longleftrightarrow> y mod 4 = 0 \<and> (y mod 100 \<noteq> 0 \<or> y mod 400 = 0)"

definition days_in_month :: "nat \<Rightarrow> nat \<Rightarrow> nat" where
  "days_in_month y m =
     (if m = 2 then (if is_leap y then 29 else 28)
      else if m \<in> {4, 6, 9, 11} then 30 else 31)"

definition valid_datetime :: "datetime \<Rightarrow> bool" where
  "valid_datetime d \<longleftrightarrow>
     1 \<le> year d \<and> year d \<le> 9999 \<and> 1 \<le> month d \<and> month d \<le> 12 \<and>
     1 \<le> day d \<and> day d \<le> days_in_month (year d) (month d) \<and>
     hour d < 24 \<and> minute d < 60 \<and> second d < 60 \<and> microsecond d < 1000000"

definition format_time :: "datetime \<Rightarrow> string" where
  "format_time d =
     zfill 2 (str_nat (hour d)) @ '':'' @ zfill 2 (str_nat (minute d)) @ '':'' @
     zfill 2 (str_nat (second d)) @
     (if microsecond d = 0 then [] else ''.'' @ zfill 6 (str_nat (microsecond d)))"

definition isoformat_sep :: "char \<Rightarrow> datetime \<Rightarrow> string" where
  "isoformat_sep sep d =
     zfill 4 (str_nat (year d)) @ ''-'' @ zfill 2 (str_nat (month d)) @ ''-'' @
     zfill 2 (str_nat (day d)) @ [sep] @ format_time d"

definition isoformat :: "datetime \<Rightarrow> string" where
  "isoformat d = isoformat_sep (CHR ''T'') d"

definition repr_datetime :: "datetime \<Rightarrow> string" where
  "repr_datetime d =
     (let L = [year d, month d, day d, hour d, minute d, second d, microsecond d];
          L = (if last L = 0 then butlast L else L);
          L = (if last L = 0 then butlast L else L)
      in ''datetime.datetime('' @ join '', '' (map str_nat L) @ '')'')"

subsection \<open>Reading a date-time\<close>

text \<open>
  The text form a date-time field accepts: \<open>YYYY-MM-DDTHH:MM:SS\<close>, with an
  optional fraction of six digits, the form \<open>isoformat\<close> writes. Other spellings the
  validation library reads (a space for the \<open>T\<close>, a zone suffix, a number of
  seconds) are outside the model and rejected.
\<close>

definition digits_at :: "string \<Rightarrow> nat \<Rightarrow> nat \<Rightarrow> nat option" where
  "digits_at s i n =
     (let t = take n (drop i s)
      in if length t = n \<and> list_all is_digit t then Some (nat_of_digits t) else None)"

definition char_at :: "string \<Rightarrow> nat \<Rightarrow> char \<Rightarrow> bool" where
  "char_at s i c \<longleftrightarrow> i < length s \<and> s ! i = c"

definition parse_isoformat :: "string \<Rightarrow> datetime option" where
  "parse_isoformat s =
     (if (length s = 19 \<or> length s = 26 \<and> char_at s 19 (CHR ''.'')) \<and>
         char_at s 4 (CHR ''-'') \<and> char_at s 7 (CHR ''-'') \<and> char_at s 10 (CHR ''T'') \<and>
         char_at s 13 (CHR '':'') \<and> char_at s 16 (CHR '':'')
      then
        (case (digits_at s 0 4, digits_at s 5 2, digits_at s 8 2, digits_at s 11 2,
               digits_at s 14 2, digits_at s 17 2,
               if length s = 19 then Some 0 else digits_at s 20 6) of
           (Some y, Some mo, Some dd, Some h, Some mi, Some sec, Some us) \<Rightarrow>
             (let d = \<lparr>year = y, month = mo, day = dd, hour = h, minute = mi,
                       second = sec, microsecond = us\<rparr>
              in if valid_datetime d then Some d else None)
         | _ \<Rightarrow> None)
      else None)"

section \<open>Object identifiers\<close>

text \<open>
  The store's identifier is twelve bytes, a \<open>96 word\<close>; its \<open>str\<close> is the 24
  hexadecimal digits of the value.
\<close>

type_synonym objectid = "96 word"

definition oid_str :: "objectid \<Rightarrow> string" where
  "oid_str x = hex_fixed 24 (unat x)"

section \<open>Values and dictionaries\<close>

datatype pyval =
    VNone
  | VBool bool
  | VInt int
  | VStr string
  | VDatetime datetime
  | VObjectId objectid
  | VList "pyval list"
  | VDict "(string \<times> pyval) list"

type_synonym pydict = "(string \<times> pyval) list"

definition is_datetime :: "pyval \<Rightarrow> bool" where
  "is_datetime v = (case v of VDatetime _ \<Rightarrow> True | _ \<Rightarrow> False)"

text \<open>Python's truth value test, as \<open>if x\<close> and \<open>not x\<close> apply it.\<close>

fun py_truthy :: "pyval \<Rightarrow> bool" where
  "py_truthy VNone = False"
| "py_truthy (VBool b) = b"
| "py_truthy (VInt i) = (i \<noteq> 0)"
| "py_truthy (VStr s) = (s \<noteq> [])"
| "py_truthy (VDatetime d) = True"
| "py_truthy (VObjectId x) = True"
| "py_truthy (VList vs) = (vs \<noteq> [])"
| "py_truthy (VDict kvs) = (kvs \<noteq> [])"

subsection \<open>\<open>repr\<close> and \<open>str\<close>\<close>

text \<open>
  \<open>repr\<close> of a string chooses single quotes unless the string holds a single quote
  and no double quote, and escapes the quote, the backslash and the control characters.
  Characters are bytes here; every byte from 128 on is passed through, as Python does
  for the printable characters they encode.
\<close>

definition repr_quote :: "string \<Rightarrow> char" where
  "repr_quote s = (if CHR 0x27 \<in> set s \<and> CHR 0x22 \<notin> set s then CHR 0x22 else CHR 0x27)"

definition repr_char :: "char \<Rightarrow> char \<Rightarrow> string" where
  "repr_char q c =
     (if c = q \<or> c = CHR 0x5C then [CHR 0x5C, c]
      else if c = CHR 0x09 then [CHR 0x5C, CHR ''t'']
      else if c = CHR 0x0A then [CHR 0x5C, CHR ''n'']
      else if c = CHR 0x0D then [CHR 0x5C, CHR ''r'']
      else if (of_char c :: nat) < 32 \<or> (of_char c :: nat) = 127
        then [CHR 0x5C, CHR ''x''] @ hex_fixed 2 (of_char c)
      else [c])"

definition repr_str :: "string \<Rightarrow> string" where
  "repr_str s = (let q = repr_quote s in [q] @ concat (map (repr_char q) s) @ [q])"

fun py_repr :: "pyval \<Rightarrow> string" where
  "py_repr VNone = ''None''"
| "py_repr (VBool b) = (if b then ''True'' else ''False'')"
| "py_repr (VInt i) = str_int i"
| "py_repr (VStr s) = repr_str s"
| "py_repr (VDatetime d) = repr_datetime d"
| "py_repr (VObjectId x) = ''ObjectId('' @ [CHR 0x27] @ oid_str x @ [CHR 0x27] @ '')''"
| "py_repr (VList vs) = ''['' @ join '', '' (map py_repr vs) @ '']''"
| "py_repr (VDict kvs) =
     ''{'' @ join '', '' (map (\<lambda>(k, v). repr_str k @ '': '' @ py_repr v) kvs) @ ''}''"

definition py_str :: "pyval \<Rightarrow> string" where
  "py_str v =
     (case v of
        VStr s \<Rightarrow> s
      | VDatetime d \<Rightarrow> isoformat_sep (CHR '' '') d
      | VObjectId x \<Rightarrow> oid_str x
      | _ \<Rightarrow> py_repr v)"

subsection \<open>Dictionary operations\<close>

text \<open>
  \<open>d.get(k)\<close>, \<open>d[k] = v\<close> and \<open>d.pop(k, default)\<close> on an insertion-ordered
  dictionary. \<open>dict_pop\<close> returns the value and the remaining dictionary.
\<close>

definition dict_get :: "pydict \<Rightarrow> string \<Rightarrow> pyval option" where
  "dict_get d k = map_of d k"

definition dict_set :: "pydict \<Rightarrow> string \<Rightarrow> pyval \<Rightarrow> pydict" where
  "dict_set d k v = AList.update k v d"

definition dict_pop :: "pydict \<Rightarrow> string \<Rightarrow> pyval \<Rightarrow> pyval \<times> pydict" where
  "dict_pop d k dflt =
     (case map_of d k of None \<Rightarrow> (dflt, d) | Some v \<Rightarrow> (v, AList.delete k d))"

definition wf_dict :: "pydict \<Rightarrow> bool" where
  "wf_dict d \<longleftrightarrow> distinct (keys d)"

section \<open>Facts\<close>

text \<open>
  Identifiers print injectively on 24 digits; \<open>isoformat\<close> has a fixed length and
  \<open>parse_isoformat\<close> reads it back; the dictionary operations keep keys distinct.
\<close>

lemma length_oid_str [simp]: "length (oid_str x) = 24"
  by (simp add: oid_str_def)

lemma oid_str_inj [simp]: "oid_str x = oid_str y \<longleftrightarrow> x = y"
proof
  assume "oid_str x = oid_str y"
  then have "nat_of_hex (hex_fixed 24 (unat x)) = nat_of_hex (hex_fixed 24 (unat y))"
    by (simp add: oid_str_def)
  moreover have "unat x < 16 ^ 24" "unat y < 16 ^ 24"
    using unsigned_less [of x, where 'a = nat] unsigned_less [of y, where 'a = nat] by simp_all
  ultimately have "unat x = unat y"
    by (simp add: nat_of_hex_fixed)
  then show "x = y" by (simp add: word_unat_eq_iff)
qed simp

lemma digits_at_here:
  "length t = n \<Longrightarrow> list_all is_digit t \<Longrightarrow> digits_at (t @ r) 0 n = Some (nat_of_digits t)"
  by (simp add: digits_at_def)

lemma digits_at_skip:
  "length p = k \<Longrightarrow> k \<le> j \<Longrightarrow> digits_at (p @ r) j n = digits_at r (j - k) n"
  by (simp add: digits_at_def)

lemma digits_at_Cons:
  "0 < j \<Longrightarrow> digits_at (c # r) j n = digits_at r (j - 1) n"
  by (cases j) (simp_all add: digits_at_def)

lemma char_at_skip:
  "length p = k \<Longrightarrow> k \<le> j \<Longrightarrow> char_at (p @ r) j c = char_at r (j - k) c"
  by (auto simp: char_at_def nth_append)

lemma char_at_Cons:
  "0 < j \<Longrightarrow> char_at (x # r) j c = char_at r (j - 1) c"
  by (cases j) (auto simp: char_at_def)

lemma char_at_0 [simp]: "char_at (x # r) 0 c \<longleftrightarrow> x = c"
  by (auto simp: char_at_def)

lemma zfill_all_digits: "list_all is_digit (zfill w (str_nat n))"
  by (simp add: list_all_iff zfill_digits)

lemma digits_at_whole:
  "length t = n \<Longrightarrow> list_all is_digit t \<Longrightarrow> digits_at t 0 n = Some (nat_of_digits t)"
  by (simp add: digits_at_def)

lemmas parse_simps =
  digits_at_here digits_at_whole digits_at_skip digits_at_Cons char_at_skip char_at_Cons
  zfill_all_digits

lemma valid_datetime_bounds:
  assumes "valid_datetime d"
  shows "year d < 10 ^ 4" "month d < 10 ^ 2" "day d < 10 ^ 2" "hour d < 10 ^ 2"
    "minute d < 10 ^ 2" "second d < 10 ^ 2" "microsecond d < 10 ^ 6"
  using assms by (auto simp: valid_datetime_def days_in_month_def split: if_splits)

lemmas valid_datetime_lengths = valid_datetime_bounds [THEN length_zfill_str_nat, simplified]

lemma length_format_time:
  assumes "hour d < 24" "minute d < 60" "second d < 60" "microsecond d < 1000000"
  shows "length (format_time d) = (if microsecond d = 0 then 8 else 15)"
  using assms by (simp add: format_time_def)

lemma length_isoformat:
  assumes "valid_datetime d"
  shows "length (isoformat d) = (if microsecond d = 0 then 19 else 26)"
  using assms valid_datetime_lengths [OF assms]
  by (simp add: isoformat_def isoformat_sep_def format_time_def)

lemma parse_isoformat_isoformat:
  assumes "valid_datetime d"
  shows "parse_isoformat (isoformat d) = Some d"
proof (cases d)
  case (fields y mo dd h mi sec us)
  note len = valid_datetime_lengths [OF assms, unfolded fields, simplified]
  from assms len show ?thesis
    unfolding fields parse_isoformat_def isoformat_def isoformat_sep_def format_time_def
    by (auto simp add: parse_simps Let_def)
qed

lemma parse_isoformat_valid: "parse_isoformat s = Some d \<Longrightarrow> valid_datetime d"
  by (auto simp: parse_isoformat_def Let_def split: if_splits option.splits prod.splits)

lemma dict_pop_absent: "map_of d k = None \<Longrightarrow> dict_pop d k v0 = (v0, d)"
  by (simp add: dict_pop_def)

lemma dict_pop_present: "map_of d k = Some v \<Longrightarrow> dict_pop d k v0 = (v, AList.delete k d)"
  by (simp add: dict_pop_def)

lemma wf_dict_set [simp]: "wf_dict d \<Longrightarrow> wf_dict (dict_set d k v)"
  by (simp add: wf_dict_def dict_set_def distinct_update)

lemma wf_dict_pop [simp]: "wf_dict d \<Longrightarrow> wf_dict (snd (dict_pop d k v0))"
  by (auto simp: wf_dict_def dict_pop_def distinct_delete split: option.splits)

lemma wf_dict_Cons [simp]: "wf_dict ((k, v) # d) \<longleftrightarrow> k \<notin> set (keys d) \<and> wf_dict d"
  by (simp add: wf_dict_def)

lemma wf_dict_Nil [simp]: "wf_dict []"
  by (simp add: wf_dict_def)

lemma update_in_place:
  "k \<notin> set (keys pre) \<Longrightarrow> AList.update k v' (pre @ (k, v) # post) = pre @ (k, v') # post"
  by (induction pre) auto

section \<open>Properties of the values\<close>

text \<open>
  C35. ISO 8601 rendering loses nothing: the text \<open>isoformat\<close> gives for a valid
  date and time has 19 characters, or 26 with microseconds, and reading it back gives
  the same date and time.
\<close>

theorem isoformat_roundtrip:
  assumes "valid_datetime d"
  shows "parse_isoformat (isoformat d) = Some d \<and>
     length (isoformat d) = (if microsecond d = 0 then 19 else 26)"
  using assms by (simp add: parse_isoformat_isoformat length_isoformat)

theorem isoformat_roundtrip_witness:
  "parse_isoformat (isoformat \<lparr>year = 2024, month = 2, day = 29, hour = 23, minute = 59,
       second = 58, microsecond = 120\<rparr>)
     = Some \<lparr>year = 2024, month = 2, day = 29, hour = 23, minute = 59, second = 58,
         microsecond = 120\<rparr> \<and>
   length (isoformat \<lparr>year = 2024, month = 2, day = 29, hour = 23, minute = 59,
       second = 58, microsecond = 120\<rparr>) = 26"
  using isoformat_roundtrip [of "\<lparr>year = 2024, month = 2, day = 29, hour = 23, minute = 59,
       second = 58, microsecond = 120\<rparr>"]
  by (simp add: valid_datetime_def days_in_month_def is_leap_def)

text \<open>
  C40. The hexadecimal text of an identifier has 24 characters and determines the
  identifier: two identifiers with one text are equal.
\<close>

theorem oid_str_faithful: "length (oid_str x) = 24 \<and> (oid_str x = oid_str y \<longleftrightarrow> x = y)"
  by (simp add: oid_str_inj)

end
