(* ===== verification/Schemas.thy ===== *)
theory Schemas
  imports PyValue
begin

text \<open>
  The record schema catalog of \<open>src/schemas.py\<close>: one model per pydantic class,
  as the ordered table \<open>model_fields\<close> holds it (field name, annotation, default,
  bounds), and the validation a model applies to an incoming dictionary. The nine
  models are translated line by line from the class bodies. Validation is the
  behaviour the specification gives for the schema catalog: a required field must be
  present, a value must have its declared type, a bounded integer must be within its
  inclusive bounds, an enumerated value must be one of its literals, and defaults fill
  the fields that are absent. The lax coercions of the validation library (numeric
  strings read as integers, floats with no fraction) are not part of the model: a value
  of another type is an error.
\<close>

section \<open>Annotations and field declarations\<close>

datatype annot =
    TStr
  | TInt
  | TDatetime
  | TDict
  | TLiteral "string list"
  | TOptional annot
  | TList annot

text \<open>
  \<open>Required\<close> is the \<open>...\<close> of \<open>Field(...)\<close> and of a bare annotation,
  \<open>Default v\<close> a default value, \<open>DefaultFactory v\<close> a \<open>default_factory\<close>
  with the value it builds on every call.
\<close>

datatype field_default = Required | Default pyval | DefaultFactory pyval

record field_info =
  annotation :: annot
  default_of :: field_default
  ge :: "int option"
  le :: "int option"

type_synonym model = "(string \<times> field_info) list"

definition Field :: "annot \<Rightarrow> field_default \<Rightarrow> field_info" where
  "Field a d = \<lparr>annotation = a, default_of = d, ge = None, le = None\<rparr>"

section \<open>The nine models\<close>

definition Character :: model where
  "Character =
    [(''name'', Field TStr Required),
     (''race'', Field TStr Required),
     (''clazz'', Field TStr Required),
     (''faction'', Field (TLiteral [''Alliance'', ''Horde'', ''Neutral'']) (Default (VStr ''Neutral''))),
     (''level'', (Field TInt (Default (VInt 1)))\<lparr>ge := Some 1, le := Some 70\<rparr>),
     (''owner_discord'', Field (TOptional TStr) (Default VNone)),
     (''bio'', Field (TOptional TStr) (Default VNone)),
     (''alignment'', Field (TOptional TStr) (Default VNone)),
     (''skills'', Field (TList TStr) (DefaultFactory (VList []))),
     (''professions'', Field (TList TStr) (DefaultFactory (VList [])))]"

definition Backstory :: model where
  "Backstory =
    [(''character_name'', Field TStr Required),
     (''title'', Field TStr Required),
     (''content'', Field TStr Required),
     (''tags'', Field (TList TStr) (DefaultFactory (VList []))),
     (''status'', Field (TLiteral [''submitted'', ''approved'', ''revisions''])
        (Default (VStr ''submitted'')))]"

definition ActionReport :: model where
  "ActionReport =
    [(''character_name'', Field TStr Required),
     (''title'', Field TStr Required),
     (''content'', Field TStr Required),
     (''location'', Field (TOptional TStr) (Default VNone)),
     (''outcomes'', Field (TList TStr) (DefaultFactory (VList []))),
     (''rewards_requested'', Field (TList TStr) (DefaultFactory (VList []))),
     (''session_date'', Field (TOptional TDatetime) (Default VNone))]"

definition Event :: model where
  "Event =
    [(''title'', Field TStr Required),
     (''description'', Field TStr Required),
     (''date'', Field TDatetime Required),
     (''location'', Field TStr Required),
     (''organizer'', Field (TOptional TStr) (Default VNone)),
     (''event_type'', Field (TLiteral [''quest'', ''dnd-session'', ''market'', ''tournament'', ''social''])
        (Default (VStr ''quest''))),
     (''capacity'', Field (TOptional TInt) (Default VNone))]"

definition Quest :: model where
  "Quest =
    [(''title'', Field TStr Required),
     (''description'', Field TStr Required),
     (''difficulty'', Field (TLiteral [''easy'', ''normal'', ''hard'', ''epic''])
        (Default (VStr ''normal''))),
     (''status'', Field (TLiteral [''open'', ''in_progress'', ''completed''])
        (Default (VStr ''open''))),
     (''rewards'', Field (TList TStr) (DefaultFactory (VList [])))]"

definition Item :: model where
  "Item =
    [(''name'', Field TStr Required),
     (''quality'', Field (TLiteral [''poor'', ''common'', ''uncommon'', ''rare'', ''epic'', ''legendary''])
        (Default (VStr ''common''))),
     (''description'', Field (TOptional TStr) (Default VNone)),
     (''tags'', Field (TList TStr) (DefaultFactory (VList [])))]"

definition CraftRecipe :: model where
  "CraftRecipe =
    [(''name'', Field TStr Required),
     (''result_item'', Field TStr Required),
     (''ingredients'', Field (TList TDict) (DefaultFactory (VList []))),
     (''skill_required'', Field (TOptional TStr) (Default VNone))]"

definition SkillProgress :: model where
  "SkillProgress =
    [(''character_name'', Field TStr Required),
     (''skill'', Field TStr Required),
     (''rank'', (Field TInt (Default (VInt 1)))\<lparr>ge := Some 1\<rparr>),
     (''xp'', (Field TInt (Default (VInt 0)))\<lparr>ge := Some 0\<rparr>)]"

definition Member :: model where
  "Member =
    [(''nickname'', Field TStr Required),
     (''discord_id'', Field (TOptional TStr) (Default VNone)),
     (''roles'', Field (TList TStr) (DefaultFactory (VList [VStr ''member''])))]"

text \<open>
  The catalog: every model with the name of its collection (the lower-case class
  name, as the module's docstring fixes it).
\<close>

definition catalog :: "(string \<times> model) list" where
  "catalog =
    [(''character'', Character), (''backstory'', Backstory), (''actionreport'', ActionReport),
     (''event'', Event), (''quest'', Quest), (''item'', Item), (''craftrecipe'', CraftRecipe),
     (''skillprogress'', SkillProgress), (''member'', Member)]"

section \<open>Validation\<close>

datatype loc_item = LKey string | LIndex nat

datatype err_type =
    Missing
  | StringType
  | IntType
  | DatetimeType
  | DictType
  | ListType
  | LiteralError "string list"
  | GreaterThanEqual int
  | LessThanEqual int

text \<open>
  A validation error: where (the path from the body to the offending value), what was
  violated, and the offending input (for a missing field, the dictionary that lacks it).
\<close>

datatype verror = VError (loc: "loc_item list") (etype: err_type) (input: pyval)

definition prefix_loc :: "loc_item \<Rightarrow> verror \<Rightarrow> verror" where
  "prefix_loc l e = VError (l # loc e) (etype e) (input e)"

text \<open>
  The items of a list are validated one by one; every failing item reports its errors
  under its index, and the list is accepted when none fails.
\<close>

fun item_errors :: "nat \<Rightarrow> (verror list + pyval) list \<Rightarrow> verror list" where
  "item_errors i [] = []"
| "item_errors i (Inl es # rs) = map (prefix_loc (LIndex i)) es @ item_errors (Suc i) rs"
| "item_errors i (Inr v # rs) = item_errors (Suc i) rs"

fun item_values :: "(verror list + pyval) list \<Rightarrow> pyval list" where
  "item_values [] = []"
| "item_values (Inl es # rs) = item_values rs"
| "item_values (Inr v # rs) = v # item_values rs"

definition collect_items :: "(verror list + pyval) list \<Rightarrow> verror list + pyval" where
  "collect_items rs =
     (case item_errors 0 rs of [] \<Rightarrow> Inr (VList (item_values rs)) | es \<Rightarrow> Inl es)"

fun validate_value :: "annot \<Rightarrow> pyval \<Rightarrow> verror list + pyval" where
  "validate_value TStr v =
     (case v of VStr s \<Rightarrow> Inr v | _ \<Rightarrow> Inl [VError [] StringType v])"
| "validate_value TInt v =
     (case v of VInt i \<Rightarrow> Inr v | _ \<Rightarrow> Inl [VError [] IntType v])"
| "validate_value TDatetime v =
     (case v of
        VDatetime d \<Rightarrow> if valid_datetime d then Inr v else Inl [VError [] DatetimeType v]
      | VStr s \<Rightarrow>
          (case parse_isoformat s of
             Some d \<Rightarrow> Inr (VDatetime d)
           | None \<Rightarrow> Inl [VError [] DatetimeType v])
      | _ \<Rightarrow> Inl [VError [] DatetimeType v])"
| "validate_value TDict v =
     (case v of VDict kvs \<Rightarrow> Inr v | _ \<Rightarrow> Inl [VError [] DictType v])"
| "validate_value (TLiteral ls) v =
     (case v of
        VStr s \<Rightarrow> if s \<in> set ls then Inr v else Inl [VError [] (LiteralError ls) v]
      | _ \<Rightarrow> Inl [VError [] (LiteralError ls) v])"
| "validate_value (TOptional a) v = (if v = VNone then Inr VNone else validate_value a v)"
| "validate_value (TList a) v =
     (case v of
        VList vs \<Rightarrow> collect_items (map (validate_value a) vs)
      | _ \<Rightarrow> Inl [VError [] ListType v])"

text \<open>
  The bounds of \<open>Field(ge=..., le=...)\<close>, checked on an integer that has its type:
  the upper bound first, then the lower one, and the first violation is the error.
\<close>

definition check_le :: "field_info \<Rightarrow> pyval \<Rightarrow> verror list + pyval" where
  "check_le f v =
     (case (v, le f) of
        (VInt i, Some u) \<Rightarrow> if i \<le> u then Inr v else Inl [VError [] (LessThanEqual u) v]
      | _ \<Rightarrow> Inr v)"

definition check_ge :: "field_info \<Rightarrow> pyval \<Rightarrow> verror list + pyval" where
  "check_ge f v =
     (case (v, ge f) of
        (VInt i, Some l) \<Rightarrow> if l \<le> i then Inr v else Inl [VError [] (GreaterThanEqual l) v]
      | _ \<Rightarrow> Inr v)"

definition check_bounds :: "field_info \<Rightarrow> pyval \<Rightarrow> verror list + pyval" where
  "check_bounds f v = raise_bind (check_le f v) (check_ge f)"

text \<open>
  One field of a model against the input dictionary: an absent key takes the default or
  is the error \<open>Missing\<close>; a present one is validated against the annotation and the
  bounds, and its errors are reported under the field's name.
\<close>

definition validate_field :: "string \<Rightarrow> field_info \<Rightarrow> pydict \<Rightarrow> verror list + pyval" where
  "validate_field name f d =
     (case map_of d name of
        None \<Rightarrow>
          (case default_of f of
             Required \<Rightarrow> Inl [VError [LKey name] Missing (VDict d)]
           | Default v \<Rightarrow> Inr v
           | DefaultFactory v \<Rightarrow> Inr v)
      | Some v \<Rightarrow>
          (case raise_bind (validate_value (annotation f) v) (check_bounds f) of
             Inl es \<Rightarrow> Inl (map (prefix_loc (LKey name)) es)
           | Inr v' \<Rightarrow> Inr v'))"

text \<open>
  All fields, in declaration order: the errors of every failing field, and the validated
  record built from the others. Keys of the input that no field declares are ignored.
\<close>

fun validate_fields :: "model \<Rightarrow> pydict \<Rightarrow> verror list \<times> pydict" where
  "validate_fields [] d = ([], [])"
| "validate_fields ((name, f) # m) d =
     (let (es, r) = validate_fields m d
      in case validate_field name f d of
           Inl es' \<Rightarrow> (es' @ es, r)
         | Inr v \<Rightarrow> (es, (name, v) # r))"

definition validate_model :: "model \<Rightarrow> pydict \<Rightarrow> verror list + pydict" where
  "validate_model m d =
     (case validate_fields m d of ([], r) \<Rightarrow> Inr r | (es, r) \<Rightarrow> Inl es)"

section \<open>What a validated record is\<close>

text \<open>
  The data model of the specification as a predicate: \<open>has_type a v\<close> says that
  \<open>v\<close> is a value of annotation \<open>a\<close>, \<open>in_bounds f v\<close> that an integer respects
  the field's bounds, and \<open>conforms m r\<close> that \<open>r\<close> has exactly the fields of
  \<open>m\<close>, in order, each with a value of its type within its bounds.
\<close>

fun has_type :: "annot \<Rightarrow> pyval \<Rightarrow> bool" where
  "has_type TStr v = (case v of VStr s \<Rightarrow> True | _ \<Rightarrow> False)"
| "has_type TInt v = (case v of VInt i \<Rightarrow> True | _ \<Rightarrow> False)"
| "has_type TDatetime v = (case v of VDatetime d \<Rightarrow> valid_datetime d | _ \<Rightarrow> False)"
| "has_type TDict v = (case v of VDict kvs \<Rightarrow> True | _ \<Rightarrow> False)"
| "has_type (TLiteral ls) v = (case v of VStr s \<Rightarrow> s \<in> set ls | _ \<Rightarrow> False)"
| "has_type (TOptional a) v = (v = VNone \<or> has_type a v)"
| "has_type (TList a) v = (case v of VList vs \<Rightarrow> list_all (has_type a) vs | _ \<Rightarrow> False)"

definition in_bounds :: "field_info \<Rightarrow> pyval \<Rightarrow> bool" where
  "in_bounds f v =
     (case v of
        VInt i \<Rightarrow>
          (case le f of Some u \<Rightarrow> i \<le> u | None \<Rightarrow> True) \<and>
          (case ge f of Some l \<Rightarrow> l \<le> i | None \<Rightarrow> True)
      | _ \<Rightarrow> True)"

definition field_ok :: "field_info \<Rightarrow> pyval \<Rightarrow> bool" where
  "field_ok f v \<longleftrightarrow> has_type (annotation f) v \<and> in_bounds f v"

fun conforms :: "model \<Rightarrow> pydict \<Rightarrow> bool" where
  "conforms [] [] = True"
| "conforms ((name, f) # m) ((k, v) # r) = (k = name \<and> field_ok f v \<and> conforms m r)"
| "conforms _ _ = False"

text \<open>
  A model is well formed when its field names are distinct and every default is a value
  the field itself would accept.
\<close>

definition default_ok :: "field_info \<Rightarrow> bool" where
  "default_ok f =
     (case default_of f of
        Required \<Rightarrow> True
      | Default v \<Rightarrow> field_ok f v
      | DefaultFactory v \<Rightarrow> field_ok f v)"

definition wf_model :: "model \<Rightarrow> bool" where
  "wf_model m \<longleftrightarrow> distinct (keys m) \<and> list_all (\<lambda>(name, f). default_ok f) m"

section \<open>Facts about validation\<close>

lemmas model_simps [model_defs] =
  Character_def Backstory_def ActionReport_def Event_def Quest_def Item_def
  CraftRecipe_def SkillProgress_def Member_def Field_def

subsection \<open>Items of a list\<close>

lemma item_errors_map_Inr [simp]: "item_errors i (map Inr vs) = []"
  by (induction vs arbitrary: i) simp_all

lemma item_values_map_Inr [simp]: "item_values (map Inr vs) = vs"
  by (induction vs) simp_all

lemma collect_items_map_Inr [simp]: "collect_items (map Inr vs) = Inr (VList vs)"
  by (simp add: collect_items_def)

lemma item_errors_empty:
  "item_errors i rs = [] \<Longrightarrow> Inl [] \<notin> set rs \<Longrightarrow> rs = map Inr (item_values rs)"
  by (induction i rs rule: item_errors.induct) auto

lemma collect_items_Inr:
  assumes "collect_items rs = Inr w" and "Inl [] \<notin> set rs"
  shows "w = VList (item_values rs) \<and> rs = map Inr (item_values rs)"
  using assms by (auto simp: collect_items_def split: list.splits dest: item_errors_empty)

lemma collect_items_nonempty [simp]: "collect_items rs \<noteq> Inl []"
  by (simp add: collect_items_def split: list.splits)

subsection \<open>Values\<close>

lemma validate_value_nonempty [simp]: "validate_value a v \<noteq> Inl []"
  by (induction a arbitrary: v) (auto split: pyval.splits option.splits)

lemma validate_value_sound: "validate_value a v = Inr w \<Longrightarrow> has_type a w"
proof (induction a arbitrary: v w)
  case (TList a)
  then obtain vs where v: "v = VList vs"
    by (cases v) auto
  let ?rs = "map (validate_value a) vs"
  have "Inl [] \<notin> set ?rs" by (auto dest: sym)
  with TList.prems v have w: "w = VList (item_values ?rs)" and rs: "?rs = map Inr (item_values ?rs)"
    using collect_items_Inr [of ?rs w] by auto
  have "has_type a x" if "x \<in> set (item_values ?rs)" for x
  proof -
    from that rs have "Inr x \<in> set ?rs" by (metis (no_types, lifting) image_eqI list.set_map)
    then obtain u where "validate_value a u = Inr x" by auto
    then show ?thesis by (rule TList.IH)
  qed
  with w show ?case by (simp add: list_all_iff)
qed (auto split: pyval.splits option.splits if_splits dest: parse_isoformat_valid)

lemma validate_value_complete: "has_type a v \<Longrightarrow> validate_value a v = Inr v"
proof (induction a arbitrary: v)
  case (TList a)
  then obtain vs where v: "v = VList vs" and all: "list_all (has_type a) vs"
    by (cases v) auto
  from all TList.IH have eq: "map (validate_value a) vs = map Inr vs"
    by (simp add: list_all_iff)
  show ?case unfolding v by (simp add: eq)
qed (auto split: pyval.splits)

lemma has_type_validated: "has_type a v \<longleftrightarrow> validate_value a v = Inr v"
  using validate_value_sound validate_value_complete by blast

subsection \<open>Bounds\<close>

lemma check_bounds_Inr: "check_bounds f v = Inr w \<longleftrightarrow> w = v \<and> in_bounds f v"
  by (cases v; cases "le f"; cases "ge f")
     (auto simp: check_bounds_def check_le_def check_ge_def in_bounds_def)

lemma check_bounds_nonempty [simp]: "check_bounds f v \<noteq> Inl []"
  by (cases v; cases "le f"; cases "ge f")
     (auto simp: check_bounds_def check_le_def check_ge_def)

lemma check_bounds_above:
  "le f = Some u \<Longrightarrow> u < i \<Longrightarrow> check_bounds f (VInt i) = Inl [VError [] (LessThanEqual u) (VInt i)]"
  by (simp add: check_bounds_def check_le_def)

lemma check_bounds_below:
  "ge f = Some l \<Longrightarrow> i < l \<Longrightarrow> (case le f of Some u \<Rightarrow> i \<le> u | None \<Rightarrow> True) \<Longrightarrow>
   check_bounds f (VInt i) = Inl [VError [] (GreaterThanEqual l) (VInt i)]"
  by (auto simp: check_bounds_def check_le_def check_ge_def split: option.splits)

subsection \<open>Fields\<close>

lemma validate_field_absent:
  "map_of d name = None \<Longrightarrow>
   validate_field name f d =
     (case default_of f of
        Required \<Rightarrow> Inl [VError [LKey name] Missing (VDict d)]
      | Default v \<Rightarrow> Inr v | DefaultFactory v \<Rightarrow> Inr v)"
  by (simp add: validate_field_def)

lemma validate_field_present:
  "map_of d name = Some v \<Longrightarrow>
   validate_field name f d =
     (case raise_bind (validate_value (annotation f) v) (check_bounds f) of
        Inl es \<Rightarrow> Inl (map (prefix_loc (LKey name)) es) | Inr v' \<Rightarrow> Inr v')"
  by (simp add: validate_field_def)

lemma validate_field_nonempty [simp]: "validate_field name f d \<noteq> Inl []"
  by (auto simp: validate_field_def raise_bind_eq_Inl_iff
      split: option.splits field_default.splits sum.splits)

lemma validate_field_sound:
  assumes "validate_field name f d = Inr v" and "default_ok f"
  shows "field_ok f v"
proof (cases "map_of d name")
  case None
  with assms show ?thesis
    by (auto simp: validate_field_absent default_ok_def split: field_default.splits)
next
  case (Some u)
  with assms(1) obtain w where "validate_value (annotation f) u = Inr w" "check_bounds f w = Inr v"
    by (auto simp: validate_field_present raise_bind_eq_Inr_iff split: sum.splits)
  then show ?thesis
    by (auto simp: field_ok_def check_bounds_Inr dest: validate_value_sound)
qed

lemma validate_field_complete:
  "map_of d name = Some v \<Longrightarrow> field_ok f v \<Longrightarrow> validate_field name f d = Inr v"
  by (simp add: validate_field_present field_ok_def validate_value_complete
      check_bounds_Inr [THEN iffD2])

lemma validate_field_cong:
  "map_of d name = map_of d' name \<Longrightarrow> validate_field name f d = Inr v \<Longrightarrow>
   validate_field name f d' = Inr v"
  by (auto simp: validate_field_def split: option.splits field_default.splits)

lemma validate_field_loc:
  "validate_field name f d = Inl es \<Longrightarrow> e \<in> set es \<Longrightarrow> \<exists>l. loc e = LKey name # l"
  by (auto simp: validate_field_def prefix_loc_def
      split: option.splits field_default.splits sum.splits)

subsection \<open>Models\<close>

lemma conforms_keys: "conforms m r \<Longrightarrow> keys r = keys m"
  by (induction m r rule: conforms.induct) auto

lemma conforms_length: "conforms m r \<Longrightarrow> length r = length m"
  by (induction m r rule: conforms.induct) auto

lemma conforms_lookup:
  "conforms m r \<Longrightarrow> distinct (keys m) \<Longrightarrow> (name, f) \<in> set m \<Longrightarrow>
   \<exists>v. map_of r name = Some v \<and> field_ok f v"
proof (induction m r rule: conforms.induct)
  case (2 n g m k v r)
  then show ?case by (auto simp: rev_image_eqI)
qed auto

lemma validate_fields_errors:
  "fst (validate_fields m d) =
     concat (map (\<lambda>(name, f). case validate_field name f d of Inl es \<Rightarrow> es | Inr v \<Rightarrow> []) m)"
  by (induction m) (auto split: prod.splits sum.splits)

lemma validate_fields_record:
  "snd (validate_fields m d) =
     concat (map (\<lambda>(name, f). case validate_field name f d of Inl es \<Rightarrow> [] | Inr v \<Rightarrow> [(name, v)]) m)"
  by (induction m) (auto split: prod.splits sum.splits)

lemma validate_fields_ok:
  "validate_fields m d = ([], r) \<Longrightarrow> list_all (\<lambda>(name, f). default_ok f) m \<Longrightarrow> conforms m r"
proof (induction m arbitrary: r)
  case (Cons p m)
  obtain name f where p: "p = (name, f)" by (cases p)
  obtain es r' where rest: "validate_fields m d = (es, r')" by (cases "validate_fields m d")
  from Cons.prems(1) p rest obtain v where
    v: "validate_field name f d = Inr v" and r: "r = (name, v) # r'" and es: "es = []"
    by (cases "validate_field name f d") auto
  from Cons.prems(2) p v have "field_ok f v"
    by (auto intro: validate_field_sound)
  moreover from Cons.IH [of r'] rest es Cons.prems(2) have "conforms m r'" by simp
  ultimately show ?case using p r by simp
qed simp

lemma validate_fields_conforming:
  "conforms m r \<Longrightarrow> (\<And>k v. (k, v) \<in> set r \<Longrightarrow> map_of d k = Some v) \<Longrightarrow>
   validate_fields m d = ([], r)"
proof (induction m r rule: conforms.induct)
  case (2 name f m k v r)
  then have "validate_field name f d = Inr v"
    by (auto intro: validate_field_complete)
  with 2 show ?case by auto
qed auto

lemma validate_model_Inr: "validate_model m d = Inr r \<longleftrightarrow> validate_fields m d = ([], r)"
  by (auto simp: validate_model_def split: prod.splits list.splits)

lemma validate_model_Inl:
  "validate_model m d = Inl es \<longleftrightarrow> es \<noteq> [] \<and> fst (validate_fields m d) = es"
  by (auto simp: validate_model_def split: prod.splits list.splits)

lemma validate_model_sound: "wf_model m \<Longrightarrow> validate_model m d = Inr r \<Longrightarrow> conforms m r"
  by (auto simp: validate_model_Inr wf_model_def intro: validate_fields_ok)

lemma validate_model_idem:
  assumes "conforms m r" and "distinct (keys m)"
  shows "validate_model m r = Inr r"
proof -
  from assms have "distinct (keys r)" by (simp add: conforms_keys)
  then have "map_of r k = Some v" if "(k, v) \<in> set r" for k v
    using that by simp
  with assms(1) show ?thesis
    by (simp add: validate_model_Inr validate_fields_conforming)
qed

lemma validate_model_missing:
  assumes "(name, f) \<in> set m" and "default_of f = Required" and "map_of d name = None"
  shows "\<exists>es. validate_model m d = Inl es \<and> VError [LKey name] Missing (VDict d) \<in> set es"
proof -
  from assms(2,3) have "validate_field name f d = Inl [VError [LKey name] Missing (VDict d)]"
    by (simp add: validate_field_absent)
  with assms(1) have "VError [LKey name] Missing (VDict d) \<in> set (fst (validate_fields m d))"
    by (force simp: validate_fields_errors)
  then show ?thesis
    by (cases "validate_model m d") (auto simp: validate_model_Inl validate_model_Inr)
qed

lemma validate_fields_error_source:
  "e \<in> set (fst (validate_fields m d)) \<Longrightarrow>
   \<exists>name f es. (name, f) \<in> set m \<and> validate_field name f d = Inl es \<and> e \<in> set es"
  by (induction m) (auto split: prod.splits sum.splits, blast+)

lemma validate_model_loc:
  assumes "validate_model m d = Inl es" and "e \<in> set es"
  shows "\<exists>name l. name \<in> set (keys m) \<and> loc e = LKey name # l"
proof -
  from assms have "e \<in> set (fst (validate_fields m d))"
    by (simp add: validate_model_Inl)
  then obtain name f es' where nf: "(name, f) \<in> set m"
    and "validate_field name f d = Inl es'" "e \<in> set es'"
    using validate_fields_error_source by blast
  then have "\<exists>l. loc e = LKey name # l" by (auto dest: validate_field_loc)
  with nf show ?thesis by force
qed

lemma validate_model_extra:
  assumes "\<And>k. k \<in> set (keys m) \<Longrightarrow> map_of d k = map_of d' k"
    and "validate_model m d = Inr r"
  shows "validate_model m d' = Inr r"
  using assms unfolding validate_model_Inr
proof (induction m arbitrary: r)
  case (Cons p m)
  obtain name f where p: "p = (name, f)" by (cases p)
  obtain es r' where rest: "validate_fields m d = (es, r')" by (cases "validate_fields m d")
  from Cons.prems(2) p rest obtain v where
    v: "validate_field name f d = Inr v" and r: "r = (name, v) # r'" and es: "es = []"
    by (cases "validate_field name f d") auto
  from Cons.prems(1) p v have "validate_field name f d' = Inr v"
    by (auto intro: validate_field_cong)
  moreover from Cons.IH [of r'] Cons.prems(1) rest es have "validate_fields m d' = ([], r')"
    by simp
  ultimately show ?case using p r by simp
qed simp

subsection \<open>The catalog\<close>

lemma catalog_wf: "list_all (\<lambda>(c, m). wf_model m) catalog"
  by (simp add: catalog_def wf_model_def default_ok_def field_ok_def in_bounds_def model_defs)

lemma catalog_wf_model: "(c, m) \<in> set catalog \<Longrightarrow> wf_model m"
  using catalog_wf by (auto simp: list_all_iff)

section \<open>Properties of validation\<close>

lemma validate_model_field_error:
  assumes "(name, f) \<in> set m" and "validate_field name f d = Inl es'" and "e \<in> set es'"
  shows "\<exists>es. validate_model m d = Inl es \<and> e \<in> set es"
proof -
  from assms have "e \<in> set (fst (validate_fields m d))"
    by (force simp: validate_fields_errors)
  then show ?thesis by (auto simp: validate_model_Inl)
qed

text \<open>
  C2. Validation is sound for every model of the catalogue: a record that
  \<open>validate_model\<close> returns has exactly the declared fields, in the declared
  order, each holding a value of the field's annotation within the field's bounds.
\<close>

theorem validation_sound:
  assumes "(c, m) \<in> set catalog" and "validate_model m d = Inr r"
  shows "conforms m r \<and> keys r = keys m"
proof -
  from assms have "conforms m r"
    by (blast intro: validate_model_sound catalog_wf_model)
  then show ?thesis by (simp add: conforms_keys)
qed

theorem validation_sound_witness:
  "conforms Quest
     [(''title'', VStr ''Bounty''), (''description'', VStr ''Hogger''),
      (''difficulty'', VStr ''normal''), (''status'', VStr ''open''), (''rewards'', VList [])] \<and>
   keys [(''title'', VStr ''Bounty''), (''description'', VStr ''Hogger''),
      (''difficulty'', VStr ''normal''), (''status'', VStr ''open''), (''rewards'', VList [])]
     = keys Quest"
proof -
  have "(''quest'', Quest) \<in> set catalog" by (simp add: catalog_def)
  moreover have "validate_model Quest [(''title'', VStr ''Bounty''), (''description'', VStr ''Hogger'')]
      = Inr [(''title'', VStr ''Bounty''), (''description'', VStr ''Hogger''),
          (''difficulty'', VStr ''normal''), (''status'', VStr ''open''), (''rewards'', VList [])]"
    by code_simp
  ultimately show ?thesis by (rule validation_sound)
qed

text \<open>
  C24. Validation is complete and changes nothing it accepts: a record that already
  conforms to a model of the catalogue is returned as it is. With soundness, validating
  twice is validating once.
\<close>

theorem validation_complete:
  assumes "(c, m) \<in> set catalog" and "conforms m r"
  shows "validate_model m r = Inr r"
proof -
  from assms(1) have "wf_model m" by (rule catalog_wf_model)
  then have "distinct (keys m)" by (simp add: wf_model_def)
  with assms(2) show ?thesis by (rule validate_model_idem)
qed

theorem validation_complete_witness:
  "validate_model Member
     [(''nickname'', VStr ''Jaina''), (''discord_id'', VStr ''42''), (''roles'', VList [VStr ''gm''])]
   = Inr [(''nickname'', VStr ''Jaina''), (''discord_id'', VStr ''42''), (''roles'', VList [VStr ''gm''])]"
proof -
  have "(''member'', Member) \<in> set catalog" by (simp add: catalog_def)
  moreover have "conforms Member
     [(''nickname'', VStr ''Jaina''), (''discord_id'', VStr ''42''), (''roles'', VList [VStr ''gm''])]"
    by code_simp
  ultimately show ?thesis by (rule validation_complete)
qed

text \<open>
  C33. A field that the body leaves out and that has a default, or a default factory,
  holds that default in the validated record.
\<close>

theorem defaults_applied:
  assumes "wf_model m" and "(name, f) \<in> set m" and "map_of d name = None"
    and "default_of f = Default v \<or> default_of f = DefaultFactory v"
    and "validate_model m d = Inr r"
  shows "map_of r name = Some v"
proof -
  from assms(3,4) have "validate_field name f d = Inr v"
    by (auto simp: validate_field_absent)
  with assms(2) have "(name, v) \<in> set (snd (validate_fields m d))"
    by (force simp: validate_fields_record)
  with assms(5) have "(name, v) \<in> set r" by (simp add: validate_model_Inr)
  moreover have "distinct (keys r)"
    using validate_model_sound [OF assms(1,5)] assms(1) by (simp add: conforms_keys wf_model_def)
  ultimately show ?thesis by simp
qed

theorem defaults_applied_witness:
  "map_of [(''title'', VStr ''Bounty''), (''description'', VStr ''Hogger''),
      (''difficulty'', VStr ''normal''), (''status'', VStr ''open''), (''rewards'', VList [])]
     ''rewards'' = Some (VList [])"
proof -
  have "wf_model Quest" by (rule catalog_wf_model [of "''quest''"]) (simp add: catalog_def)
  moreover have "(''rewards'', Field (TList TStr) (DefaultFactory (VList []))) \<in> set Quest"
    by (simp add: model_defs)
  moreover have "map_of [(''title'', VStr ''Bounty''), (''description'', VStr ''Hogger'')] ''rewards'' = None"
    by simp
  moreover have "default_of (Field (TList TStr) (DefaultFactory (VList []))) = Default (VList [])
      \<or> default_of (Field (TList TStr) (DefaultFactory (VList []))) = DefaultFactory (VList [])"
    by (simp add: Field_def)
  moreover have "validate_model Quest [(''title'', VStr ''Bounty''), (''description'', VStr ''Hogger'')]
      = Inr [(''title'', VStr ''Bounty''), (''description'', VStr ''Hogger''),
          (''difficulty'', VStr ''normal''), (''status'', VStr ''open''), (''rewards'', VList [])]"
    by code_simp
  ultimately show ?thesis by (rule defaults_applied)
qed

text \<open>
  The level of a validated character is an integer from 1 to 70.
\<close>

theorem character_level_bounds:
  assumes "validate_model Character d = Inr r"
  shows "\<exists>i. map_of r ''level'' = Some (VInt i) \<and> 1 \<le> i \<and> i \<le> 70"
proof -
  have wf: "wf_model Character" by (rule catalog_wf_model [of "''character''"]) (simp add: catalog_def)
  from wf assms have "conforms Character r" by (rule validate_model_sound)
  moreover have "(''level'', (Field TInt (Default (VInt 1)))\<lparr>ge := Some 1, le := Some 70\<rparr>) \<in> set Character"
    by (simp add: model_defs)
  ultimately obtain v where "map_of r ''level'' = Some v"
    and "field_ok ((Field TInt (Default (VInt 1)))\<lparr>ge := Some 1, le := Some 70\<rparr>) v"
    using wf by (auto simp: wf_model_def dest: conforms_lookup)
  then show ?thesis
    by (cases v) (auto simp: field_ok_def in_bounds_def Field_def)
qed

theorem character_level_bounds_witness:
  "\<exists>i. map_of [(''name'', VStr ''Thrall''), (''race'', VStr ''Orc''), (''clazz'', VStr ''Shaman''),
      (''faction'', VStr ''Horde''), (''level'', VInt 70), (''owner_discord'', VNone),
      (''bio'', VNone), (''alignment'', VNone), (''skills'', VList []), (''professions'', VList [])]
     ''level'' = Some (VInt i) \<and> 1 \<le> i \<and> i \<le> 70"
proof -
  have "validate_model Character
      [(''name'', VStr ''Thrall''), (''race'', VStr ''Orc''), (''clazz'', VStr ''Shaman''),
       (''faction'', VStr ''Horde''), (''level'', VInt 70)]
    = Inr [(''name'', VStr ''Thrall''), (''race'', VStr ''Orc''), (''clazz'', VStr ''Shaman''),
      (''faction'', VStr ''Horde''), (''level'', VInt 70), (''owner_discord'', VNone),
      (''bio'', VNone), (''alignment'', VNone), (''skills'', VList []), (''professions'', VList [])]"
    by code_simp
  then show ?thesis by (rule character_level_bounds)
qed

text \<open>
  C31. An integer above the upper bound of its field is rejected, and the errors name
  the field, the bound and the offending value. For a character this is a level above 70.
\<close>

theorem above_bound_rejected:
  assumes "(name, f) \<in> set m" and "annotation f = TInt" and "le f = Some u"
    and "map_of d name = Some (VInt i)" and "u < i"
  shows "\<exists>es. validate_model m d = Inl es \<and> VError [LKey name] (LessThanEqual u) (VInt i) \<in> set es"
proof -
  from assms(2-5) have "validate_field name f d = Inl [VError [LKey name] (LessThanEqual u) (VInt i)]"
    by (simp add: validate_field_present check_bounds_def check_le_def prefix_loc_def)
  with assms(1) show ?thesis by (rule validate_model_field_error) simp
qed

theorem above_bound_rejected_witness:
  "\<exists>es. validate_model Character
      [(''name'', VStr ''Thrall''), (''race'', VStr ''Orc''), (''clazz'', VStr ''Shaman''),
       (''level'', VInt 71)] = Inl es \<and>
     VError [LKey ''level''] (LessThanEqual 70) (VInt 71) \<in> set es"
  by (rule above_bound_rejected [where f = "(Field TInt (Default (VInt 1)))\<lparr>ge := Some 1, le := Some 70\<rparr>"])
     (simp_all add: model_defs)

text \<open>
  C32. A text outside the enumeration of its field is rejected, and the errors name the
  field, the allowed values and the offending text. For a quest this is a difficulty
  such as \<open>impossible\<close>.
\<close>

theorem literal_rejected:
  assumes "(name, f) \<in> set m" and "annotation f = TLiteral ls"
    and "map_of d name = Some (VStr s)" and "s \<notin> set ls"
  shows "\<exists>es. validate_model m d = Inl es \<and> VError [LKey name] (LiteralError ls) (VStr s) \<in> set es"
proof -
  from assms(2-4) have "validate_field name f d = Inl [VError [LKey name] (LiteralError ls) (VStr s)]"
    by (simp add: validate_field_present prefix_loc_def)
  with assms(1) show ?thesis by (rule validate_model_field_error) simp
qed

theorem literal_rejected_witness:
  "\<exists>es. validate_model Quest
      [(''title'', VStr ''Bounty''), (''description'', VStr ''Hogger''),
       (''difficulty'', VStr ''impossible'')] = Inl es \<and>
     VError [LKey ''difficulty''] (LiteralError [''easy'', ''normal'', ''hard'', ''epic''])
       (VStr ''impossible'') \<in> set es"
  by (rule literal_rejected [where f = "Field (TLiteral [''easy'', ''normal'', ''hard'', ''epic'']) (Default (VStr ''normal''))"])
     (simp_all add: model_defs)

text \<open>
  C34. The character's class travels under the key \<open>clazz\<close>: the model declares no
  alias, so a body that has no \<open>clazz\<close>, for instance one that sends \<open>class\<close>,
  is rejected with a missing-field error for \<open>clazz\<close>.
\<close>

theorem class_key_is_clazz:
  assumes "map_of d ''clazz'' = None"
  shows "\<exists>es. validate_model Character d = Inl es \<and>
     VError [LKey ''clazz''] Missing (VDict d) \<in> set es"
  using _ _ assms by (rule validate_model_missing [where f = "Field TStr Required"])
    (simp_all add: model_defs)

theorem class_key_is_clazz_witness:
  "\<exists>es. validate_model Character
      [(''name'', VStr ''Thrall''), (''race'', VStr ''Orc''), (''class'', VStr ''Shaman'')] = Inl es \<and>
     VError [LKey ''clazz''] Missing
       (VDict [(''name'', VStr ''Thrall''), (''race'', VStr ''Orc''), (''class'', VStr ''Shaman'')])
       \<in> set es"
  by (rule class_key_is_clazz) simp

text \<open>
  A rejection is never empty, and every error of it is located under a field the
  model declares.
\<close>

theorem validation_errors_located:
  assumes "validate_model m d = Inl es"
  shows "es \<noteq> [] \<and> (\<forall>e \<in> set es. \<exists>name l. name \<in> set (keys m) \<and> loc e = LKey name # l)"
  using assms validate_model_loc [OF assms] by (auto simp: validate_model_Inl)

theorem validation_errors_located_witness:
  "\<exists>name l. name \<in> set (keys Member) \<and>
     loc (VError [LKey ''nickname''] Missing (VDict [])) = LKey name # l"
proof -
  have "validate_model Member [] = Inl [VError [LKey ''nickname''] Missing (VDict [])]"
    by code_simp
  from validation_errors_located [OF this] show ?thesis by simp
qed

text \<open>
  Keys of the body that the model does not declare are ignored: adding one to an
  accepted body changes nothing in the validated record.
\<close>

theorem extra_keys_ignored:
  assumes "validate_model m d = Inr r" and "k \<notin> set (keys m)"
  shows "validate_model m (dict_set d k v) = Inr r"
proof (rule validate_model_extra [OF _ assms(1)])
  fix k' assume "k' \<in> set (keys m)"
  with assms(2) have "k' \<noteq> k" by auto
  then show "map_of d k' = map_of (dict_set d k v) k'"
    by (simp add: dict_set_def map_of_update)
qed

theorem extra_keys_ignored_witness:
  "validate_model Member (dict_set [(''nickname'', VStr ''Jaina'')] ''rank'' (VInt 3))
     = Inr [(''nickname'', VStr ''Jaina''), (''discord_id'', VNone), (''roles'', VList [VStr ''member''])]"
proof -
  have "validate_model Member [(''nickname'', VStr ''Jaina'')]
     = Inr [(''nickname'', VStr ''Jaina''), (''discord_id'', VNone), (''roles'', VList [VStr ''member''])]"
    by code_simp
  moreover have "''rank'' \<notin> set (keys Member)" by (simp add: model_defs)
  ultimately show ?thesis by (rule extra_keys_ignored)
qed

end
