(* ===== verification/Database.thy ===== *)
theory Database
  imports PyValue
begin

text \<open>
  The persistence access layer, the module \<open>database\<close> that \<open>src/main.py\<close>
  imports \<open>db\<close>, \<open>create_document\<close> and \<open>get_documents\<close> from. Its source is
  not part of the repository's \<open>src/\<close>, so it is modelled from the specification:
  a connection handle that is either absent or a database with named collections,
  insert-one, find-many with an exact-match filter, and the accessors the diagnostics
  endpoint reads. A collection is the list of its documents in insertion order, which
  stands for the creation time the store records with each document. The store's
  identifier generator is a counter on twelve bytes. A database can be in a faulty
  condition (the server does not answer): then a write raises, a read degrades to the
  empty result, and listing the collections raises.
\<close>

section \<open>State\<close>

record database =
  db_name :: string
  colls :: "(string \<times> pydict list) list"
  next_id :: objectid
  fault :: "string option"

text \<open>The module's global \<open>db\<close>: \<open>None\<close> while no database is reachable.\<close>

type_synonym db_handle = "database option"

datatype db_error = StorageUnavailable | StorageFailure string

definition empty_database :: "string \<Rightarrow> database" where
  "empty_database name = \<lparr>db_name = name, colls = [], next_id = 0, fault = None\<rparr>"

text \<open>
  The one transition of the handle, taken at start-up: with a connection string
  configured and a server that answers, the handle is the server's database; otherwise
  it stays absent. \<open>server\<close> is what a connection attempt would reach.
\<close>

definition connect :: "string option \<Rightarrow> database option \<Rightarrow> db_handle" where
  "connect url server = (case url of None \<Rightarrow> None | Some u \<Rightarrow> server)"

section \<open>Operations\<close>

definition collection :: "database \<Rightarrow> string \<Rightarrow> pydict list" where
  "collection db c = (case map_of (colls db) c of None \<Rightarrow> [] | Some docs \<Rightarrow> docs)"

text \<open>
  Insert-one on a database: the document gets the next identifier under the key
  \<open>_id\<close>, placed first as the store returns it, and is appended to its collection.
\<close>

definition stored_doc :: "objectid \<Rightarrow> pydict \<Rightarrow> pydict" where
  "stored_doc oid doc = (''_id'', VObjectId oid) # AList.delete ''_id'' doc"

definition insert_one :: "string \<Rightarrow> pydict \<Rightarrow> database \<Rightarrow> objectid \<times> database" where
  "insert_one c doc db =
     (let oid = next_id db;
          stored = stored_doc oid doc
      in (oid, db\<lparr>colls := AList.update c (collection db c @ [stored]) (colls db),
                   next_id := oid + 1\<rparr>))"

definition create_document ::
    "string \<Rightarrow> pydict \<Rightarrow> db_handle \<Rightarrow> (db_error + string) \<times> db_handle" where
  "create_document c data h =
     (case h of
        None \<Rightarrow> (Inl StorageUnavailable, h)
      | Some db \<Rightarrow>
          (case fault db of
             Some msg \<Rightarrow> (Inl (StorageFailure msg), h)
           | None \<Rightarrow> (let (oid, db') = insert_one c data db in (Inr (oid_str oid), Some db'))))"

text \<open>A document matches a filter when every entry of the filter is a field of it.\<close>

definition matches :: "pydict \<Rightarrow> pydict \<Rightarrow> bool" where
  "matches filt doc = list_all (\<lambda>(k, v). map_of doc k = Some v) filt"

definition get_documents :: "string \<Rightarrow> pydict \<Rightarrow> db_handle \<Rightarrow> pydict list" where
  "get_documents c filt h =
     (case h of
        None \<Rightarrow> []
      | Some db \<Rightarrow>
          (case fault db of
             Some msg \<Rightarrow> []
           | None \<Rightarrow> filter (matches filt) (collection db c)))"

definition list_collection_names :: "database \<Rightarrow> string + string list" where
  "list_collection_names db =
     (case fault db of Some msg \<Rightarrow> Inl msg | None \<Rightarrow> Inr (keys (colls db)))"

section \<open>Identifiers of a store\<close>

definition doc_id :: "pydict \<Rightarrow> objectid option" where
  "doc_id doc = (case map_of doc ''_id'' of Some (VObjectId x) \<Rightarrow> Some x | _ \<Rightarrow> None)"

definition all_docs :: "database \<Rightarrow> pydict list" where
  "all_docs db = concat (map snd (colls db))"

text \<open>
  The invariant of a store: collection names are distinct, every document has distinct
  keys and carries an identifier, no two documents share one, and every identifier in
  use is below the generator's counter.
\<close>

definition db_inv :: "database \<Rightarrow> bool" where
  "db_inv db \<longleftrightarrow>
     distinct (keys (colls db)) \<and>
     list_all (\<lambda>doc. wf_dict doc \<and> doc_id doc \<noteq> None) (all_docs db) \<and>
     distinct (map doc_id (all_docs db)) \<and>
     list_all (\<lambda>doc. case doc_id doc of Some x \<Rightarrow> unat x < unat (next_id db) | None \<Rightarrow> False)
       (all_docs db)"

definition handle_inv :: "db_handle \<Rightarrow> bool" where
  "handle_inv h = (case h of None \<Rightarrow> True | Some db \<Rightarrow> db_inv db)"

text \<open>
  \<open>room n db\<close>: the generator can hand out \<open>n\<close> more identifiers before its
  twelve bytes wrap around.
\<close>

definition room :: "nat \<Rightarrow> database \<Rightarrow> bool" where
  "room n db \<longleftrightarrow> unat (next_id db) + n < 2 ^ 96"

definition handle_room :: "nat \<Rightarrow> db_handle \<Rightarrow> bool" where
  "handle_room n h = (case h of None \<Rightarrow> True | Some db \<Rightarrow> room n db)"

section \<open>Facts about the store\<close>

subsection \<open>Insertion\<close>

lemma insert_one_simps [simp]:
  "fst (insert_one c doc db) = next_id db"
  "db_name (snd (insert_one c doc db)) = db_name db"
  "fault (snd (insert_one c doc db)) = fault db"
  "next_id (snd (insert_one c doc db)) = next_id db + 1"
  "colls (snd (insert_one c doc db)) =
     AList.update c (collection db c @ [stored_doc (next_id db) doc]) (colls db)"
  by (simp_all add: insert_one_def Let_def)

lemma collection_insert_one:
  "collection (snd (insert_one c doc db)) c' =
     (if c' = c then collection db c @ [stored_doc (next_id db) doc] else collection db c')"
  by (simp add: collection_def update_conv')

lemma set_docs_update:
  assumes "col = (case map_of al c of None \<Rightarrow> [] | Some docs \<Rightarrow> docs)"
  shows "set (concat (map snd (AList.update c (col @ [x]) al))) = insert x (set (concat (map snd al)))"
  using assms by (induction al arbitrary: col) auto

lemma distinct_docs_update:
  assumes "col = (case map_of al c of None \<Rightarrow> [] | Some docs \<Rightarrow> docs)"
    and "distinct (map f (concat (map snd al)))"
    and "f x \<notin> f ` set (concat (map snd al))"
  shows "distinct (map f (concat (map snd (AList.update c (col @ [x]) al))))"
  using assms
proof (induction al arbitrary: col)
  case Nil
  then show ?case by simp
next
  case (Cons p al)
  obtain k docs where p: "p = (k, docs)" by (cases p)
  show ?case
  proof (cases "k = c")
    case True
    with Cons.prems p show ?thesis by auto
  next
    case False
    let ?col = "case map_of al c of None \<Rightarrow> [] | Some docs \<Rightarrow> docs"
    from Cons.prems p False have "distinct (map f (concat (map snd (AList.update c (?col @ [x]) al))))"
      by (intro Cons.IH) auto
    moreover have "set (concat (map snd (AList.update c (?col @ [x]) al))) =
        insert x (set (concat (map snd al)))"
      by (rule set_docs_update) simp
    ultimately show ?thesis
      using Cons.prems p False by auto
  qed
qed

lemma set_all_docs_insert_one:
  "set (all_docs (snd (insert_one c doc db))) = insert (stored_doc (next_id db) doc) (set (all_docs db))"
  unfolding all_docs_def insert_one_simps
  by (rule set_docs_update) (simp add: collection_def)

lemma doc_id_stored [simp]: "doc_id (stored_doc oid doc) = Some oid"
  by (simp add: doc_id_def stored_doc_def)

lemma wf_stored_doc [simp]: "wf_dict doc \<Longrightarrow> wf_dict (stored_doc oid doc)"
  by (simp add: stored_doc_def wf_dict_def delete_keys distinct_removeAll)

lemma stored_doc_no_id: "''_id'' \<notin> set (keys doc) \<Longrightarrow> stored_doc oid doc = (''_id'', VObjectId oid) # doc"
  by (simp add: stored_doc_def)

lemma unat_next_id:
  "room (Suc n) db \<Longrightarrow> unat (next_id db + 1) = Suc (unat (next_id db))"
  using unat_add_lem [of "next_id db" 1] by (simp add: room_def)

lemma room_insert_one [simp]: "room (Suc n) db \<Longrightarrow> room n (snd (insert_one c doc db))"
  by (frule unat_next_id) (simp add: room_def)

lemma room_mono: "room n db \<Longrightarrow> k \<le> n \<Longrightarrow> room k db"
  by (simp add: room_def)

lemma db_inv_fresh:
  assumes "db_inv db" and "doc \<in> set (all_docs db)"
  shows "doc_id doc \<noteq> Some (next_id db)"
  using assms by (auto simp: db_inv_def list_all_iff split: option.splits)

lemma db_inv_insert_one:
  assumes I: "db_inv db" and R: "room 1 db" and W: "wf_dict doc"
  shows "db_inv (snd (insert_one c doc db))"
proof -
  let ?x = "stored_doc (next_id db) doc"
  let ?db = "snd (insert_one c doc db)"
  have nxt: "unat (next_id db + 1) = Suc (unat (next_id db))"
    using R by (simp add: unat_next_id)
  have docs: "set (all_docs ?db) = insert ?x (set (all_docs db))"
    by (rule set_all_docs_insert_one)
  have "distinct (keys (colls ?db))"
    using I by (simp add: db_inv_def distinct_update)
  moreover have "list_all (\<lambda>doc. wf_dict doc \<and> doc_id doc \<noteq> None) (all_docs ?db)"
    using I W by (auto simp: db_inv_def list_all_iff docs)
  moreover have "distinct (map doc_id (all_docs ?db))"
    unfolding all_docs_def insert_one_simps
  proof (rule distinct_docs_update)
    show "collection db c = (case map_of (colls db) c of None \<Rightarrow> [] | Some docs \<Rightarrow> docs)"
      by (simp add: collection_def)
    show "distinct (map doc_id (concat (map snd (colls db))))"
      using I by (simp add: db_inv_def all_docs_def)
    show "doc_id ?x \<notin> doc_id ` set (concat (map snd (colls db)))"
    proof
      assume "doc_id ?x \<in> doc_id ` set (concat (map snd (colls db)))"
      then obtain d where d: "d \<in> set (all_docs db)" and "doc_id d = doc_id ?x"
        unfolding all_docs_def by (metis imageE)
      then have "doc_id d = Some (next_id db)" by simp
      with db_inv_fresh [OF I d] show False by simp
    qed
  qed
  moreover have "list_all (\<lambda>doc. case doc_id doc of Some x \<Rightarrow> unat x < unat (next_id ?db) | None \<Rightarrow> False)
      (all_docs ?db)"
    using I by (auto simp: db_inv_def list_all_iff docs nxt split: option.splits)
  ultimately show ?thesis
    by (simp add: db_inv_def)
qed

lemma db_inv_empty [simp]: "db_inv (empty_database name)"
  by (simp add: db_inv_def empty_database_def all_docs_def)

lemma empty_database_simps [simp]:
  "db_name (empty_database name) = name" "colls (empty_database name) = []"
  "next_id (empty_database name) = 0" "fault (empty_database name) = None"
  by (simp_all add: empty_database_def)

lemma handle_inv_empty [simp]: "handle_inv (Some (empty_database name))"
  by (simp add: handle_inv_def)

lemma handle_room_empty [simp]: "handle_room n (Some (empty_database name)) \<longleftrightarrow> n < 2 ^ 96"
  by (simp add: handle_room_def room_def)

subsection \<open>Create and find\<close>

lemma create_document_None [simp]:
  "create_document c data None = (Inl StorageUnavailable, None)"
  by (simp add: create_document_def)

lemma create_document_fault:
  "fault db = Some msg \<Longrightarrow> create_document c data (Some db) = (Inl (StorageFailure msg), Some db)"
  by (simp add: create_document_def)

lemma create_document_ok:
  "fault db = None \<Longrightarrow>
   create_document c data (Some db) =
     (Inr (oid_str (next_id db)), Some (snd (insert_one c data db)))"
  by (simp add: create_document_def insert_one_def Let_def)

lemma create_document_cases:
  obtains (unavailable) "h = None" "create_document c data h = (Inl StorageUnavailable, h)"
  | (failure) db msg where "h = Some db" "fault db = Some msg"
      "create_document c data h = (Inl (StorageFailure msg), h)"
  | (stored) db where "h = Some db" "fault db = None"
      "create_document c data h = (Inr (oid_str (next_id db)), Some (snd (insert_one c data db)))"
proof (cases h)
  case None
  then show ?thesis using unavailable by simp
next
  case (Some db)
  then show ?thesis
    using failure stored by (cases "fault db") (auto simp: create_document_fault create_document_ok)
qed

lemma handle_inv_create_document:
  assumes "handle_inv h" and "handle_room 1 h" and "wf_dict data"
  shows "handle_inv (snd (create_document c data h))"
  using assms
  by - (rule create_document_cases [where h = h and c = c and data = data];
      auto simp: handle_inv_def handle_room_def intro: db_inv_insert_one)

lemma handle_room_create_document:
  "handle_room (Suc n) h \<Longrightarrow> handle_room n (snd (create_document c data h))"
  by (rule create_document_cases [where h = h and c = c and data = data];
      auto simp: handle_room_def intro: room_mono)

lemma create_document_None_iff [simp]: "snd (create_document c data h) = None \<longleftrightarrow> h = None"
  by (rule create_document_cases [where h = h and c = c and data = data]) auto

lemma matches_Nil [simp]: "matches [] doc"
  by (simp add: matches_def)

lemma matches_single [simp]: "matches [(k, v)] doc \<longleftrightarrow> map_of doc k = Some v"
  by (simp add: matches_def)

lemma get_documents_None [simp]: "get_documents c filt None = []"
  by (simp add: get_documents_def)

lemma get_documents_fault: "fault db = Some msg \<Longrightarrow> get_documents c filt (Some db) = []"
  by (simp add: get_documents_def)

lemma get_documents_ok:
  "fault db = None \<Longrightarrow> get_documents c filt (Some db) = filter (matches filt) (collection db c)"
  by (simp add: get_documents_def)

lemma get_documents_all: "fault db = None \<Longrightarrow> get_documents c [] (Some db) = collection db c"
  by (simp add: get_documents_ok)

lemma get_documents_after_create:
  assumes "fault db = None"
  shows "get_documents c' filt (snd (create_document c data (Some db))) =
     get_documents c' filt (Some db) @
       (if c' = c \<and> matches filt (stored_doc (next_id db) data)
        then [stored_doc (next_id db) data] else [])"
  using assms by (simp add: create_document_ok get_documents_ok collection_insert_one)

end
