(* ===== verification/Api.thy ===== *)
theory Api
  imports Schemas Database
begin

text \<open>
  The HTTP API layer of \<open>src/main.py\<close>: the serialisation helpers, the three
  basic endpoints, the five pairs of create and list handlers, the port the process
  binds to, and the dispatch of a request to its handler with the validation of the
  body that the handler's signature asks for. A handler takes the connection handle
  and returns the new one with its result; an exception of the persistence layer that
  a handler does not catch is the result \<open>Inl\<close>, which the dispatch answers with
  status 500.
\<close>

section \<open>Configuration\<close>

text \<open>The environment variables the program reads.\<close>

record environ =
  DATABASE_URL :: "string option"
  PORT :: "string option"

record cors_middleware =
  allow_origins :: "string list"
  allow_credentials :: bool
  allow_methods :: "string list"
  allow_headers :: "string list"

definition cors :: cors_middleware where
  "cors = \<lparr>allow_origins = [''*''], allow_credentials = True,
            allow_methods = [''*''], allow_headers = [''*'']\<rparr>"

text \<open>An entry \<open>*\<close> allows everything; otherwise the value must be listed.\<close>

definition allowed :: "string list \<Rightarrow> string \<Rightarrow> bool" where
  "allowed entries x \<longleftrightarrow> ''*'' \<in> set entries \<or> x \<in> set entries"

definition cors_permits :: "cors_middleware \<Rightarrow> string \<Rightarrow> string \<Rightarrow> string list \<Rightarrow> bool" where
  "cors_permits cfg origin method headers \<longleftrightarrow>
     allowed (allow_origins cfg) origin \<and> allowed (allow_methods cfg) method \<and>
     list_all (allowed (allow_headers cfg)) headers"

section \<open>Helpers\<close>

text \<open>
  \<open>_serialize\<close>: an empty document is returned as it is; otherwise the copy loses
  \<open>_id\<close>, gains \<open>id\<close> with the identifier's \<open>str\<close> when there was one that is
  not \<open>None\<close>, and the loop over a snapshot of the items replaces every date-time by
  its \<open>isoformat\<close>.
\<close>

definition iso_step :: "string \<times> pyval \<Rightarrow> pydict \<Rightarrow> pydict" where
  "iso_step kv d =
     (case snd kv of VDatetime t \<Rightarrow> dict_set d (fst kv) (VStr (isoformat t)) | _ \<Rightarrow> d)"

definition serialize :: "pydict \<Rightarrow> pydict" where
  "serialize doc =
     (if \<not> py_truthy (VDict doc) then doc
      else
        let (oid, d) = dict_pop doc ''_id'' VNone;
            d = (if oid \<noteq> VNone then dict_set d ''id'' (VStr (py_str oid)) else d)
        in fold iso_step d d)"

definition serialize_list :: "pydict list \<Rightarrow> pydict list" where
  "serialize_list items = map serialize items"

section \<open>Basic endpoints\<close>

definition read_root :: pydict where
  "read_root = [(''message'', VStr ''Twist of Fate API running'')]"

text \<open>The three pictographs of the diagnostics texts, as their UTF-8 bytes.\<close>

definition check_mark :: string where
  "check_mark = [CHR 0xE2, CHR 0x9C, CHR 0x85]"

definition cross_mark :: string where
  "cross_mark = [CHR 0xE2, CHR 0x9D, CHR 0x8C]"

definition warning_sign :: string where
  "warning_sign = [CHR 0xE2, CHR 0x9A, CHR 0xA0, CHR 0xEF, CHR 0xB8, CHR 0x8F]"

text \<open>
  \<open>test_database\<close>: the response starts as "not available" and is updated key by
  key. With a handle, four keys are set before the collections are listed, so an
  exception of the listing leaves them set and only overwrites \<open>database\<close> with the
  first 80 characters of its message.
\<close>

definition getenv_truthy :: "string option \<Rightarrow> bool" where
  "getenv_truthy x = (case x of None \<Rightarrow> False | Some s \<Rightarrow> s \<noteq> [])"

definition test_database :: "environ \<Rightarrow> db_handle \<Rightarrow> pydict" where
  "test_database env h =
     (let response =
            [(''backend'', VStr (check_mark @ '' Running'')),
             (''database'', VStr (cross_mark @ '' Not Available'')),
             (''database_url'', VNone),
             (''database_name'', VNone),
             (''connection_status'', VStr ''Not Connected''),
             (''collections'', VList [])]
      in case h of
           Some db \<Rightarrow>
             (let response = dict_set response ''database'' (VStr (check_mark @ '' Available''));
                  response = dict_set response ''database_url''
                    (VStr (if getenv_truthy (DATABASE_URL env) then check_mark @ '' Set''
                           else cross_mark @ '' Not Set''));
                  response = dict_set response ''database_name'' (VStr (db_name db));
                  response = dict_set response ''connection_status'' (VStr ''Connected'')
              in case list_collection_names db of
                   Inr collections \<Rightarrow>
                     dict_set response ''collections'' (VList (map VStr (take 10 collections)))
                 | Inl e \<Rightarrow>
                     dict_set response ''database'' (VStr (cross_mark @ '' Error: '' @ take 80 e)))
         | None \<Rightarrow>
             dict_set response ''database''
               (VStr (warning_sign @ '' Available but not initialized'')))"

text \<open>
  \<open>get_schema\<close>: for each exposed model, the field names with \<open>str\<close> of their
  annotations. \<open>type_repr\<close> is how the \<open>typing\<close> module prints an argument,
  \<open>annotation_str\<close> how \<open>str\<close> prints the annotation itself (a class prints as
  \<open><class '...'>\<close>).
\<close>

fun type_repr :: "annot \<Rightarrow> string" where
  "type_repr TStr = ''str''"
| "type_repr TInt = ''int''"
| "type_repr TDatetime = ''datetime.datetime''"
| "type_repr TDict = ''dict''"
| "type_repr (TLiteral ls) = ''typing.Literal['' @ join '', '' (map repr_str ls) @ '']''"
| "type_repr (TOptional a) = ''typing.Optional['' @ type_repr a @ '']''"
| "type_repr (TList a) = ''typing.List['' @ type_repr a @ '']''"

definition class_str :: "string \<Rightarrow> string" where
  "class_str name = ''<class '' @ [CHR 0x27] @ name @ [CHR 0x27] @ ''>''"

definition annotation_str :: "annot \<Rightarrow> string" where
  "annotation_str a =
     (case a of
        TStr \<Rightarrow> class_str (type_repr a)
      | TInt \<Rightarrow> class_str (type_repr a)
      | TDatetime \<Rightarrow> class_str (type_repr a)
      | TDict \<Rightarrow> class_str (type_repr a)
      | _ \<Rightarrow> type_repr a)"

definition model_fields :: "model \<Rightarrow> pydict" where
  "model_fields m = map (\<lambda>(k, v). (k, VStr (annotation_str (annotation v)))) m"

definition get_schema :: pydict where
  "get_schema =
     [(''character'', VDict (model_fields Character)),
      (''backstory'', VDict (model_fields Backstory)),
      (''actionreport'', VDict (model_fields ActionReport)),
      (''event'', VDict (model_fields Event)),
      (''quest'', VDict (model_fields Quest))]"

section \<open>Create and list handlers\<close>

text \<open>
  Every create handler stores the validated payload and answers with the new
  identifier; every list handler builds a filter from its query parameter when the
  parameter is given and not empty, and serialises what the store returns.
\<close>

type_synonym 'a handler_result = "(db_error + 'a) \<times> db_handle"

definition query_filter :: "string \<Rightarrow> string option \<Rightarrow> pydict" where
  "query_filter k q =
     (case q of None \<Rightarrow> [] | Some s \<Rightarrow> if py_truthy (VStr s) then [(k, VStr s)] else [])"

definition create_character :: "pydict \<Rightarrow> db_handle \<Rightarrow> pydict handler_result" where
  "create_character payload h =
     (case create_document ''character'' payload h of
        (Inl e, h') \<Rightarrow> (Inl e, h')
      | (Inr new_id, h') \<Rightarrow> (Inr [(''id'', VStr new_id)], h'))"

definition list_characters :: "string option \<Rightarrow> db_handle \<Rightarrow> pydict list" where
  "list_characters owner_discord h =
     (let filt = query_filter ''owner_discord'' owner_discord;
          docs = get_documents ''character'' filt h
      in serialize_list docs)"

definition submit_backstory :: "pydict \<Rightarrow> db_handle \<Rightarrow> pydict handler_result" where
  "submit_backstory payload h =
     (case create_document ''backstory'' payload h of
        (Inl e, h') \<Rightarrow> (Inl e, h')
      | (Inr new_id, h') \<Rightarrow> (Inr [(''id'', VStr new_id), (''status'', VStr ''received'')], h'))"

definition list_backstories :: "string option \<Rightarrow> db_handle \<Rightarrow> pydict list" where
  "list_backstories status h =
     (let filt = query_filter ''status'' status;
          docs = get_documents ''backstory'' filt h
      in serialize_list docs)"

definition submit_report :: "pydict \<Rightarrow> db_handle \<Rightarrow> pydict handler_result" where
  "submit_report payload h =
     (case create_document ''actionreport'' payload h of
        (Inl e, h') \<Rightarrow> (Inl e, h')
      | (Inr new_id, h') \<Rightarrow> (Inr [(''id'', VStr new_id), (''status'', VStr ''received'')], h'))"

definition list_reports :: "string option \<Rightarrow> db_handle \<Rightarrow> pydict list" where
  "list_reports character_name h =
     (let filt = query_filter ''character_name'' character_name;
          docs = get_documents ''actionreport'' filt h
      in serialize_list docs)"

definition create_event :: "pydict \<Rightarrow> db_handle \<Rightarrow> pydict handler_result" where
  "create_event payload h =
     (case create_document ''event'' payload h of
        (Inl e, h') \<Rightarrow> (Inl e, h')
      | (Inr new_id, h') \<Rightarrow> (Inr [(''id'', VStr new_id)], h'))"

definition list_events :: "string option \<Rightarrow> db_handle \<Rightarrow> pydict list" where
  "list_events event_type h =
     (let filt = query_filter ''event_type'' event_type;
          docs = get_documents ''event'' filt h
      in serialize_list docs)"

definition create_quest :: "pydict \<Rightarrow> db_handle \<Rightarrow> pydict handler_result" where
  "create_quest payload h =
     (case create_document ''quest'' payload h of
        (Inl e, h') \<Rightarrow> (Inl e, h')
      | (Inr new_id, h') \<Rightarrow> (Inr [(''id'', VStr new_id)], h'))"

definition list_quests :: "string option \<Rightarrow> db_handle \<Rightarrow> pydict list" where
  "list_quests status h =
     (let filt = query_filter ''status'' status;
          docs = get_documents ''quest'' filt h
      in serialize_list docs)"

section \<open>The port\<close>

text \<open>
  \<open>int(os.getenv("PORT", 8000))\<close>. \<open>py_int\<close> is \<open>int\<close> on a string of ASCII
  characters: surrounding white space is dropped, a sign may come first, and the digits
  may be grouped by single underscores. Anything else raises \<open>ValueError\<close>.
\<close>

definition is_space :: "char \<Rightarrow> bool" where
  "is_space c \<longleftrightarrow> (let n = (of_char c :: nat) in 9 \<le> n \<and> n \<le> 13 \<or> 28 \<le> n \<and> n \<le> 32)"

definition py_strip :: "string \<Rightarrow> string" where
  "py_strip s = rev (dropWhile is_space (rev (dropWhile is_space s)))"

fun int_body :: "string \<Rightarrow> bool" where
  "int_body [] = False"
| "int_body [c] = is_digit c"
| "int_body (c # d # cs) =
     (is_digit c \<and> (if d = CHR ''_'' then int_body cs else int_body (d # cs)))"

definition split_sign :: "string \<Rightarrow> bool \<times> string" where
  "split_sign t =
     (case t of
        c # r \<Rightarrow> if c = CHR ''-'' then (True, r) else if c = CHR ''+'' then (False, r)
                  else (False, t)
      | [] \<Rightarrow> (False, t))"

definition py_int :: "string \<Rightarrow> int option" where
  "py_int s =
     (let (neg, body) = split_sign (py_strip s);
          n = int (nat_of_digits (filter (\<lambda>c. c \<noteq> CHR ''_'') body))
      in if int_body body then Some (if neg then - n else n) else None)"

datatype value_error = ValueError string

definition main_port :: "environ \<Rightarrow> value_error + int" where
  "main_port env =
     (case PORT env of
        None \<Rightarrow> Inr 8000
      | Some s \<Rightarrow>
          (case py_int s of
             Some p \<Rightarrow> Inr p
           | None \<Rightarrow> Inl (ValueError (''invalid literal for int() with base 10: '' @ repr_str s))))"

section \<open>Requests and their dispatch\<close>

text \<open>
  A request is a route with what the route reads: the parsed JSON body of a
  \<open>POST\<close>, the optional query parameter of a listing. \<open>with_body\<close> is what the
  framework does for a handler whose parameter is a model: a body that is not an
  object, or that the model rejects, is answered with status 422 and the errors, and
  the handler is not called; otherwise the handler gets the validated record.
\<close>

datatype request =
    GET_root
  | GET_test
  | GET_schema
  | POST_characters pyval
  | GET_characters "string option"
  | POST_backstories pyval
  | GET_backstories "string option"
  | POST_reports pyval
  | GET_reports "string option"
  | POST_events pyval
  | GET_events "string option"
  | POST_quests pyval
  | GET_quests "string option"

record response =
  status_code :: nat
  content :: pyval

definition loc_json :: "loc_item \<Rightarrow> pyval" where
  "loc_json l = (case l of LKey k \<Rightarrow> VStr k | LIndex i \<Rightarrow> VInt (int i))"

definition err_type_name :: "err_type \<Rightarrow> string" where
  "err_type_name e =
     (case e of
        Missing \<Rightarrow> ''missing''
      | StringType \<Rightarrow> ''string_type''
      | IntType \<Rightarrow> ''int_type''
      | DatetimeType \<Rightarrow> ''datetime_type''
      | DictType \<Rightarrow> ''dict_type''
      | ListType \<Rightarrow> ''list_type''
      | LiteralError ls \<Rightarrow> ''literal_error''
      | GreaterThanEqual l \<Rightarrow> ''greater_than_equal''
      | LessThanEqual u \<Rightarrow> ''less_than_equal'')"

definition err_ctx :: "err_type \<Rightarrow> pydict" where
  "err_ctx e =
     (case e of
        LiteralError ls \<Rightarrow> [(''expected'', VList (map VStr ls))]
      | GreaterThanEqual l \<Rightarrow> [(''ge'', VInt l)]
      | LessThanEqual u \<Rightarrow> [(''le'', VInt u)]
      | _ \<Rightarrow> [])"

definition error_json :: "verror \<Rightarrow> pyval" where
  "error_json e =
     VDict [(''type'', VStr (err_type_name (etype e))),
            (''loc'', VList (VStr ''body'' # map loc_json (loc e))),
            (''input'', input e),
            (''ctx'', VDict (err_ctx (etype e)))]"

definition unprocessable :: "verror list \<Rightarrow> response" where
  "unprocessable es =
     \<lparr>status_code = 422, content = VDict [(''detail'', VList (map error_json es))]\<rparr>"

definition ok_response :: "pyval \<Rightarrow> response" where
  "ok_response v = \<lparr>status_code = 200, content = v\<rparr>"

definition server_error :: response where
  "server_error = \<lparr>status_code = 500, content = VStr ''Internal Server Error''\<rparr>"

definition with_body ::
    "model \<Rightarrow> (pydict \<Rightarrow> db_handle \<Rightarrow> pydict handler_result) \<Rightarrow> pyval \<Rightarrow> db_handle
      \<Rightarrow> response \<times> db_handle" where
  "with_body m handler b h =
     (case b of
        VDict d \<Rightarrow>
          (case validate_model m d of
             Inl es \<Rightarrow> (unprocessable es, h)
           | Inr payload \<Rightarrow>
               (case handler payload h of
                  (Inl e, h') \<Rightarrow> (server_error, h')
                | (Inr r, h') \<Rightarrow> (ok_response (VDict r), h')))
      | _ \<Rightarrow> (unprocessable [VError [] DictType b], h))"

definition listing :: "pydict list \<Rightarrow> response" where
  "listing docs = ok_response (VList (map VDict docs))"

fun handle :: "environ \<Rightarrow> request \<Rightarrow> db_handle \<Rightarrow> response \<times> db_handle" where
  "handle env GET_root h = (ok_response (VDict read_root), h)"
| "handle env GET_test h = (ok_response (VDict (test_database env h)), h)"
| "handle env GET_schema h = (ok_response (VDict get_schema), h)"
| "handle env (POST_characters b) h = with_body Character create_character b h"
| "handle env (GET_characters q) h = (listing (list_characters q h), h)"
| "handle env (POST_backstories b) h = with_body Backstory submit_backstory b h"
| "handle env (GET_backstories q) h = (listing (list_backstories q h), h)"
| "handle env (POST_reports b) h = with_body ActionReport submit_report b h"
| "handle env (GET_reports q) h = (listing (list_reports q h), h)"
| "handle env (POST_events b) h = with_body Event create_event b h"
| "handle env (GET_events q) h = (listing (list_events q h), h)"
| "handle env (POST_quests b) h = with_body Quest create_quest b h"
| "handle env (GET_quests q) h = (listing (list_quests q h), h)"

text \<open>
  The service over time: requests are served one after the other on the handle the
  start-up left, each storage operation being one step of the store.
\<close>

fun run :: "environ \<Rightarrow> request list \<Rightarrow> db_handle \<Rightarrow> response list \<times> db_handle" where
  "run env [] h = ([], h)"
| "run env (r # rs) h =
     (let (resp, h') = handle env r h; (resps, h'') = run env rs h' in (resp # resps, h''))"

inductive reachable :: "environ \<Rightarrow> db_handle \<Rightarrow> db_handle \<Rightarrow> bool" for env h0 where
  start: "reachable env h0 h0"
| step: "reachable env h0 h \<Longrightarrow> snd (handle env r h) = h' \<Longrightarrow> reachable env h0 h'"

section \<open>What a request does to the store\<close>

text \<open>
  The contract of the layer as a specification: a request changes the store only by
  inserting the validated payload of a \<open>POST\<close> into the collection of its route.
  \<open>target\<close> names the collection, the model and the body of a \<open>POST\<close>,
  \<open>effect\<close> the insertion it stands for when the body is accepted, and
  \<open>next_handle\<close> the handle after the request.
\<close>

fun target :: "request \<Rightarrow> (string \<times> model \<times> pyval) option" where
  "target (POST_characters b) = Some (''character'', Character, b)"
| "target (POST_backstories b) = Some (''backstory'', Backstory, b)"
| "target (POST_reports b) = Some (''actionreport'', ActionReport, b)"
| "target (POST_events b) = Some (''event'', Event, b)"
| "target (POST_quests b) = Some (''quest'', Quest, b)"
| "target _ = None"

definition effect :: "request \<Rightarrow> (string \<times> pydict) option" where
  "effect r =
     (case target r of
        Some (c, m, VDict d) \<Rightarrow>
          (case validate_model m d of Inr p \<Rightarrow> Some (c, p) | Inl es \<Rightarrow> None)
      | _ \<Rightarrow> None)"

definition next_handle :: "request \<Rightarrow> db_handle \<Rightarrow> db_handle" where
  "next_handle r h = (case effect r of None \<Rightarrow> h | Some (c, p) \<Rightarrow> snd (create_document c p h))"

text \<open>The collections with routes, each with its model.\<close>

definition exposed :: "(string \<times> model) list" where
  "exposed = take 5 catalog"

text \<open>
  A stored document of a model is the identifier followed by a record that conforms to
  the model; a store is typed when every document of an exposed collection is one of
  its model.
\<close>

definition doc_conforms :: "model \<Rightarrow> pydict \<Rightarrow> bool" where
  "doc_conforms m doc =
     (case doc of (k, VObjectId x) # r \<Rightarrow> k = ''_id'' \<and> conforms m r | _ \<Rightarrow> False)"

definition store_typed :: "database \<Rightarrow> bool" where
  "store_typed db = list_all (\<lambda>(c, m). list_all (doc_conforms m) (collection db c)) exposed"

definition handle_typed :: "db_handle \<Rightarrow> bool" where
  "handle_typed h = (case h of None \<Rightarrow> True | Some db \<Rightarrow> store_typed db)"

text \<open>
  What \<open>_serialize\<close> computes, without the loop: \<open>iso_val\<close> on every value.
\<close>

definition iso_val :: "pyval \<Rightarrow> pyval" where
  "iso_val v = (case v of VDatetime t \<Rightarrow> VStr (isoformat t) | _ \<Rightarrow> v)"

definition iso_fields :: "pydict \<Rightarrow> pydict" where
  "iso_fields d = map (\<lambda>(k, v). (k, iso_val v)) d"

text \<open>
  The acknowledgement a create handler adds to the identifier, the route a listing
  reads, and the identifier a response carries.
\<close>

definition ack :: "request \<Rightarrow> pydict" where
  "ack r = (case r of POST_backstories b \<Rightarrow> [(''status'', VStr ''received'')]
            | POST_reports b \<Rightarrow> [(''status'', VStr ''received'')] | _ \<Rightarrow> [])"

fun list_target :: "request \<Rightarrow> (string \<times> string \<times> string option) option" where
  "list_target (GET_characters q) = Some (''character'', ''owner_discord'', q)"
| "list_target (GET_backstories q) = Some (''backstory'', ''status'', q)"
| "list_target (GET_reports q) = Some (''actionreport'', ''character_name'', q)"
| "list_target (GET_events q) = Some (''event'', ''event_type'', q)"
| "list_target (GET_quests q) = Some (''quest'', ''status'', q)"
| "list_target _ = None"

fun response_id :: "response \<Rightarrow> string option" where
  "response_id resp =
     (case content resp of
        VDict d \<Rightarrow> (case map_of d ''id'' of Some (VStr s) \<Rightarrow> Some s | _ \<Rightarrow> None)
      | _ \<Rightarrow> None)"

text \<open>The identifiers a list of responses carries, in order.\<close>

definition issued :: "response list \<Rightarrow> string list" where
  "issued resps = List.map_filter response_id resps"

section \<open>Facts about the handlers and their bundles\<close>

lemmas create_defs [handler_defs] =
  create_character_def submit_backstory_def submit_report_def create_event_def create_quest_def

lemmas list_defs [handler_defs] =
  list_characters_def list_backstories_def list_reports_def list_events_def list_quests_def

section \<open>Facts about serialisation\<close>

lemma iso_step_eq: "iso_step (k, v) d = (if is_datetime v then AList.update k (iso_val v) d else d)"
  by (cases v) (simp_all add: iso_step_def iso_val_def is_datetime_def dict_set_def)

lemma iso_val_other: "\<not> is_datetime v \<Longrightarrow> iso_val v = v"
  by (cases v) (simp_all add: iso_val_def is_datetime_def)

lemma iso_val_not_datetime [simp]: "\<not> is_datetime (iso_val v)"
  by (cases v) (simp_all add: iso_val_def is_datetime_def)

lemma iso_val_idem [simp]: "iso_val (iso_val v) = iso_val v"
  by (simp add: iso_val_other)

lemma keys_iso_fields [simp]: "keys (iso_fields d) = keys d"
  by (induction d) (auto simp: iso_fields_def)

lemma iso_fields_simps [simp]:
  "iso_fields [] = []"
  "iso_fields ((k, v) # d) = (k, iso_val v) # iso_fields d"
  "iso_fields (d @ e) = iso_fields d @ iso_fields e"
  by (simp_all add: iso_fields_def)

lemma iso_fields_idem [simp]: "iso_fields (iso_fields d) = iso_fields d"
  by (induction d) auto

lemma map_of_iso_fields: "map_of (iso_fields d) k = map_option iso_val (map_of d k)"
  by (induction d) auto

lemma fold_iso_step_gen:
  "distinct (keys (pre @ xs)) \<Longrightarrow> fold iso_step xs (iso_fields pre @ xs) = iso_fields (pre @ xs)"
proof (induction xs arbitrary: pre)
  case Nil
  then show ?case by simp
next
  case (Cons kv xs)
  obtain k v where kv: "kv = (k, v)" by (cases kv)
  from Cons.prems kv have k: "k \<notin> set (keys (iso_fields pre))" by simp
  have "iso_step (k, v) (iso_fields pre @ (k, v) # xs) = iso_fields (pre @ [(k, v)]) @ xs"
    using update_in_place [OF k, of "iso_val v" v xs]
    by (auto simp: iso_step_eq iso_val_other)
  moreover from Cons.prems kv have "distinct (keys ((pre @ [(k, v)]) @ xs))" by simp
  ultimately show ?case
    using Cons.IH [of "pre @ [(k, v)]"] kv by simp
qed

lemma fold_iso_step: "wf_dict d \<Longrightarrow> fold iso_step d d = iso_fields d"
  using fold_iso_step_gen [of "[]" d] by (simp add: wf_dict_def)

lemma serialize_Nil [simp]: "serialize [] = []"
  by (simp add: serialize_def)

lemma serialize_eq:
  assumes "wf_dict doc"
  shows "serialize doc =
     iso_fields
       (case map_of doc ''_id'' of
          None \<Rightarrow> doc
        | Some oid \<Rightarrow>
            if oid = VNone then AList.delete ''_id'' doc
            else AList.update ''id'' (VStr (py_str oid)) (AList.delete ''_id'' doc))"
proof (cases "doc = []")
  case True
  then show ?thesis by simp
next
  case False
  have wf: "wf_dict (AList.delete ''_id'' doc)"
    "wf_dict (AList.update ''id'' v (AList.delete ''_id'' doc))" for v
    using assms by (simp_all add: wf_dict_def distinct_delete distinct_update)
  from False assms wf show ?thesis
    by (auto simp: serialize_def dict_pop_def dict_set_def fold_iso_step split: option.splits)
qed

lemma serialize_stored:
  assumes "wf_dict p" and "''_id'' \<notin> set (keys p)" and "''id'' \<notin> set (keys p)"
  shows "serialize ((''_id'', VObjectId x) # p) = iso_fields p @ [(''id'', VStr (oid_str x))]"
proof -
  from assms have "wf_dict ((''_id'', VObjectId x) # p)" by simp
  from serialize_eq [OF this] assms show ?thesis
    by (simp add: update_absent py_str_def iso_val_def)
qed

lemma serialize_no_id:
  "wf_dict doc \<Longrightarrow> ''_id'' \<notin> set (keys doc) \<Longrightarrow> serialize doc = iso_fields doc"
  by (simp add: serialize_eq map_of_eq_None_keys [THEN iffD2])

lemma serialize_keys_no_id:
  assumes "wf_dict doc"
  shows "''_id'' \<notin> set (keys (serialize doc))"
proof (cases "map_of doc ''_id''")
  case None
  then have "''_id'' \<notin> set (keys doc)" by (simp add: map_of_eq_None_keys)
  with None assms show ?thesis by (simp add: serialize_eq)
next
  case (Some oid)
  let ?d = "AList.delete ''_id'' doc"
  have "''_id'' \<notin> set (keys ?d)" by (simp add: delete_keys)
  moreover have "''_id'' \<notin> set (keys (AList.update ''id'' (VStr (py_str oid)) ?d))"
    by (simp add: update_keys delete_keys)
  ultimately show ?thesis using Some assms by (simp add: serialize_eq)
qed

lemma wf_serialize: "wf_dict doc \<Longrightarrow> wf_dict (serialize doc)"
  by (auto simp: serialize_eq wf_dict_def distinct_update distinct_delete split: option.splits)

section \<open>Facts about the dispatch\<close>

lemma query_filter_simps [simp]:
  "query_filter k None = []"
  "query_filter k (Some []) = []"
  "s \<noteq> [] \<Longrightarrow> query_filter k (Some s) = [(k, VStr s)]"
  by (simp_all add: query_filter_def)

lemma exposed_eq:
  "exposed = [(''character'', Character), (''backstory'', Backstory),
     (''actionreport'', ActionReport), (''event'', Event), (''quest'', Quest)]"
  by (simp add: exposed_def catalog_def)

lemma exposed_catalog: "(c, m) \<in> set exposed \<Longrightarrow> (c, m) \<in> set catalog"
  by (auto simp: exposed_def dest: in_set_takeD)

lemma exposed_wf: "(c, m) \<in> set exposed \<Longrightarrow> wf_model m"
  by (blast intro: catalog_wf_model exposed_catalog)

lemma exposed_functional: "(c, m) \<in> set exposed \<Longrightarrow> (c, m') \<in> set exposed \<Longrightarrow> m = m'"
  by (auto simp: exposed_eq)

lemma exposed_no_id:
  "(c, m) \<in> set exposed \<Longrightarrow> ''_id'' \<notin> set (keys m) \<and> ''id'' \<notin> set (keys m)"
  by (auto simp: exposed_eq model_defs)

lemma target_exposed: "target r = Some (c, m, b) \<Longrightarrow> (c, m) \<in> set exposed"
  by (cases r) (auto simp: exposed_eq)

lemma effect_Some:
  "effect r = Some (c, p) \<longleftrightarrow>
     (\<exists>m d. target r = Some (c, m, VDict d) \<and> validate_model m d = Inr p)"
  by (auto simp: effect_def split: option.splits prod.splits pyval.splits sum.splits)

lemma effect_conforms:
  assumes "effect r = Some (c, p)"
  obtains m where "(c, m) \<in> set exposed" "conforms m p"
  using assms
  by (auto simp: effect_Some dest!: target_exposed intro: validate_model_sound exposed_wf)

lemma effect_wf:
  assumes "effect r = Some (c, p)"
  shows "wf_dict p" "''_id'' \<notin> set (keys p)" "''id'' \<notin> set (keys p)"
proof -
  from assms obtain m where m: "(c, m) \<in> set exposed" "conforms m p"
    by (rule effect_conforms)
  then have "keys p = keys m" by (simp add: conforms_keys)
  with m exposed_wf [OF m(1)] exposed_no_id [OF m(1)]
  show "wf_dict p" "''_id'' \<notin> set (keys p)" "''id'' \<notin> set (keys p)"
    by (simp_all add: wf_dict_def wf_model_def)
qed

lemma with_body_snd:
  assumes "\<And>p h. snd (handler p h) = snd (create_document c p h)"
  shows "snd (with_body m handler b h) =
     (case b of
        VDict d \<Rightarrow> (case validate_model m d of Inr p \<Rightarrow> snd (create_document c p h) | Inl es \<Rightarrow> h)
      | _ \<Rightarrow> h)"
  using assms [symmetric]
  by (auto simp: with_body_def split: pyval.splits sum.splits prod.splits)

lemma create_snd [simp]:
  "snd (create_character p h) = snd (create_document ''character'' p h)"
  "snd (submit_backstory p h) = snd (create_document ''backstory'' p h)"
  "snd (submit_report p h) = snd (create_document ''actionreport'' p h)"
  "snd (create_event p h) = snd (create_document ''event'' p h)"
  "snd (create_quest p h) = snd (create_document ''quest'' p h)"
  by (simp_all add: create_defs split: prod.splits sum.splits)

lemma snd_handle: "snd (handle env r h) = next_handle r h"
  by (cases r)
     (simp_all add: next_handle_def effect_def with_body_snd [where c = "''character''"]
        with_body_snd [where c = "''backstory''"] with_body_snd [where c = "''actionreport''"]
        with_body_snd [where c = "''event''"] with_body_snd [where c = "''quest''"]
        split: pyval.splits sum.splits)

lemma next_handle_None [simp]: "next_handle r None = None"
  by (simp add: next_handle_def split: option.splits)

lemma next_handle_None_iff [simp]: "next_handle r h = None \<longleftrightarrow> h = None"
  by (simp add: next_handle_def split: option.splits)

lemma next_handle_no_effect: "effect r = None \<Longrightarrow> next_handle r h = h"
  by (simp add: next_handle_def)

lemma handle_inv_next_handle:
  "handle_inv h \<Longrightarrow> handle_room 1 h \<Longrightarrow> handle_inv (next_handle r h)"
  by (auto simp: next_handle_def split: option.splits
      intro: handle_inv_create_document effect_wf)

lemma handle_room_mono: "handle_room n h \<Longrightarrow> k \<le> n \<Longrightarrow> handle_room k h"
  by (auto simp: handle_room_def split: option.splits intro: room_mono)

lemma handle_room_next_handle:
  "handle_room (Suc n) h \<Longrightarrow> handle_room n (next_handle r h)"
  by (auto simp: next_handle_def split: option.splits
      intro: handle_room_create_document handle_room_mono)

lemma doc_conforms_stored:
  "conforms m p \<Longrightarrow> ''_id'' \<notin> set (keys m) \<Longrightarrow> doc_conforms m (stored_doc x p)"
  by (simp add: doc_conforms_def stored_doc_no_id conforms_keys)

lemma store_typed_insert_one:
  assumes "store_typed db" and "(c, m) \<in> set exposed" and "conforms m p"
  shows "store_typed (snd (insert_one c p db))"
proof -
  have "list_all (doc_conforms m') (collection (snd (insert_one c p db)) c')"
    if "(c', m') \<in> set exposed" for c' m'
  proof -
    from assms(1) that have old: "list_all (doc_conforms m') (collection db c')"
      by (auto simp: store_typed_def list_all_iff)
    show ?thesis
    proof (cases "c' = c")
      case True
      with that assms(2) have "m' = m" by (auto dest: exposed_functional)
      with True old assms(3) exposed_no_id [OF assms(2)] show ?thesis
        by (simp add: collection_insert_one doc_conforms_stored)
    next
      case False
      with old show ?thesis by (simp add: collection_insert_one)
    qed
  qed
  then show ?thesis by (auto simp: store_typed_def list_all_iff)
qed

lemma handle_typed_empty [simp]: "handle_typed (Some (empty_database name))"
  by (simp add: handle_typed_def store_typed_def collection_def exposed_eq)

lemma handle_typed_next_handle:
  assumes "handle_typed h"
  shows "handle_typed (next_handle r h)"
proof (cases "effect r")
  case None
  with assms show ?thesis by (simp add: next_handle_def)
next
  case (Some cp)
  obtain c p where cp: "cp = (c, p)" by (cases cp)
  with Some obtain m where m: "(c, m) \<in> set exposed" "conforms m p"
    by (auto elim: effect_conforms)
  show ?thesis
    using assms Some cp m
    by - (rule create_document_cases [where h = h and c = c and data = p];
          auto simp: next_handle_def handle_typed_def intro: store_typed_insert_one)
qed

subsection \<open>Responses\<close>

lemma handle_post_rejected:
  "target r = Some (c, m, VDict d) \<Longrightarrow> validate_model m d = Inl es \<Longrightarrow>
   handle env r h = (unprocessable es, h)"
  by (cases r) (auto simp: with_body_def)

lemma handle_post_not_object:
  "target r = Some (c, m, b) \<Longrightarrow> (\<And>d. b \<noteq> VDict d) \<Longrightarrow>
   handle env r h = (unprocessable [VError [] DictType b], h)"
  by (cases r; cases b) (auto simp: with_body_def)

lemma handle_post_stored:
  "target r = Some (c, m, VDict d) \<Longrightarrow> validate_model m d = Inr p \<Longrightarrow> fault db = None \<Longrightarrow>
   handle env r (Some db) =
     (ok_response (VDict ((''id'', VStr (oid_str (next_id db))) # ack r)),
      Some (snd (insert_one c p db)))"
  by (cases r) (auto simp: with_body_def create_defs create_document_ok ack_def)

lemma handle_post_unavailable:
  "target r = Some (c, m, VDict d) \<Longrightarrow> validate_model m d = Inr p \<Longrightarrow>
   handle env r None = (server_error, None)"
  by (cases r) (auto simp: with_body_def create_defs)

lemma handle_post_fault:
  "target r = Some (c, m, VDict d) \<Longrightarrow> validate_model m d = Inr p \<Longrightarrow> fault db = Some msg \<Longrightarrow>
   handle env r (Some db) = (server_error, Some db)"
  by (cases r) (auto simp: with_body_def create_defs create_document_fault)

lemma handle_list:
  "list_target r = Some (c, k, q) \<Longrightarrow>
   handle env r h = (listing (serialize_list (get_documents c (query_filter k q) h)), h)"
  by (cases r) (auto simp: list_defs)

lemma handle_status: "status_code (fst (handle env r h)) \<in> {200, 422, 500}"
  by (cases r)
     (auto simp: with_body_def ok_response_def unprocessable_def server_error_def listing_def
        split: pyval.splits sum.splits prod.splits)

lemma effect_None_get: "target r = None \<Longrightarrow> effect r = None"
  by (simp add: effect_def)

subsection \<open>Runs\<close>

lemma run_Cons [simp]:
  "run env (r # rs) h =
     (fst (handle env r h) # fst (run env rs (snd (handle env r h))),
      snd (run env rs (snd (handle env r h))))"
  by (simp split: prod.splits)

declare run.simps(2) [simp del]

lemma run_snd: "snd (run env rs h) = fold next_handle rs h"
  by (induction rs arbitrary: h) (simp_all add: snd_handle)

lemma run_length [simp]: "length (fst (run env rs h)) = length rs"
  by (induction rs arbitrary: h) simp_all

lemma run_append:
  "run env (xs @ ys) h =
     (fst (run env xs h) @ fst (run env ys (snd (run env xs h))),
      snd (run env ys (snd (run env xs h))))"
  by (induction xs arbitrary: h) simp_all

lemma reachable_run: "reachable env h0 h \<longleftrightarrow> (\<exists>rs. snd (run env rs h0) = h)"
proof
  assume "reachable env h0 h"
  then show "\<exists>rs. snd (run env rs h0) = h"
  proof (induction rule: reachable.induct)
    case start
    have "snd (run env [] h0) = h0" by simp
    then show ?case by blast
  next
    case (step h r h')
    then obtain rs where "snd (run env rs h0) = h" by blast
    with step.hyps(2) have "snd (run env (rs @ [r]) h0) = h'"
      by (simp add: run_append)
    then show ?case by blast
  qed
next
  assume "\<exists>rs. snd (run env rs h0) = h"
  then obtain rs where "snd (run env rs h0) = h" by blast
  then show "reachable env h0 h"
  proof (induction rs arbitrary: h rule: rev_induct)
    case Nil
    then show ?case by (simp add: reachable.start)
  next
    case (snoc r rs)
    have "reachable env h0 (snd (run env rs h0))" by (rule snoc.IH) simp
    moreover from snoc.prems have "snd (handle env r (snd (run env rs h0))) = h"
      by (simp add: run_append)
    ultimately show ?case by (rule reachable.step)
  qed
qed

lemma fold_next_handle_inv:
  "handle_inv h \<Longrightarrow> handle_room (length rs) h \<Longrightarrow> handle_inv (fold next_handle rs h)"
proof (induction rs arbitrary: h)
  case (Cons r rs)
  from Cons.prems(2) have "handle_room 1 h"
    by (rule handle_room_mono) simp
  with Cons.prems(1) have "handle_inv (next_handle r h)"
    by (rule handle_inv_next_handle)
  moreover from Cons.prems have "handle_room (length rs) (next_handle r h)"
    by (auto intro: handle_room_next_handle)
  ultimately show ?case using Cons.IH by simp
qed simp

lemma reachable_typed: "reachable env h0 h \<Longrightarrow> handle_typed h0 \<Longrightarrow> handle_typed h"
  by (induction rule: reachable.induct) (auto simp: snd_handle intro: handle_typed_next_handle)

lemma reachable_None_iff: "reachable env h0 h \<Longrightarrow> h = None \<longleftrightarrow> h0 = None"
  by (induction rule: reachable.induct) (auto simp: snd_handle)

lemma create_document_static:
  "snd (create_document c p (Some db)) = Some db' \<Longrightarrow>
   db_name db' = db_name db \<and> fault db' = fault db"
  by (cases "fault db") (auto simp: create_document_fault create_document_ok)

lemma next_handle_static:
  "next_handle r (Some db) = Some db' \<Longrightarrow> db_name db' = db_name db \<and> fault db' = fault db"
  by (auto simp: next_handle_def split: option.splits dest: create_document_static)

subsection \<open>Diagnostics and schema\<close>

lemma keys_test_database:
  "keys (test_database env h) =
     [''backend'', ''database'', ''database_url'', ''database_name'', ''connection_status'',
      ''collections'']"
  by (simp add: test_database_def dict_set_def Let_def split: option.splits sum.splits)

lemma test_database_fault:
  assumes "fault db = Some msg"
  shows "map_of (test_database env (Some db)) ''database'' =
           Some (VStr (cross_mark @ '' Error: '' @ take 80 msg))"
    and "map_of (test_database env (Some db)) ''connection_status'' = Some (VStr ''Connected'')"
  using assms by (simp_all add: test_database_def dict_set_def list_collection_names_def)

lemma test_database_collections:
  assumes "fault db = None"
  shows "map_of (test_database env (Some db)) ''collections'' =
           Some (VList (map VStr (take 10 (keys (colls db)))))"
  using assms by (simp add: test_database_def dict_set_def list_collection_names_def)

lemma keys_model_fields [simp]: "keys (model_fields m) = keys m"
  by (induction m) (auto simp: model_fields_def)

lemma get_schema_eq: "get_schema = map (\<lambda>(c, m). (c, VDict (model_fields m))) exposed"
  by (simp add: get_schema_def exposed_eq)

lemma keys_get_schema: "keys get_schema = keys exposed"
  by (simp add: get_schema_eq comp_def case_prod_unfold)

lemma map_of_get_schema:
  "map_of get_schema c = map_option (\<lambda>m. VDict (model_fields m)) (map_of exposed c)"
  unfolding get_schema_eq by (simp add: map_of_map)

subsection \<open>The port\<close>

lemma int_body_digits: "s \<noteq> [] \<Longrightarrow> list_all is_digit s \<Longrightarrow> int_body s"
  by (induction s rule: int_body.induct) (auto simp: is_digit_def)

lemma is_digit_not_space: "is_digit c \<Longrightarrow> \<not> is_space c"
  by (simp add: is_digit_def is_space_def Let_def)

lemma py_strip_digits: "list_all is_digit s \<Longrightarrow> py_strip s = s"
proof (cases s rule: rev_cases)
  case Nil
  then show ?thesis by (simp add: py_strip_def)
next
  case (snoc t c)
  assume "list_all is_digit s"
  with snoc have c: "\<not> is_space c" and "s \<noteq> []" "\<not> is_space (hd s)"
    by (cases t; auto dest: is_digit_not_space)+
  then have "dropWhile is_space s = s" by (cases s) auto
  with snoc c show ?thesis by (simp add: py_strip_def)
qed

lemma py_strip_id: "s \<noteq> [] \<Longrightarrow> \<not> is_space (hd s) \<Longrightarrow> \<not> is_space (last s) \<Longrightarrow> py_strip s = s"
proof -
  assume s: "s \<noteq> []" "\<not> is_space (hd s)" "\<not> is_space (last s)"
  then have "dropWhile is_space s = s" by (cases s) auto
  moreover from s have "dropWhile is_space (rev s) = rev s"
    by (cases s rule: rev_cases) auto
  ultimately show ?thesis by (simp add: py_strip_def)
qed

lemma digits_plain:
  assumes "list_all is_digit s"
  shows "filter (\<lambda>c. c \<noteq> CHR ''_'') s = s" and "s \<noteq> [] \<Longrightarrow> split_sign s = (False, s)"
  using assms by (cases s; auto simp: list_all_iff is_digit_def split_sign_def intro!: filter_True)+

lemma str_nat_all_digits: "list_all is_digit (str_nat n)"
  by (simp add: list_all_iff str_nat_digits)

lemma py_int_str_nat [simp]: "py_int (str_nat n) = Some (int n)"
proof -
  note d = str_nat_all_digits [of n]
  then have "\<not> is_space (hd (str_nat n))" "\<not> is_space (last (str_nat n))"
    by (auto simp: list_all_iff intro!: is_digit_not_space)
  then have "py_strip (str_nat n) = str_nat n" by (simp add: py_strip_id)
  with d show ?thesis
    by (simp add: py_int_def digits_plain int_body_digits)
qed

lemma py_int_str_int [simp]: "py_int (str_int i) = Some i"
proof (cases "i < 0")
  case False
  then show ?thesis by (simp add: str_int_def)
next
  case True
  let ?s = "str_nat (nat (- i))"
  note d = str_nat_all_digits [of "nat (- i)"]
  then have "\<not> is_space (last ?s)"
    by (auto simp: list_all_iff intro!: is_digit_not_space)
  then have "py_strip (CHR ''-'' # ?s) = CHR ''-'' # ?s"
    by (intro py_strip_id) (simp_all add: is_space_def)
  with d True show ?thesis
    by (simp add: py_int_def str_int_def split_sign_def digits_plain int_body_digits)
qed

lemma main_port_default [simp]: "main_port (env\<lparr>PORT := None\<rparr>) = Inr 8000"
  by (simp add: main_port_def)

subsection \<open>Filters and stored documents\<close>

lemma matches_stored_doc:
  "''_id'' \<notin> set (keys filt) \<Longrightarrow> matches filt (stored_doc x p) = matches filt p"
  by (induction filt) (auto simp: matches_def stored_doc_def map_of_delete_eq)

lemma keys_query_filter: "set (keys (query_filter k q)) \<subseteq> {k}"
  by (auto simp: query_filter_def split: option.splits if_splits)

lemma list_target_key: "list_target g = Some (c, k, q) \<Longrightarrow> k \<noteq> ''_id''"
  by (cases g) auto

subsection \<open>Identifiers issued along a run\<close>

lemma response_id_simps [simp]:
  "response_id (ok_response (VDict d)) = (case map_of d ''id'' of Some (VStr s) \<Rightarrow> Some s | _ \<Rightarrow> None)"
  "response_id (unprocessable es) = None"
  "response_id server_error = None"
  "response_id (listing docs) = None"
  by (simp_all add: ok_response_def unprocessable_def server_error_def listing_def)

declare response_id.simps [simp del]

lemma response_id_get: "target r = None \<Longrightarrow> response_id (fst (handle env r h)) = None"
proof (cases r)
  case GET_test
  have "''id'' \<notin> set (keys (test_database env h))" by (simp add: keys_test_database)
  then have "map_of (test_database env h) ''id'' = None" by (simp add: map_of_eq_None_keys)
  with GET_test show ?thesis by simp
qed (simp_all add: read_root_def map_of_get_schema exposed_eq)

lemma response_id_post:
  assumes "target r = Some (c, m, b)"
  shows "response_id (fst (handle env r h)) =
     (case (effect r, h) of
        (Some cp, Some db) \<Rightarrow> if fault db = None then Some (oid_str (next_id db)) else None
      | _ \<Rightarrow> None)"
proof (cases "effect r")
  case None
  with assms show ?thesis
    by (cases b; cases r)
       (auto simp: effect_def with_body_def split: sum.splits)
next
  case (Some cp)
  then obtain c' p where cp: "cp = (c', p)" by (cases cp)
  with Some assms obtain d where d: "target r = Some (c, m, VDict d)" "validate_model m d = Inr p"
    by (auto simp: effect_Some)
  show ?thesis
  proof (cases h)
    case None
    with Some d show ?thesis by (simp add: handle_post_unavailable)
  next
    case (Some db)
    with \<open>effect r = Some cp\<close> d show ?thesis
      by (cases "fault db") (simp_all add: handle_post_stored handle_post_fault)
  qed
qed

lemma response_id_handle:
  "response_id (fst (handle env r h)) = Some s \<longleftrightarrow>
     (\<exists>cp db. effect r = Some cp \<and> h = Some db \<and> fault db = None \<and> s = oid_str (next_id db))"
proof (cases "target r")
  case None
  then show ?thesis by (simp add: response_id_get effect_None_get)
next
  case (Some t)
  then obtain c m b where "target r = Some (c, m, b)" by (cases t) auto
  then show ?thesis
    by (auto simp: response_id_post split: option.splits if_splits)
qed

lemma next_handle_stored:
  "effect r = Some (c, p) \<Longrightarrow> fault db = None \<Longrightarrow>
   next_handle r (Some db) = Some (snd (insert_one c p db))"
  by (simp add: next_handle_def create_document_ok)

lemma next_handle_next_id:
  assumes "next_handle r (Some db) = Some db'" and "room 1 db"
  shows "unat (next_id db) \<le> unat (next_id db')"
proof (cases "effect r")
  case None
  with assms show ?thesis by (simp add: next_handle_no_effect)
next
  case (Some cp)
  obtain c p where "cp = (c, p)" by (cases cp)
  with Some assms show ?thesis
    by (cases "fault db")
       (auto simp: next_handle_def create_document_ok create_document_fault insert_one_simps
          unat_next_id)
qed

lemma issued_Cons:
  "issued (resp # resps) =
     (case response_id resp of None \<Rightarrow> issued resps | Some s \<Rightarrow> s # issued resps)"
  by (simp add: issued_def map_filter_simps split: option.splits)

lemma issued_Nil [simp]: "issued [] = []"
  by (simp add: issued_def map_filter_simps)

lemma issued_None [simp]: "issued (fst (run env rs None)) = []"
proof (induction rs)
  case (Cons r rs)
  have "response_id (fst (handle env r None)) = None"
    using response_id_handle [of env r None] by (cases "response_id (fst (handle env r None))") auto
  with Cons show ?case by (simp add: issued_Cons snd_handle)
qed simp

lemma issued_run:
  assumes "room (length rs) db"
  shows "distinct (issued (fst (run env rs (Some db)))) \<and>
     (\<forall>s \<in> set (issued (fst (run env rs (Some db)))).
        \<exists>x. s = oid_str x \<and> unat (next_id db) \<le> unat x)"
  using assms
proof (induction rs arbitrary: db)
  case (Cons r rs)
  from Cons.prems have r1: "room 1 db" and rn: "handle_room (Suc (length rs)) (Some db)"
    by (simp_all add: room_def handle_room_def)
  obtain db' where db': "next_handle r (Some db) = Some db'"
    by (cases "next_handle r (Some db)") simp_all
  from handle_room_next_handle [OF rn, of r] db' have room': "room (length rs) db'"
    by (simp add: handle_room_def)
  note IH = Cons.IH [OF room']
  from db' r1 have le: "unat (next_id db) \<le> unat (next_id db')" by (rule next_handle_next_id)
  show ?case
  proof (cases "response_id (fst (handle env r (Some db)))")
    case None
    with IH le db' show ?thesis
      by (fastforce simp: issued_Cons snd_handle)
  next
    case (Some s)
    then obtain cp where cp: "effect r = Some cp" "fault db = None" "s = oid_str (next_id db)"
      by (auto simp: response_id_handle)
    with db' have "next_id db' = next_id db + 1"
      by (cases cp) (auto simp: next_handle_stored insert_one_simps)
    with r1 have lt: "unat (next_id db) < unat (next_id db')" by (simp add: unat_next_id)
    with IH have "s \<notin> set (issued (fst (run env rs (Some db'))))"
      unfolding cp(3) by (auto simp: oid_str_inj)
    with IH lt Some cp(3) db' show ?thesis
      by (fastforce simp: issued_Cons snd_handle)
  qed
qed simp

subsection \<open>Texts that are not numbers\<close>

lemma int_body_chars: "int_body s \<Longrightarrow> c \<in> set s \<Longrightarrow> is_digit c \<or> c = CHR ''_''"
  by (induction s rule: int_body.induct) (auto split: if_splits)

lemma py_strip_keeps: "c \<in> set s \<Longrightarrow> \<not> is_space c \<Longrightarrow> c \<in> set (py_strip s)"
proof -
  assume c: "c \<in> set s" "\<not> is_space c"
  have keep: "c \<in> set (dropWhile is_space xs)" if "c \<in> set xs" for xs
    using that c(2) by (induction xs) auto
  from c(1) show ?thesis by (simp add: py_strip_def keep)
qed

lemma split_sign_keeps:
  "c \<in> set t \<Longrightarrow> c \<noteq> CHR ''-'' \<Longrightarrow> c \<noteq> CHR ''+'' \<Longrightarrow> c \<in> set (snd (split_sign t))"
  by (cases t) (auto simp: split_sign_def)


section \<open>Properties of the API layer\<close>


text \<open>
  C9. What \<open>_serialize\<close> returns, as a lookup table: \<open>_id\<close> is gone, \<open>id\<close>
  holds the text of the identifier when the document had one that is not \<open>None\<close>,
  and every other key holds its value, a date and time replaced by its ISO 8601 text.
\<close>

theorem serialize_lookup:
  assumes "wf_dict doc"
  shows "map_of (serialize doc) k =
     (if k = ''_id'' then None
      else if k = ''id'' \<and> map_of doc ''_id'' \<noteq> None \<and> map_of doc ''_id'' \<noteq> Some VNone
        then map_option (\<lambda>oid. VStr (py_str oid)) (map_of doc ''_id'')
      else map_option iso_val (map_of doc k))"
  using assms
  by (auto simp: serialize_eq map_of_iso_fields map_of_update map_of_delete_eq iso_val_def
      split: option.splits)

theorem serialize_lookup_witness:
  "map_of (serialize [(''_id'', VObjectId 255), (''title'', VStr ''Bounty'')]) ''id''
     = Some (VStr (oid_str 255))"
  using serialize_lookup [of "[(''_id'', VObjectId 255), (''title'', VStr ''Bounty'')]" "''id''"]
  by (simp add: wf_dict_def py_str_def)

text \<open>
  C10. A stored document is listed with its fields in the order of the model and the
  identifier last, as \<open>id\<close>: the loop of \<open>_serialize\<close>, which assigns to the
  dictionary it reads from, is the field-wise conversion.
\<close>

theorem serialize_stored_document:
  assumes "wf_dict p" and "''_id'' \<notin> set (keys p)" and "''id'' \<notin> set (keys p)"
  shows "serialize (stored_doc x p) = iso_fields p @ [(''id'', VStr (oid_str x))]"
  using assms by (simp add: stored_doc_no_id serialize_stored)

theorem serialize_stored_document_witness:
  "serialize (stored_doc 7 [(''title'', VStr ''Darkmoon Faire''),
       (''date'', VDatetime \<lparr>year = 2024, month = 5, day = 1, hour = 18, minute = 0,
          second = 0, microsecond = 0\<rparr>)])
   = [(''title'', VStr ''Darkmoon Faire''), (''date'', VStr ''2024-05-01T18:00:00''),
      (''id'', VStr ''000000000000000000000007'')]"
proof -
  have "oid_str 7 = ''000000000000000000000007''" by code_simp
  moreover have "isoformat \<lparr>year = 2024, month = 5, day = 1, hour = 18, minute = 0,
          second = 0, microsecond = 0\<rparr> = ''2024-05-01T18:00:00''" by code_simp
  ultimately show ?thesis
    using serialize_stored_document [of "[(''title'', VStr ''Darkmoon Faire''),
       (''date'', VDatetime \<lparr>year = 2024, month = 5, day = 1, hour = 18, minute = 0,
          second = 0, microsecond = 0\<rparr>)]" 7]
    by (simp add: wf_dict_def iso_val_def)
qed

text \<open>
  Serialising twice is serialising once: a listed document has no \<open>_id\<close> and
  no date and time left to convert.
\<close>

theorem serialize_idempotent:
  assumes "wf_dict doc"
  shows "serialize (serialize doc) = serialize doc"
proof -
  have "serialize (serialize doc) = iso_fields (serialize doc)"
    using assms by (intro serialize_no_id wf_serialize serialize_keys_no_id)
  also obtain d where d: "serialize doc = iso_fields d"
    using assms by (simp add: serialize_eq)
  then have "iso_fields (serialize doc) = serialize doc" by simp
  finally show ?thesis .
qed

theorem serialize_idempotent_witness:
  "serialize (serialize [(''_id'', VObjectId 3), (''title'', VStr ''Bounty'')])
     = serialize [(''_id'', VObjectId 3), (''title'', VStr ''Bounty'')]"
  by (rule serialize_idempotent) (simp add: wf_dict_def)

text \<open>
  No value of a serialised document is a date and time, so the response can be
  written as JSON.
\<close>

theorem serialize_leaves_no_datetime:
  assumes "wf_dict doc" and "(k, v) \<in> set (serialize doc)"
  shows "\<not> is_datetime v"
proof -
  from assms obtain d where "serialize doc = iso_fields d" by (simp add: serialize_eq)
  with assms(2) show ?thesis by (auto simp: iso_fields_def)
qed

theorem serialize_leaves_no_datetime_witness:
  "\<not> is_datetime (VStr (isoformat \<lparr>year = 2024, month = 5, day = 1, hour = 18, minute = 0,
          second = 0, microsecond = 0\<rparr>))"
proof (rule serialize_leaves_no_datetime)
  show "wf_dict [(''date'', VDatetime \<lparr>year = 2024, month = 5, day = 1, hour = 18, minute = 0,
          second = 0, microsecond = 0\<rparr>)]"
    by (simp add: wf_dict_def)
  show "(''date'', VStr (isoformat \<lparr>year = 2024, month = 5, day = 1, hour = 18, minute = 0,
          second = 0, microsecond = 0\<rparr>))
      \<in> set (serialize [(''date'', VDatetime \<lparr>year = 2024, month = 5, day = 1, hour = 18,
          minute = 0, second = 0, microsecond = 0\<rparr>)])"
    by (simp add: serialize_no_id wf_dict_def iso_val_def)
qed

text \<open>
  C7. A body that the model of the route rejects is answered with status 422 and a
  non-empty list of errors, and the store is not touched.
\<close>

theorem rejected_post:
  assumes "target r = Some (c, m, VDict d)" and "\<not> is_ok (validate_model m d)"
  shows "status_code (fst (handle env r h)) = 422 \<and> snd (handle env r h) = h \<and>
     (\<exists>es. es \<noteq> [] \<and> content (fst (handle env r h)) = VDict [(''detail'', VList (map error_json es))])"
proof -
  from assms(2) obtain es where es: "validate_model m d = Inl es"
    by (cases "validate_model m d") simp_all
  then have "es \<noteq> []" by (simp add: validate_model_Inl)
  with handle_post_rejected [OF assms(1) es] show ?thesis
    by (auto simp: unprocessable_def)
qed

theorem rejected_post_witness:
  "status_code (fst (handle \<lparr>DATABASE_URL = None, PORT = None\<rparr>
      (POST_quests (VDict [(''title'', VStr ''Bounty'')])) None)) = 422 \<and>
   snd (handle \<lparr>DATABASE_URL = None, PORT = None\<rparr>
      (POST_quests (VDict [(''title'', VStr ''Bounty'')])) None) = None \<and>
   (\<exists>es. es \<noteq> [] \<and>
      content (fst (handle \<lparr>DATABASE_URL = None, PORT = None\<rparr>
        (POST_quests (VDict [(''title'', VStr ''Bounty'')])) None))
      = VDict [(''detail'', VList (map error_json es))])"
proof (rule rejected_post)
  show "target (POST_quests (VDict [(''title'', VStr ''Bounty'')]))
      = Some (''quest'', Quest, VDict [(''title'', VStr ''Bounty'')])"
    by simp
  show "\<not> is_ok (validate_model Quest [(''title'', VStr ''Bounty'')])" by code_simp
qed

text \<open>
  Requests that are not a \<open>POST\<close> to a collection never change the store,
  however many of them are served.
\<close>

theorem reads_leave_store:
  assumes "list_all (\<lambda>r. target r = None) rs"
  shows "snd (run env rs h) = h"
  using assms
  by (induction rs arbitrary: h)
     (simp_all add: snd_handle next_handle_no_effect effect_None_get)

theorem reads_leave_store_witness:
  "snd (run \<lparr>DATABASE_URL = None, PORT = None\<rparr> [GET_root, GET_test, GET_schema, GET_quests None]
      (Some (empty_database ''twist''))) = Some (empty_database ''twist'')"
  by (rule reads_leave_store) simp

text \<open>
  C8. A listing with a non-empty query parameter returns exactly the stored
  documents of the collection whose field equals the parameter, serialised, in the
  order they were stored.
\<close>

theorem list_filter_exact:
  assumes "list_target g = Some (c, k, Some s)" and "s \<noteq> []" and "fault db = None"
  shows "fst (handle env g (Some db)) =
     listing (map serialize (filter (\<lambda>doc. map_of doc k = Some (VStr s)) (collection db c)))"
proof -
  have "matches [(k, VStr s)] = (\<lambda>doc. map_of doc k = Some (VStr s))"
    by (rule ext) simp
  with assms show ?thesis
    by (simp add: handle_list get_documents_ok serialize_list_def)
qed

theorem list_filter_exact_witness:
  "fst (handle \<lparr>DATABASE_URL = None, PORT = None\<rparr> (GET_backstories (Some ''submitted''))
      (Some \<lparr>db_name = ''twist'',
        colls = [(''backstory'',
          [[(''_id'', VObjectId 0), (''status'', VStr ''submitted'')],
           [(''_id'', VObjectId 1), (''status'', VStr ''approved'')]])],
        next_id = 2, fault = None\<rparr>))
   = listing [[(''status'', VStr ''submitted''), (''id'', VStr (oid_str 0))]]"
  using list_filter_exact [of "GET_backstories (Some ''submitted'')" "''backstory''" "''status''"
      "''submitted''"
      "\<lparr>db_name = ''twist'',
        colls = [(''backstory'',
          [[(''_id'', VObjectId 0), (''status'', VStr ''submitted'')],
           [(''_id'', VObjectId 1), (''status'', VStr ''approved'')]])],
        next_id = 2, fault = None\<rparr>" "\<lparr>DATABASE_URL = None, PORT = None\<rparr>"]
  by (simp add: collection_def serialize_stored wf_dict_def iso_val_def)

text \<open>
  C39. An empty query parameter is no filter: the listing is the whole collection.
\<close>

theorem empty_query_lists_all:
  assumes "list_target g = Some (c, k, Some [])"
  shows "fst (handle env g h) = listing (serialize_list (get_documents c [] h))"
  using assms by (simp add: handle_list)

theorem empty_query_lists_all_witness:
  "fst (handle \<lparr>DATABASE_URL = None, PORT = None\<rparr> (GET_quests (Some [])) None)
     = listing (serialize_list (get_documents ''quest'' [] None))"
  by (rule empty_query_lists_all) simp

text \<open>
  C26. Graceful read degrade: with no database handle, and also with a store that
  fails, every list endpoint answers status 200 with an empty array and leaves the
  handle as it was.
\<close>

theorem list_without_database:
  assumes "list_target g = Some (c, k, q)" and "h = None \<or> (\<exists>db msg. h = Some db \<and> fault db = Some msg)"
  shows "handle env g h = (\<lparr>status_code = 200, content = VList []\<rparr>, h)"
  using assms
  by (auto simp: handle_list get_documents_fault serialize_list_def listing_def ok_response_def)

theorem list_without_database_witness:
  "handle \<lparr>DATABASE_URL = None, PORT = None\<rparr> (GET_characters (Some ''jaina#1'')) None
     = (\<lparr>status_code = 200, content = VList []\<rparr>, None)"
  by (rule list_without_database) simp_all

text \<open>
  C27. A write without a usable database: with no handle, or with a store that
  fails, an accepted body makes the storage layer raise, nothing catches the exception,
  and the answer is status 500 with the handle as it was.
\<close>

theorem write_without_database:
  assumes "target r = Some (c, m, VDict d)" and "validate_model m d = Inr p"
    and "h = None \<or> (\<exists>db msg. h = Some db \<and> fault db = Some msg)"
  shows "handle env r h = (server_error, h)"
  using assms by (auto simp: handle_post_unavailable handle_post_fault)

theorem write_without_database_witness:
  "handle \<lparr>DATABASE_URL = None, PORT = None\<rparr>
     (POST_quests (VDict [(''title'', VStr ''Bounty''), (''description'', VStr ''Hogger'')])) None
   = (server_error, None)"
proof (rule write_without_database)
  show "target (POST_quests (VDict [(''title'', VStr ''Bounty''), (''description'', VStr ''Hogger'')]))
      = Some (''quest'', Quest, VDict [(''title'', VStr ''Bounty''), (''description'', VStr ''Hogger'')])"
    by simp
  show "validate_model Quest [(''title'', VStr ''Bounty''), (''description'', VStr ''Hogger'')]
      = Inr [(''title'', VStr ''Bounty''), (''description'', VStr ''Hogger''),
          (''difficulty'', VStr ''normal''), (''status'', VStr ''open''), (''rewards'', VList [])]"
    by code_simp
  show "(None :: db_handle) = None \<or> (\<exists>db msg. (None :: db_handle) = Some db \<and> fault db = Some msg)"
    by simp
qed

text \<open>
  C5. Every document of every exposed collection conforms to the model of its
  collection after every run from a typed store: only validated payloads are stored.
\<close>

theorem stored_documents_typed:
  assumes "handle_typed h"
  shows "handle_typed (snd (run env rs h))"
proof -
  have "reachable env h (snd (run env rs h))" by (auto simp: reachable_run)
  then show ?thesis using assms by (rule reachable_typed)
qed

theorem stored_documents_typed_witness:
  "handle_typed (snd (run \<lparr>DATABASE_URL = None, PORT = None\<rparr>
     [POST_quests (VDict [(''title'', VStr ''Bounty''), (''description'', VStr ''Hogger'')]),
      GET_quests None]
     (Some (empty_database ''twist''))))"
  by (rule stored_documents_typed)
     simp

text \<open>
  C4. The invariant of the store holds after every run that the identifier
  generator has room for: collection names and the keys of every document are distinct,
  every document has an identifier, no two documents of the database share one, and
  every identifier in use is below the next one to be issued.
\<close>

theorem store_invariant_run:
  assumes "handle_inv h" and "handle_room (length rs) h"
  shows "handle_inv (snd (run env rs h))"
  using assms by (simp add: run_snd fold_next_handle_inv)

theorem store_invariant_run_witness:
  "handle_inv (snd (run \<lparr>DATABASE_URL = None, PORT = None\<rparr>
     [POST_quests (VDict [(''title'', VStr ''Bounty''), (''description'', VStr ''Hogger'')]),
      GET_quests None]
     (Some (empty_database ''twist''))))"
  by (rule store_invariant_run)
     simp_all

text \<open>
  The database handle is fixed at start-up: no request creates or drops it, and
  the database keeps its name and its availability.
\<close>

theorem handle_fixed_at_startup:
  assumes "reachable env h0 h"
  shows "(h = None \<longleftrightarrow> h0 = None) \<and>
     (\<forall>db db'. h0 = Some db \<and> h = Some db' \<longrightarrow> db_name db' = db_name db \<and> fault db' = fault db)"
  using assms
proof (induction rule: reachable.induct)
  case (step h r h')
  then show ?case
    by (cases h) (auto simp: snd_handle dest: next_handle_static)
qed auto

theorem handle_fixed_at_startup_witness:
  "snd (handle \<lparr>DATABASE_URL = None, PORT = None\<rparr>
     (POST_quests (VDict [(''title'', VStr ''Bounty''), (''description'', VStr ''Hogger'')]))
     (Some (empty_database ''twist''))) \<noteq> None"
proof -
  have "reachable \<lparr>DATABASE_URL = None, PORT = None\<rparr> (Some (empty_database ''twist''))
     (snd (handle \<lparr>DATABASE_URL = None, PORT = None\<rparr>
       (POST_quests (VDict [(''title'', VStr ''Bounty''), (''description'', VStr ''Hogger'')]))
       (Some (empty_database ''twist''))))"
    by (rule reachable.step [OF reachable.start refl])
  from handle_fixed_at_startup [OF this] show ?thesis by simp
qed

text \<open>
  The diagnostics never show the connection string: the response depends on the
  environment only through whether \<open>DATABASE_URL\<close> is set to a non-empty text.
\<close>

theorem diagnostics_hide_url:
  "getenv_truthy (DATABASE_URL env) = getenv_truthy (DATABASE_URL env') \<Longrightarrow>
   test_database env h = test_database env' h"
  by (simp add: test_database_def)

theorem diagnostics_hide_url_witness:
  "test_database \<lparr>DATABASE_URL = Some ''mongodb://a'', PORT = None\<rparr> (Some (empty_database ''twist''))
     = test_database \<lparr>DATABASE_URL = Some ''mongodb://b'', PORT = Some ''80''\<rparr>
         (Some (empty_database ''twist''))"
  by (rule diagnostics_hide_url) (simp add: getenv_truthy_def)

text \<open>
  C36. When listing the collection names fails, the diagnostics put the first 80
  characters of the message under \<open>database\<close>, and keep \<open>connection_status\<close> at
  \<open>Connected\<close> and an empty list of collections: the keys set before the failure are
  not reset.
\<close>

theorem diagnostics_fault_report:
  assumes "fault db = Some msg"
  shows "map_of (test_database env (Some db)) ''database'' =
           Some (VStr (cross_mark @ '' Error: '' @ take 80 msg)) \<and>
     map_of (test_database env (Some db)) ''connection_status'' = Some (VStr ''Connected'') \<and>
     map_of (test_database env (Some db)) ''collections'' = Some (VList [])"
  using assms by (simp add: test_database_def dict_set_def list_collection_names_def)

theorem diagnostics_fault_report_witness:
  "map_of (test_database \<lparr>DATABASE_URL = None, PORT = None\<rparr>
      (Some ((empty_database ''twist'')\<lparr>fault := Some ''timed out''\<rparr>))) ''connection_status''
     = Some (VStr ''Connected'')"
  using diagnostics_fault_report [of "(empty_database ''twist'')\<lparr>fault := Some ''timed out''\<rparr>"
      "''timed out''" "\<lparr>DATABASE_URL = None, PORT = None\<rparr>"]
  by simp

text \<open>
  C37. The schema endpoint and validation agree: for every exposed collection the
  endpoint lists exactly the fields of a validated record of its model, in their order.
\<close>

theorem schema_fields:
  assumes "(c, m) \<in> set exposed" and "validate_model m d = Inr r"
  shows "\<exists>fs. map_of get_schema c = Some (VDict fs) \<and> keys fs = keys r"
proof -
  have "distinct (keys exposed)" by (simp add: exposed_eq)
  with assms(1) have "map_of exposed c = Some m" by simp
  moreover from assms have "keys r = keys m"
    by (auto dest!: exposed_wf validate_model_sound conforms_keys)
  ultimately show ?thesis by (simp add: map_of_get_schema)
qed

theorem schema_fields_witness:
  "\<exists>fs. map_of get_schema ''quest'' = Some (VDict fs) \<and>
     keys fs = keys [(''title'', VStr ''Bounty''), (''description'', VStr ''Hogger''),
          (''difficulty'', VStr ''normal''), (''status'', VStr ''open''), (''rewards'', VList [])]"
proof (rule schema_fields)
  show "(''quest'', Quest) \<in> set exposed" by (simp add: exposed_eq)
  show "validate_model Quest [(''title'', VStr ''Bounty''), (''description'', VStr ''Hogger'')]
      = Inr [(''title'', VStr ''Bounty''), (''description'', VStr ''Hogger''),
          (''difficulty'', VStr ''normal''), (''status'', VStr ''open''), (''rewards'', VList [])]"
    by code_simp
qed

text \<open>
  The CORS configuration permits every origin, every method and every header.
\<close>

theorem cors_permits_everything: "cors_permits cors origin method headers"
  by (simp add: cors_permits_def cors_def allowed_def list_all_iff)

text \<open>
  The port is read back from its decimal text: \<open>PORT\<close> set to the text of an
  integer makes the server listen on that integer, and an unset \<open>PORT\<close> on 8000.
\<close>

theorem port_from_environment:
  "main_port (env\<lparr>PORT := Some (str_int i)\<rparr>) = Inr i \<and> main_port (env\<lparr>PORT := None\<rparr>) = Inr 8000"
  by (simp add: main_port_def)

text \<open>
  C38. A \<open>PORT\<close> that is not a number stops the start-up: a text with a character
  that is not a digit, a sign, an underscore or white space raises \<open>ValueError\<close>,
  and no default is used.
\<close>

theorem invalid_port_raises:
  assumes "c \<in> set s" and "\<not> is_digit c" and "\<not> is_space c"
    and "c \<noteq> CHR ''-''" and "c \<noteq> CHR ''+''" and "c \<noteq> CHR ''_''"
  shows "main_port (env\<lparr>PORT := Some s\<rparr>) =
     Inl (ValueError (''invalid literal for int() with base 10: '' @ repr_str s))"
proof -
  from assms have "c \<in> set (snd (split_sign (py_strip s)))"
    by (intro split_sign_keeps py_strip_keeps)
  with assms(2,6) have "\<not> int_body (snd (split_sign (py_strip s)))"
    by (auto dest: int_body_chars)
  then have "py_int s = None"
    by (simp add: py_int_def case_prod_unfold Let_def)
  then show ?thesis by (simp add: main_port_def)
qed

theorem invalid_port_raises_witness:
  "main_port \<lparr>DATABASE_URL = None, PORT = Some ''http''\<rparr> =
     Inl (ValueError (''invalid literal for int() with base 10: '' @ repr_str ''http''))"
  using invalid_port_raises [of "CHR ''h''" "''http''" "\<lparr>DATABASE_URL = None, PORT = None\<rparr>"]
  by (simp add: is_digit_def is_space_def)

end
