(* ===== verification/Http.thy ===== *)
theory Http
  imports Api
begin

text \<open>
  The routes of \<open>src/main.py\<close> and the way a request reaches its handler. The
  table \<open>routes\<close> is the list of the decorators \<open>@app.get\<close> and \<open>@app.post\<close>
  in the order of the file, each with what the signature of its handler asks for: nothing,
  a body, or one optional query parameter. \<open>route\<close> is the router of the framework on
  this table: the first route with the path and the method of the request is taken, a
  path that is routed under another method only is answered with status 405, a path that
  is routed once its trailing slashes are toggled is redirected with status 307, and any
  other path is answered with status 404. \<open>serve_http\<close> is the application as a
  function of an HTTP request.
\<close>

section \<open>Requests and the route table\<close>

datatype http_method = GET | POST | PUT | PATCH | DELETE | HEAD | OPTIONS

text \<open>
  A request after the transport has read it: method, path, the query string as its list
  of pairs, and the body as the parsed JSON value if there is one.
\<close>

record http_request =
  verb :: http_method
  path :: string
  query :: "(string \<times> string) list"
  body :: "pyval option"

text \<open>
  What a handler takes: no argument, the body (a model), or one optional query
  parameter under its name.
\<close>

datatype endpoint =
    Plain request
  | Create "pyval \<Rightarrow> request"
  | Listing string "string option \<Rightarrow> request"

definition routes :: "(http_method \<times> string \<times> endpoint) list" where
  "routes =
    [(GET, ''/'', Plain GET_root),
     (GET, ''/test'', Plain GET_test),
     (GET, ''/schema'', Plain GET_schema),
     (POST, ''/characters'', Create POST_characters),
     (GET, ''/characters'', Listing ''owner_discord'' GET_characters),
     (POST, ''/backstories'', Create POST_backstories),
     (GET, ''/backstories'', Listing ''status'' GET_backstories),
     (POST, ''/reports'', Create POST_reports),
     (GET, ''/reports'', Listing ''character_name'' GET_reports),
     (POST, ''/events'', Create POST_events),
     (GET, ''/events'', Listing ''event_type'' GET_events),
     (POST, ''/quests'', Create POST_quests),
     (GET, ''/quests'', Listing ''status'' GET_quests)]"

section \<open>The router\<close>

text \<open>
  A scalar query parameter given several times has its last value. A route that takes a
  body and gets none is answered with status 422 and a missing-field error at the body.
\<close>

definition query_param :: "(string \<times> string) list \<Rightarrow> string \<Rightarrow> string option" where
  "query_param q k = map_of (rev q) k"

definition not_found :: response where
  "not_found = \<lparr>status_code = 404, content = VDict [(''detail'', VStr ''Not Found'')]\<rparr>"

definition method_not_allowed :: response where
  "method_not_allowed =
     \<lparr>status_code = 405, content = VDict [(''detail'', VStr ''Method Not Allowed'')]\<rparr>"

text \<open>The redirection has no body; its target travels in a header.\<close>

definition redirect :: response where
  "redirect = \<lparr>status_code = 307, content = VNone\<rparr>"

definition body_missing :: response where
  "body_missing = unprocessable [VError [] Missing VNone]"

definition toggle_slash :: "string \<Rightarrow> string" where
  "toggle_slash p =
     (if p \<noteq> [] \<and> last p = CHR ''/'' then rev (dropWhile (\<lambda>c. c = CHR ''/'') (rev p))
      else p @ ''/'')"

definition bind_request :: "endpoint \<Rightarrow> http_request \<Rightarrow> response + request" where
  "bind_request e req =
     (case e of
        Plain r \<Rightarrow> Inr r
      | Create mk \<Rightarrow> (case body req of None \<Rightarrow> Inl body_missing | Some b \<Rightarrow> Inr (mk b))
      | Listing k mk \<Rightarrow> Inr (mk (query_param (query req) k)))"

definition route :: "http_request \<Rightarrow> response + request" where
  "route req =
     (let same_path = filter (\<lambda>(m, p, e). p = path req) routes
      in case find (\<lambda>(m, p, e). m = verb req) same_path of
           Some (m, p, e) \<Rightarrow> bind_request e req
         | None \<Rightarrow>
             if same_path \<noteq> [] then Inl method_not_allowed
             else if path req \<noteq> ''/'' \<and>
                     list_ex (\<lambda>(m, p, e). p = toggle_slash (path req)) routes
               then Inl redirect
             else Inl not_found)"

definition serve_http :: "environ \<Rightarrow> http_request \<Rightarrow> db_handle \<Rightarrow> response \<times> db_handle" where
  "serve_http env req h =
     (case route req of Inl resp \<Rightarrow> (resp, h) | Inr r \<Rightarrow> handle env r h)"

fun run_http :: "environ \<Rightarrow> http_request list \<Rightarrow> db_handle \<Rightarrow> response list \<times> db_handle" where
  "run_http env [] h = ([], h)"
| "run_http env (r # rs) h =
     (let (resp, h') = serve_http env r h; (resps, h'') = run_http env rs h'
      in (resp # resps, h''))"

text \<open>
  The HTTP request that stands for a request of the dispatch, and the requests of a
  list that reach a handler.
\<close>

definition get_request :: "string \<Rightarrow> string \<Rightarrow> string option \<Rightarrow> http_request" where
  "get_request p k q =
     \<lparr>verb = GET, path = p, query = (case q of None \<Rightarrow> [] | Some s \<Rightarrow> [(k, s)]), body = None\<rparr>"

definition post_request :: "string \<Rightarrow> pyval \<Rightarrow> http_request" where
  "post_request p b = \<lparr>verb = POST, path = p, query = [], body = Some b\<rparr>"

fun to_http :: "request \<Rightarrow> http_request" where
  "to_http GET_root = get_request ''/'' [] None"
| "to_http GET_test = get_request ''/test'' [] None"
| "to_http GET_schema = get_request ''/schema'' [] None"
| "to_http (POST_characters b) = post_request ''/characters'' b"
| "to_http (GET_characters q) = get_request ''/characters'' ''owner_discord'' q"
| "to_http (POST_backstories b) = post_request ''/backstories'' b"
| "to_http (GET_backstories q) = get_request ''/backstories'' ''status'' q"
| "to_http (POST_reports b) = post_request ''/reports'' b"
| "to_http (GET_reports q) = get_request ''/reports'' ''character_name'' q"
| "to_http (POST_events b) = post_request ''/events'' b"
| "to_http (GET_events q) = get_request ''/events'' ''event_type'' q"
| "to_http (POST_quests b) = post_request ''/quests'' b"
| "to_http (GET_quests q) = get_request ''/quests'' ''status'' q"

definition routed :: "http_request list \<Rightarrow> request list" where
  "routed reqs =
     List.map_filter (\<lambda>req. case route req of Inl resp \<Rightarrow> None | Inr r \<Rightarrow> Some r) reqs"

section \<open>Facts about the router\<close>

lemma route_Inr:
  assumes "route req = Inr r"
  shows "\<exists>e. (verb req, path req, e) \<in> set routes \<and> bind_request e req = Inr r"
proof -
  from assms obtain m p e where
    f: "find (\<lambda>(m, p, e). m = verb req) (filter (\<lambda>(m, p, e). p = path req) routes) = Some (m, p, e)"
    and b: "bind_request e req = Inr r"
    by (auto simp: route_def Let_def split: option.splits if_splits)
  from f have "m = verb req" "p = path req" "(m, p, e) \<in> set routes"
    by (auto simp: find_Some_iff dest: nth_mem)
  with b show ?thesis by blast
qed

lemma routes_keys:
  "map (\<lambda>(m, p, e). (m, p)) routes =
    [(GET, ''/''), (GET, ''/test''), (GET, ''/schema''), (POST, ''/characters''),
     (GET, ''/characters''), (POST, ''/backstories''), (GET, ''/backstories''),
     (POST, ''/reports''), (GET, ''/reports''), (POST, ''/events''), (GET, ''/events''),
     (POST, ''/quests''), (GET, ''/quests'')]"
  by (simp add: routes_def)

lemma routes_distinct: "distinct (map (\<lambda>(m, p, e). (m, p)) routes)"
  unfolding routes_keys by simp

lemma find_route:
  "(m, p, e) \<in> set rs \<Longrightarrow> distinct (map (\<lambda>(m, p, e). (m, p)) rs) \<Longrightarrow>
   find (\<lambda>(m', p', e'). m' = m) (filter (\<lambda>(m', p', e'). p' = p) rs) = Some (m, p, e)"
  by (induction rs) (auto simp: rev_image_eqI)

lemma route_entry:
  assumes "(m, p, e) \<in> set routes" and "verb req = m" and "path req = p"
  shows "route req = bind_request e req"
  using find_route [OF assms(1) routes_distinct] assms(2,3) by (simp add: route_def)

lemma routes_GET_all:
  "list_all (\<lambda>(m, p, e). m = GET \<longrightarrow>
     (\<forall>req r. bind_request e req = Inr r \<longrightarrow> target r = None)) routes"
  by (simp add: routes_def bind_request_def)

lemma routes_GET:
  "(GET, p, e) \<in> set routes \<Longrightarrow> bind_request e req = Inr r \<Longrightarrow> target r = None"
  using routes_GET_all by (auto simp: list_all_iff)

lemma routes_POST:
  "(POST, p, e) \<in> set routes \<Longrightarrow> \<exists>mk. e = Create mk"
  by (auto simp: routes_def)

lemma routes_create:
  "(m, p, Create mk) \<in> set routes \<Longrightarrow>
   mk \<in> {POST_characters, POST_backstories, POST_reports, POST_events, POST_quests}"
proof -
  have "list_all (\<lambda>(m, p, e). case e of Create mk \<Rightarrow>
      mk \<in> {POST_characters, POST_backstories, POST_reports, POST_events, POST_quests} | _ \<Rightarrow> True) routes"
    by (simp add: routes_def)
  then show "(m, p, Create mk) \<in> set routes \<Longrightarrow>
      mk \<in> {POST_characters, POST_backstories, POST_reports, POST_events, POST_quests}"
    by (auto simp: list_all_iff)
qed

lemma routes_verbs: "(m, p, e) \<in> set routes \<Longrightarrow> m = GET \<or> m = POST"
  by (auto simp: routes_def)

lemma route_Inl_status:
  "route req = Inl resp \<Longrightarrow> status_code resp \<in> {307, 404, 405, 422}"
  by (auto simp: route_def Let_def bind_request_def body_missing_def unprocessable_def
      method_not_allowed_def redirect_def not_found_def
      split: option.splits if_splits endpoint.splits)

lemma serve_http_Inl [simp]: "route req = Inl resp \<Longrightarrow> serve_http env req h = (resp, h)"
  by (simp add: serve_http_def)

lemma serve_http_Inr [simp]: "route req = Inr r \<Longrightarrow> serve_http env req h = handle env r h"
  by (simp add: serve_http_def)

lemma snd_serve_http:
  "snd (serve_http env req h) = (case route req of Inl resp \<Rightarrow> h | Inr r \<Rightarrow> next_handle r h)"
  by (cases "route req") (simp_all add: snd_handle)

lemma run_http_Cons [simp]:
  "run_http env (r # rs) h =
     (fst (serve_http env r h) # fst (run_http env rs (snd (serve_http env r h))),
      snd (run_http env rs (snd (serve_http env r h))))"
  by (simp split: prod.splits)

declare run_http.simps(2) [simp del]

lemma run_http_append:
  "run_http env (xs @ ys) h =
     (fst (run_http env xs h) @ fst (run_http env ys (snd (run_http env xs h))),
      snd (run_http env ys (snd (run_http env xs h))))"
  by (induction xs arbitrary: h) simp_all

lemma routed_simps [simp]:
  "routed [] = []"
  "routed (req # reqs) = (case route req of Inl resp \<Rightarrow> routed reqs | Inr r \<Rightarrow> r # routed reqs)"
  by (simp_all add: routed_def map_filter_simps split: sum.splits)

lemma snd_run_http: "snd (run_http env reqs h) = snd (run env (routed reqs) h)"
  by (induction reqs arbitrary: h) (simp_all add: snd_serve_http snd_handle split: sum.splits)

lemma http_status_codes:
  "status_code (fst (serve_http env req h)) \<in> {200, 307, 404, 405, 422, 500}"
proof (cases "route req")
  case (Inl resp)
  then show ?thesis using route_Inl_status [OF Inl] by auto
next
  case (Inr r)
  then show ?thesis using handle_status [of env r h] by auto
qed

section \<open>Properties of the router\<close>


text \<open>
  C29. The route table is unambiguous and the router follows it: no method and path
  occur twice, and a request with the method and path of an entry is bound to the
  endpoint of that entry.
\<close>

theorem routes_unambiguous:
  assumes "(m, p, e) \<in> set routes"
  shows "distinct (map (\<lambda>(m, p, e). (m, p)) routes) \<and>
     route (req\<lparr>verb := m, path := p\<rparr>) = bind_request e (req\<lparr>verb := m, path := p\<rparr>)"
proof -
  note routes_distinct
  moreover from assms have
    "route (req\<lparr>verb := m, path := p\<rparr>) = bind_request e (req\<lparr>verb := m, path := p\<rparr>)"
    by (rule route_entry) simp_all
  ultimately show ?thesis ..
qed

theorem routes_unambiguous_witness:
  "distinct (map (\<lambda>(m, p, e). (m, p)) routes) \<and>
   route (\<lparr>verb = PUT, path = ''/x'', query = [(''status'', ''open'')], body = None\<rparr>
      \<lparr>verb := GET, path := ''/quests''\<rparr>) =
   bind_request (Listing ''status'' GET_quests)
     (\<lparr>verb = PUT, path = ''/x'', query = [(''status'', ''open'')], body = None\<rparr>
        \<lparr>verb := GET, path := ''/quests''\<rparr>)"
  by (rule routes_unambiguous) (simp add: routes_def)

text \<open>
  C16. Reading is safe: a request whose method is not \<open>POST\<close> never changes the
  store, whatever its path, query and body.
\<close>

theorem get_is_safe:
  assumes "verb req \<noteq> POST"
  shows "snd (serve_http env req h) = h"
proof (cases "route req")
  case (Inr r)
  then obtain e where e: "(verb req, path req, e) \<in> set routes" "bind_request e req = Inr r"
    by (auto dest: route_Inr)
  with assms have "verb req = GET" by (auto dest: routes_verbs)
  with e have "target r = None" by (auto dest: routes_GET)
  with Inr show ?thesis by (simp add: snd_handle next_handle_no_effect effect_None_get)
qed simp

theorem get_is_safe_witness:
  "snd (serve_http \<lparr>DATABASE_URL = None, PORT = None\<rparr>
     \<lparr>verb = DELETE, path = ''/quests'', query = [], body = Some (VDict [])\<rparr>
     (Some (empty_database ''twist''))) = Some (empty_database ''twist'')"
  by (rule get_is_safe) simp



end
