(* ===== verification/Server.thy ===== *)
theory Server
  imports Http Concurrency "HOL-Library.While_Combinator"
begin

text \<open>
  The process entry of \<open>src/main.py\<close> and the server it starts. \<open>main\<close> is the
  block under \<open>__main__\<close>: the port is read from the environment and the application
  is bound to all interfaces. The server loop is the one of the HTTP server that
  \<open>uvicorn.run\<close> starts, as far as the application can observe it: connections bring
  their requests in order, the server takes the next request of some connection, lets
  the application answer it and writes the access log, until nothing is pending. Which
  connection is served next is the scheduler's choice, a parameter \<open>pick\<close> of the
  loop; the server never idles while a request is pending, so an answer of \<open>pick\<close>
  that names no pending connection is replaced by the first pending one.
\<close>

section \<open>Process entry\<close>

definition app_title :: string where
  "app_title = ''Twist of Fate RP Backend''"

record socket_address =
  host :: string
  port :: int

definition main :: "environ \<Rightarrow> value_error + socket_address" where
  "main env = raise_bind (main_port env) (\<lambda>p. Inr \<lparr>host = ''0.0.0.0'', port = p\<rparr>)"

text \<open>
  Start-up: importing the module \<open>database\<close> makes the one connection attempt, then
  the entry block runs. Neither waits for the other.
\<close>

definition startup ::
    "environ \<Rightarrow> database option \<Rightarrow> db_handle \<times> (value_error + socket_address)" where
  "startup env server = (connect (DATABASE_URL env) server, main env)"

section \<open>The server loop\<close>

record server_state =
  queues :: "http_request list list"
  store :: db_handle
  access_log :: "(nat \<times> http_request \<times> response) list"

type_synonym policy = "server_state \<Rightarrow> nat"

definition accepted :: "http_request list list \<Rightarrow> db_handle \<Rightarrow> server_state" where
  "accepted qs h = \<lparr>queues = qs, store = h, access_log = []\<rparr>"

definition ready :: "server_state \<Rightarrow> nat list" where
  "ready s = filter (\<lambda>i. queues s ! i \<noteq> []) [0..<length (queues s)]"

definition scheduled :: "policy \<Rightarrow> server_state \<Rightarrow> nat" where
  "scheduled pick s = (if pick s \<in> set (ready s) then pick s else hd (ready s))"

definition serve_step :: "policy \<Rightarrow> environ \<Rightarrow> server_state \<Rightarrow> server_state" where
  "serve_step pick env s =
     (let i = scheduled pick s;
          req = hd (queues s ! i);
          (resp, h) = serve_http env req (store s)
      in s\<lparr>queues := (queues s)[i := tl (queues s ! i)], store := h,
            access_log := access_log s @ [(i, req, resp)]\<rparr>)"

definition serve :: "policy \<Rightarrow> environ \<Rightarrow> server_state \<Rightarrow> server_state option" where
  "serve pick env s = while_option (\<lambda>s. ready s \<noteq> []) (serve_step pick env) s"

text \<open>
  What is still to do, what a connection has been answered, and the order of service.
\<close>

definition pending :: "server_state \<Rightarrow> nat" where
  "pending s = sum_list (map length (queues s))"

definition served_by :: "nat \<Rightarrow> (nat \<times> http_request \<times> response) list \<Rightarrow> http_request list" where
  "served_by i lg = map (\<lambda>(j, req, resp). req) (filter (\<lambda>(j, req, resp). j = i) lg)"

definition served :: "(nat \<times> http_request \<times> response) list \<Rightarrow> http_request list" where
  "served lg = map (\<lambda>(j, req, resp). req) lg"

definition answers :: "(nat \<times> http_request \<times> response) list \<Rightarrow> response list" where
  "answers lg = map (\<lambda>(j, req, resp). resp) lg"

text \<open>
  The invariants of the loop, for the server that started from \<open>s0\<close>: every
  connection's answered requests followed by its pending ones are its requests, and the
  store and the answers are those of the sequential run over the order of service.
\<close>

definition fifo_inv :: "http_request list list \<Rightarrow> server_state \<Rightarrow> bool" where
  "fifo_inv qs s \<longleftrightarrow>
     length (queues s) = length qs \<and>
     list_all (\<lambda>i. served_by i (access_log s) @ queues s ! i = qs ! i) [0..<length qs] \<and>
     list_all (\<lambda>(j, req, resp). j < length qs) (access_log s)"

definition run_inv :: "environ \<Rightarrow> db_handle \<Rightarrow> server_state \<Rightarrow> bool" where
  "run_inv env h s \<longleftrightarrow>
     run_http env (served (access_log s)) h = (answers (access_log s), store s)"

section \<open>Facts about the loop\<close>

lemma main_unset: "PORT env = None \<Longrightarrow> main env = Inr \<lparr>host = ''0.0.0.0'', port = 8000\<rparr>"
  by (simp add: main_def main_port_def)

lemma main_raises: "main env = Inl e \<longleftrightarrow> main_port env = Inl e"
  by (cases "main_port env") (simp_all add: main_def)

lemma startup_handle:
  "fst (startup env server) = None \<longleftrightarrow> DATABASE_URL env = None \<or> server = None"
  by (simp add: startup_def connect_def split: option.splits)

lemma startup_entry: "snd (startup env server) = main env"
  by (simp add: startup_def)

lemma ready_iff: "i \<in> set (ready s) \<longleftrightarrow> i < length (queues s) \<and> queues s ! i \<noteq> []"
  by (auto simp: ready_def)

lemma scheduled_ready: "ready s \<noteq> [] \<Longrightarrow> scheduled pick s \<in> set (ready s)"
  by (simp add: scheduled_def)

lemma ready_Nil_iff: "ready s = [] \<longleftrightarrow> list_all (\<lambda>q. q = []) (queues s)"
  by (auto simp: ready_def filter_empty_conv list_all_length)

lemma pending_0_iff: "pending s = 0 \<longleftrightarrow> ready s = []"
  by (auto simp: pending_def ready_Nil_iff list_all_iff)

lemma serve_step_simps [simp]:
  "queues (serve_step pick env s) =
     (queues s)[scheduled pick s := tl (queues s ! scheduled pick s)]"
  "store (serve_step pick env s) =
     snd (serve_http env (hd (queues s ! scheduled pick s)) (store s))"
  "access_log (serve_step pick env s) =
     access_log s @ [(scheduled pick s, hd (queues s ! scheduled pick s),
       fst (serve_http env (hd (queues s ! scheduled pick s)) (store s)))]"
  by (simp_all add: serve_step_def Let_def split: prod.splits)

lemma pending_step:
  assumes "ready s \<noteq> []"
  shows "Suc (pending (serve_step pick env s)) = pending s"
proof -
  from scheduled_ready [OF assms, of pick]
  have i: "scheduled pick s < length (queues s)" and q: "queues s ! scheduled pick s \<noteq> []"
    by (simp_all add: ready_iff)
  from i have "length (queues s ! scheduled pick s) \<in> set (map length (queues s))"
    by simp
  then have "length (queues s ! scheduled pick s) \<le> sum_list (map length (queues s))"
    by (rule member_le_sum_list) simp
  moreover from q obtain x xs where "queues s ! scheduled pick s = x # xs"
    by (cases "queues s ! scheduled pick s") auto
  ultimately show ?thesis
    using i by (simp add: pending_def map_update sum_list_update)
qed

lemma served_by_simps [simp]:
  "served_by i [] = []"
  "served_by i (lg @ [(j, req, resp)]) = (if j = i then served_by i lg @ [req] else served_by i lg)"
  by (simp_all add: served_by_def)

lemma served_answers_simps [simp]:
  "served [] = []" "served (lg @ [(j, req, resp)]) = served lg @ [req]"
  "answers [] = []" "answers (lg @ [(j, req, resp)]) = answers lg @ [resp]"
  by (simp_all add: served_def answers_def)

lemma fifo_inv_accepted: "fifo_inv qs (accepted qs h)"
  by (simp add: fifo_inv_def accepted_def list_all_iff)

lemma fifo_inv_step:
  assumes "fifo_inv qs s" and "ready s \<noteq> []"
  shows "fifo_inv qs (serve_step pick env s)"
proof -
  from scheduled_ready [OF assms(2), of pick]
  have i: "scheduled pick s < length (queues s)" and q: "queues s ! scheduled pick s \<noteq> []"
    by (simp_all add: ready_iff)
  from q have "[hd (queues s ! scheduled pick s)] @ tl (queues s ! scheduled pick s)
      = queues s ! scheduled pick s"
    by simp
  with assms(1) i show ?thesis
    by (auto simp: fifo_inv_def list_all_iff nth_list_update)
qed

lemma run_inv_accepted: "run_inv env h (accepted qs h)"
  by (simp add: run_inv_def accepted_def)

lemma run_inv_step: "run_inv env h s \<Longrightarrow> run_inv env h (serve_step pick env s)"
  by (simp add: run_inv_def run_http_append)

lemma pending_less: "ready s \<noteq> [] \<Longrightarrow> pending (serve_step pick env s) < pending s"
  using pending_step [of s pick env] by simp

lemma serve_Some: "\<exists>s'. serve pick env s = Some s'"
  unfolding serve_def
  by (rule measure_while_option_Some [where P = "\<lambda>s. True" and f = pending])
     (simp_all add: pending_less)

lemma serve_stop: "serve pick env s = Some s' \<Longrightarrow> ready s' = []"
  unfolding serve_def by (drule while_option_stop) simp

lemma serve_fifo_inv: "serve pick env (accepted qs h) = Some s' \<Longrightarrow> fifo_inv qs s'"
  unfolding serve_def
  by (rule while_option_rule [where P = "fifo_inv qs"])
     (auto intro: fifo_inv_step fifo_inv_accepted)

lemma serve_run_inv: "serve pick env (accepted qs h) = Some s' \<Longrightarrow> run_inv env h s'"
  unfolding serve_def
  by (rule while_option_rule [where P = "run_inv env h"])
     (auto intro: run_inv_step run_inv_accepted)

lemma fifo_inv_done:
  assumes "fifo_inv qs s" and "ready s = []" and "i < length qs"
  shows "served_by i (access_log s) = qs ! i"
proof -
  from assms(1,3) have "served_by i (access_log s) @ queues s ! i = qs ! i"
    and "i < length (queues s)"
    by (simp_all add: fifo_inv_def list_all_iff)
  moreover from this(2) assms(2) have "queues s ! i = []"
    by (simp add: ready_Nil_iff list_all_iff)
  ultimately show ?thesis by simp
qed

lemma tagged_shuffles:
  assumes "list_all (\<lambda>(j, req, resp). j < 2) lg"
  shows "served lg \<in> shuffles (served_by 0 lg) (served_by 1 lg)"
  using assms
proof (induction lg)
  case (Cons x lg)
  obtain j req resp where x: "x = (j, req, resp)" by (cases x)
  with Cons.prems have "j = 0 \<or> j = 1" by auto
  with Cons x show ?case
    by (auto simp: served_def served_by_def Cons_in_shuffles_leftI Cons_in_shuffles_rightI)
qed (simp add: served_def served_by_def)

lemma length_routed: "length (routed reqs) \<le> length reqs"
  by (induction reqs) (auto split: sum.splits)

lemma serve_count:
  assumes "serve pick env (accepted qs h) = Some s'"
  shows "length (access_log s') = sum_list (map length qs)"
proof -
  have "pending s' + length (access_log s') = sum_list (map length qs)"
    using assms unfolding serve_def
  proof (rule while_option_rule [where P = "\<lambda>s. pending s + length (access_log s) = sum_list (map length qs)", rotated])
    show "pending (accepted qs h) + length (access_log (accepted qs h)) = sum_list (map length qs)"
      by (simp add: pending_def accepted_def)
  next
    fix s
    assume "pending s + length (access_log s) = sum_list (map length qs)" and "ready s \<noteq> []"
    then show "pending (serve_step pick env s) + length (access_log (serve_step pick env s))
        = sum_list (map length qs)"
      using pending_step [of s pick env] by simp
  qed
  with serve_stop [OF assms] show ?thesis by (simp add: pending_0_iff [symmetric])
qed

section \<open>Properties of the server\<close>








end
