(* ===== verification/Json.thy ===== *)
theory Json
  imports Server
begin

text \<open>
  What the application hands to the JSON encoder. A response of \<open>src/main.py\<close> is
  written as JSON, which has no date and time and no identifier of the store: this is
  what \<open>_serialize\<close> is for. \<open>json_native\<close> says that a value is made of what
  JSON has (null, booleans, numbers, texts, arrays and objects), and the theorems say
  that every answer of the application, and so every answer the server of theory
  \<open>Server\<close> writes, is such a value when the bodies it was sent were.
\<close>

section \<open>Values of JSON\<close>

fun json_native :: "pyval \<Rightarrow> bool" where
  "json_native VNone = True"
| "json_native (VBool b) = True"
| "json_native (VInt i) = True"
| "json_native (VStr s) = True"
| "json_native (VDatetime d) = False"
| "json_native (VObjectId x) = False"
| "json_native (VList vs) = list_all json_native vs"
| "json_native (VDict kvs) = list_all (\<lambda>(k, v). json_native v) kvs"

text \<open>
  Annotations by where a date and time can occur in their values: nowhere (\<open>plain\<close>),
  or at the top only, where the loop of \<open>_serialize\<close> finds it (\<open>flat\<close>). A free-form
  dictionary can hold anything, so it is neither.
\<close>

fun plain :: "annot \<Rightarrow> bool" where
  "plain TStr = True"
| "plain TInt = True"
| "plain (TLiteral ls) = True"
| "plain TDatetime = False"
| "plain TDict = False"
| "plain (TOptional a) = plain a"
| "plain (TList a) = plain a"

fun flat :: "annot \<Rightarrow> bool" where
  "flat TDatetime = True"
| "flat (TOptional a) = flat a"
| "flat a = plain a"

definition flat_model :: "model \<Rightarrow> bool" where
  "flat_model m = list_all (\<lambda>(name, f). flat (annotation f)) m"

definition native_body :: "http_request \<Rightarrow> bool" where
  "native_body req = (case body req of None \<Rightarrow> True | Some b \<Rightarrow> json_native b)"

text \<open>
  The invariant of the server loop for the encoder: the store is typed, the pending
  bodies came from JSON, and every answer written so far is a value of JSON.
\<close>

definition json_inv :: "server_state \<Rightarrow> bool" where
  "json_inv s \<longleftrightarrow>
     handle_typed (store s) \<and> list_all (list_all native_body) (queues s) \<and>
     list_all (\<lambda>(i, req, resp). json_native (content resp)) (access_log s)"

section \<open>Facts about JSON values\<close>

lemma list_all_update: "list_all P xs \<Longrightarrow> P y \<Longrightarrow> list_all P (xs[i := y])"
  by (auto simp: list_all_iff dest: subsetD [OF set_update_subset_insert])

lemma json_native_lookup: "json_native (VDict d) \<Longrightarrow> map_of d k = Some v \<Longrightarrow> json_native v"
  by (auto simp: list_all_iff dest!: map_of_SomeD)

lemma plain_native: "plain a \<Longrightarrow> has_type a v \<Longrightarrow> json_native v"
proof (induction a arbitrary: v)
  case (TList a)
  show ?case
  proof (cases v)
    case (VList vs)
    with TList show ?thesis by (auto simp: list_all_iff)
  qed (use TList.prems in auto)
qed (auto split: pyval.splits)

lemma plain_iso: "plain a \<Longrightarrow> has_type a v \<Longrightarrow> json_native (iso_val v)"
  by (drule (1) plain_native, cases v) (auto simp: iso_val_def)

lemma flat_native: "flat a \<Longrightarrow> has_type a v \<Longrightarrow> json_native (iso_val v)"
proof (induction a arbitrary: v rule: flat.induct)
  case 1
  then show ?case by (auto simp: iso_val_def split: pyval.splits)
next
  case (2 a)
  then show ?case by (auto simp: iso_val_def)
qed (erule plain_iso [rotated], simp)+

lemma conforms_native:
  "conforms m r \<Longrightarrow> flat_model m \<Longrightarrow> json_native (VDict (iso_fields r))"
  by (induction m r rule: conforms.induct) (auto simp: flat_model_def field_ok_def flat_native)

lemma exposed_flat: "(c, m) \<in> set exposed \<Longrightarrow> flat_model m"
proof -
  have "list_all (\<lambda>(c, m). flat_model m) exposed"
    by (simp add: exposed_eq flat_model_def model_defs)
  then show "(c, m) \<in> set exposed \<Longrightarrow> flat_model m" by (auto simp: list_all_iff)
qed

lemma doc_conforms_iff:
  "doc_conforms m doc \<longleftrightarrow> (\<exists>x r. doc = (''_id'', VObjectId x) # r \<and> conforms m r)"
proof (cases doc)
  case (Cons kv r)
  obtain k b where "kv = (k, b)" by (cases kv)
  with Cons show ?thesis by (cases b) (auto simp: doc_conforms_def)
qed (simp add: doc_conforms_def)

lemma doc_conforms_native:
  assumes "doc_conforms m doc" and "(c, m) \<in> set exposed"
  shows "json_native (VDict (serialize doc))"
proof -
  from assms(1) obtain x r where doc: "doc = (''_id'', VObjectId x) # r" and r: "conforms m r"
    by (auto simp: doc_conforms_iff)
  from assms(2) have wf: "wf_model m" by (rule exposed_wf)
  from exposed_no_id [OF assms(2)] have no: "''_id'' \<notin> set (keys m)" "''id'' \<notin> set (keys m)"
    by simp_all
  from r have k: "keys r = keys m" by (rule conforms_keys)
  with wf no have "serialize doc = iso_fields r @ [(''id'', VStr (oid_str x))]"
    unfolding doc by (intro serialize_stored) (simp_all add: wf_dict_def wf_model_def)
  with conforms_native [OF r exposed_flat [OF assms(2)]] show ?thesis by simp
qed

lemma item_errors_native:
  "list_all (\<lambda>r. case r of Inl es \<Rightarrow> list_all (\<lambda>e. json_native (input e)) es | Inr v \<Rightarrow> True) rs \<Longrightarrow>
   list_all (\<lambda>e. json_native (input e)) (item_errors i rs)"
  by (induction i rs rule: item_errors.induct) (auto simp: prefix_loc_def list_all_iff)

lemma validate_value_native:
  "json_native v \<Longrightarrow> validate_value a v = Inl es \<Longrightarrow> list_all (\<lambda>e. json_native (input e)) es"
proof (induction a arbitrary: v es)
  case (TList a)
  show ?case
  proof (cases v)
    case (VList vs)
    with TList.prems have "es = item_errors 0 (map (validate_value a) vs)"
      by (auto simp: collect_items_def split: list.splits)
    moreover from TList.prems(1) VList TList.IH
    have "list_all (\<lambda>r. case r of Inl es \<Rightarrow> list_all (\<lambda>e. json_native (input e)) es | Inr v \<Rightarrow> True)
        (map (validate_value a) vs)"
      by (auto simp: list_all_iff split: sum.splits)
    ultimately show ?thesis by (simp add: item_errors_native)
  qed (use TList.prems in auto)
qed (auto split: pyval.splits option.splits if_splits)

lemma check_le_cases:
  "check_le f v = Inr v \<or> (\<exists>i u. v = VInt i \<and> check_le f v = Inl [VError [] (LessThanEqual u) v])"
  by (cases v; cases "le f") (auto simp: check_le_def)

lemma check_ge_cases:
  "check_ge f v = Inr v \<or> (\<exists>i l. v = VInt i \<and> check_ge f v = Inl [VError [] (GreaterThanEqual l) v])"
  by (cases v; cases "ge f") (auto simp: check_ge_def)

lemma check_bounds_native:
  "check_bounds f v = Inl es \<Longrightarrow> list_all (\<lambda>e. json_native (input e)) es"
  using check_le_cases [of f v] check_ge_cases [of f v]
  by (auto simp: check_bounds_def raise_bind_eq_Inl_iff)

lemma validate_field_native:
  assumes "json_native (VDict d)" and "validate_field name f d = Inl es"
  shows "list_all (\<lambda>e. json_native (input e)) es"
proof (cases "map_of d name")
  case None
  with assms show ?thesis
    by (auto simp: validate_field_absent split: field_default.splits)
next
  case (Some v)
  with assms(1) have v: "json_native v" by (rule json_native_lookup)
  from assms(2) Some obtain es' where es: "es = map (prefix_loc (LKey name)) es'"
    and es': "raise_bind (validate_value (annotation f) v) (check_bounds f) = Inl es'"
    by (auto simp: validate_field_present split: sum.splits)
  from es' have "list_all (\<lambda>e. json_native (input e)) es'"
    by (auto simp: raise_bind_eq_Inl_iff dest: validate_value_native [OF v] check_bounds_native)
  with es show ?thesis by (simp add: list_all_iff prefix_loc_def)
qed

lemma validate_model_native:
  assumes "json_native (VDict d)" and "validate_model m d = Inl es"
  shows "list_all (\<lambda>e. json_native (input e)) es"
proof -
  have "json_native (input e)" if "e \<in> set es" for e
  proof -
    from that assms(2) have "e \<in> set (fst (validate_fields m d))"
      by (simp add: validate_model_Inl)
    then obtain name f es' where "validate_field name f d = Inl es'" "e \<in> set es'"
      by (blast dest: validate_fields_error_source)
    with validate_field_native [OF assms(1)] show ?thesis by (auto simp: list_all_iff)
  qed
  then show ?thesis by (simp add: list_all_iff)
qed

lemma error_json_native: "json_native (input e) \<Longrightarrow> json_native (error_json e)"
  by (simp add: error_json_def err_ctx_def loc_json_def list_all_iff
      split: err_type.splits loc_item.splits)

lemma unprocessable_native:
  "list_all (\<lambda>e. json_native (input e)) es \<Longrightarrow> json_native (content (unprocessable es))"
  by (simp add: unprocessable_def list_all_iff error_json_native)

lemma with_body_native:
  assumes "json_native b" and "\<And>p h'. case fst (handler p h') of Inl e \<Rightarrow> True | Inr r \<Rightarrow> json_native (VDict r)"
  shows "json_native (content (fst (with_body m handler b h)))"
proof (cases b)
  case (VDict d)
  show ?thesis
  proof (cases "validate_model m d")
    case (Inl es)
    with VDict assms(1) show ?thesis
      by (simp add: with_body_def unprocessable_native validate_model_native)
  next
    case (Inr p)
    obtain res h' where res: "handler p h = (res, h')" by (cases "handler p h")
    with VDict Inr assms(2) [of p h] show ?thesis
      by (cases res) (simp_all add: with_body_def ok_response_def server_error_def)
  qed
qed (use assms(1) in \<open>simp_all add: with_body_def unprocessable_def error_json_def err_ctx_def\<close>)

lemma create_native:
  "case fst (create_character p h) of Inl e \<Rightarrow> True | Inr r \<Rightarrow> json_native (VDict r)"
  "case fst (submit_backstory p h) of Inl e \<Rightarrow> True | Inr r \<Rightarrow> json_native (VDict r)"
  "case fst (submit_report p h) of Inl e \<Rightarrow> True | Inr r \<Rightarrow> json_native (VDict r)"
  "case fst (create_event p h) of Inl e \<Rightarrow> True | Inr r \<Rightarrow> json_native (VDict r)"
  "case fst (create_quest p h) of Inl e \<Rightarrow> True | Inr r \<Rightarrow> json_native (VDict r)"
  by (simp_all add: create_defs split: prod.splits sum.splits)

lemma listing_native:
  assumes "handle_typed h" and "(c, m) \<in> set exposed"
  shows "json_native (content (listing (serialize_list (get_documents c filt h))))"
proof -
  have "json_native (VDict (serialize doc))" if "doc \<in> set (get_documents c filt h)" for doc
  proof -
    from that obtain db where h: "h = Some db" and doc: "doc \<in> set (collection db c)"
      by (cases h) (auto simp: get_documents_def split: option.splits if_splits)
    with assms have "doc_conforms m doc"
      by (auto simp: handle_typed_def store_typed_def list_all_iff)
    then show ?thesis using assms(2) by (rule doc_conforms_native)
  qed
  then show ?thesis
    by (simp add: listing_def ok_response_def serialize_list_def list_all_iff)
qed

lemma list_target_exposed: "list_target g = Some (c, k, q) \<Longrightarrow> \<exists>m. (c, m) \<in> set exposed"
  by (cases g) (auto simp: exposed_eq)

lemma diagnostics_native: "json_native (VDict (test_database env h))"
  by (simp add: test_database_def dict_set_def list_collection_names_def list_all_iff Let_def
      split: option.splits sum.splits)

lemma schema_native: "json_native (VDict get_schema)"
  by (simp add: get_schema_def model_fields_def list_all_iff split: prod.splits)

lemma handle_native:
  assumes "handle_typed h" and "\<And>c m b. target r = Some (c, m, b) \<Longrightarrow> json_native b"
  shows "json_native (content (fst (handle env r h)))"
proof (cases "list_target r")
  case (Some t)
  obtain c k q where t: "t = (c, k, q)" by (cases t)
  with Some obtain m where "(c, m) \<in> set exposed" by (blast dest: list_target_exposed)
  with assms(1) Some t show ?thesis by (simp add: handle_list listing_native)
next
  case None
  with assms(2) show ?thesis
    by (cases r)
       (simp_all add: ok_response_def read_root_def diagnostics_native [simplified]
          schema_native [simplified] with_body_native create_native)
qed

lemma route_native:
  assumes "native_body req" and "route req = Inr r" and "target r = Some (c, m, b)"
  shows "json_native b"
proof -
  from assms(2) obtain e where e: "(verb req, path req, e) \<in> set routes"
    and b: "bind_request e req = Inr r"
    by (blast dest: route_Inr)
  have "verb req \<noteq> GET"
  proof
    assume "verb req = GET"
    with e have "(GET, path req, e) \<in> set routes" by simp
    then have "target r = None" using b by (rule routes_GET)
    with assms(3) show False by simp
  qed
  with routes_verbs [OF e] have "verb req = POST" by simp
  with e obtain mk where mk: "e = Create mk" by (auto dest: routes_POST)
  with b obtain b' where b': "body req = Some b'" "r = mk b'"
    by (auto simp: bind_request_def split: option.splits)
  from e mk have "mk \<in> {POST_characters, POST_backstories, POST_reports, POST_events, POST_quests}"
    using routes_create by blast
  with b' assms(1,3) show ?thesis by (auto simp: native_body_def)
qed

lemma serve_http_native:
  assumes "handle_typed h" and "native_body req"
  shows "json_native (content (fst (serve_http env req h)))"
proof (cases "route req")
  case (Inl resp)
  then have "json_native (content resp)"
    by (auto simp: route_def Let_def bind_request_def body_missing_def unprocessable_def
        error_json_def err_ctx_def method_not_allowed_def redirect_def not_found_def
        split: option.splits if_splits endpoint.splits)
  with Inl show ?thesis by simp
next
  case (Inr r)
  with assms show ?thesis by (simp add: handle_native route_native)
qed

lemma serve_http_typed: "handle_typed h \<Longrightarrow> handle_typed (snd (serve_http env req h))"
  by (cases "route req") (simp_all add: snd_handle handle_typed_next_handle)

lemma json_inv_accepted:
  "handle_typed h \<Longrightarrow> list_all (list_all native_body) qs \<Longrightarrow> json_inv (accepted qs h)"
  by (simp add: json_inv_def accepted_def)

lemma json_inv_step:
  assumes "json_inv s" and "ready s \<noteq> []"
  shows "json_inv (serve_step pick env s)"
proof -
  let ?i = "scheduled pick s"
  from scheduled_ready [OF assms(2), of pick]
  have i: "?i < length (queues s)" and ne: "queues s ! ?i \<noteq> []"
    by (simp_all add: ready_iff)
  from assms(1) i have "list_all native_body (queues s ! ?i)"
    by (simp add: json_inv_def list_all_length)
  with ne have hd: "native_body (hd (queues s ! ?i))" and tl: "list_all native_body (tl (queues s ! ?i))"
    by (cases "queues s ! ?i"; simp)+
  from assms(1) have "handle_typed (store (serve_step pick env s))"
    by (simp add: json_inv_def serve_http_typed)
  moreover from assms(1) tl have "list_all (list_all native_body) (queues (serve_step pick env s))"
    by (simp add: json_inv_def list_all_update)
  moreover from assms(1) hd
  have "list_all (\<lambda>(i, req, resp). json_native (content resp)) (access_log (serve_step pick env s))"
    by (simp add: json_inv_def serve_http_native)
  ultimately show ?thesis by (simp add: json_inv_def)
qed

lemma serve_json_inv:
  assumes "serve pick env (accepted qs h) = Some s'"
    and "handle_typed h" and "list_all (list_all native_body) qs"
  shows "json_inv s'"
  using assms(1) unfolding serve_def
  by (rule while_option_rule [where P = json_inv, rotated])
     (auto intro: json_inv_step json_inv_accepted assms(2,3))

section \<open>Properties of the answers\<close>

text \<open>
  C21. Every answer the server writes can be encoded as JSON: from a typed store, and
  for connections whose bodies came from JSON, every line of the access log at the end
  of the loop has an answer that holds no date and time and no identifier of the store
  at any depth, whether it is a result, a listing, a list of validation errors or an
  error of the router, and whatever the scheduler picked.
\<close>

theorem answers_are_json:
  assumes "handle_typed h" and "list_all (list_all native_body) qs"
  shows "\<exists>s'. serve pick env (accepted qs h) = Some s' \<and>
     list_all (\<lambda>(i, req, resp). json_native (content resp)) (access_log s')"
proof -
  obtain s' where s': "serve pick env (accepted qs h) = Some s'"
    using serve_Some by blast
  from serve_json_inv [OF s' assms] s' show ?thesis by (simp add: json_inv_def)
qed

theorem answers_are_json_witness:
  "\<exists>s'. serve (\<lambda>s. 1) \<lparr>DATABASE_URL = None, PORT = None\<rparr>
       (accepted [[post_request ''/quests'' (VDict [(''title'', VInt 7)])],
                  [get_request ''/quests'' ''status'' None]]
          (Some (empty_database ''twist''))) = Some s' \<and>
     list_all (\<lambda>(i, req, resp). json_native (content resp)) (access_log s')"
proof (rule answers_are_json)
  show "handle_typed (Some (empty_database ''twist''))"
    by simp
  show "list_all (list_all native_body)
      [[post_request ''/quests'' (VDict [(''title'', VInt 7)])], [get_request ''/quests'' ''status'' None]]"
    by (simp add: native_body_def post_request_def get_request_def)
qed

text \<open>
  The conversion of \<open>_serialize\<close> stops at the top of a document: a date and time
  inside a list is returned as it is. No model of the catalogue that has a route
  declares such a field.
\<close>

lemma nested_datetime_kept:
  "serialize [(''dates'', VList [VDatetime t])] = [(''dates'', VList [VDatetime t])] \<and>
   \<not> json_native (VDict (serialize [(''dates'', VList [VDatetime t])]))"
  by (simp add: serialize_no_id wf_dict_def iso_val_def)

end
