(* ===== verification/Records.thy ===== *)
theory Records
  imports Schemas "HOL-Library.Monad_Syntax"
begin

text \<open>
  The instances of the models of \<open>src/schemas.py\<close>. A handler of \<open>src/main.py\<close>
  receives its body as an instance of a model class (\<open>payload: Character\<close>), an
  object with one typed attribute for each field, and the persistence layer stores the
  dictionary of its fields. Theory \<open>Schemas\<close> goes from the body to that dictionary
  in one step; this theory gives the instances in between: one record type for each
  class, one datatype for each \<open>Literal\<close> annotation, the reading of a validated
  dictionary into an instance (\<open>model_validate\<close>) and the dictionary of an instance
  (\<open>model_dump\<close>), and shows that the validated dictionaries of a model are exactly
  the dictionaries of its instances.
\<close>

section \<open>Enumerations\<close>

text \<open>
  One datatype for each \<open>Literal[...]\<close> of the module, with the text of each value.
\<close>

datatype faction = Alliance | Horde | Neutral

datatype backstory_status = Submitted | Approved | Revisions

datatype event_kind = QuestEvent | DndSession | Market | Tournament | Social

datatype difficulty = Easy | Normal | Hard | Epic

datatype quest_status = Open | InProgress | Completed

datatype quality = Poor | Common | Uncommon | Rare | EpicQuality | Legendary

fun faction_text :: "faction \<Rightarrow> string" where
  "faction_text Alliance = ''Alliance''"
| "faction_text Horde = ''Horde''"
| "faction_text Neutral = ''Neutral''"

fun backstory_status_text :: "backstory_status \<Rightarrow> string" where
  "backstory_status_text Submitted = ''submitted''"
| "backstory_status_text Approved = ''approved''"
| "backstory_status_text Revisions = ''revisions''"

fun event_kind_text :: "event_kind \<Rightarrow> string" where
  "event_kind_text QuestEvent = ''quest''"
| "event_kind_text DndSession = ''dnd-session''"
| "event_kind_text Market = ''market''"
| "event_kind_text Tournament = ''tournament''"
| "event_kind_text Social = ''social''"

fun difficulty_text :: "difficulty \<Rightarrow> string" where
  "difficulty_text Easy = ''easy''"
| "difficulty_text Normal = ''normal''"
| "difficulty_text Hard = ''hard''"
| "difficulty_text Epic = ''epic''"

fun quest_status_text :: "quest_status \<Rightarrow> string" where
  "quest_status_text Open = ''open''"
| "quest_status_text InProgress = ''in_progress''"
| "quest_status_text Completed = ''completed''"

fun quality_text :: "quality \<Rightarrow> string" where
  "quality_text Poor = ''poor''"
| "quality_text Common = ''common''"
| "quality_text Uncommon = ''uncommon''"
| "quality_text Rare = ''rare''"
| "quality_text EpicQuality = ''epic''"
| "quality_text Legendary = ''legendary''"

text \<open>
  The enumerations are finite types with their values in the order of the source, so
  that a text is read back by a search through \<open>enum\<close>.
\<close>

instantiation faction :: enum
begin

definition "enum_faction = [Alliance, Horde, Neutral]"
definition "enum_all_faction P \<longleftrightarrow> list_all P [Alliance, Horde, Neutral]"
definition "enum_ex_faction P \<longleftrightarrow> list_ex P [Alliance, Horde, Neutral]"

instance
proof
  show univ: "(UNIV :: faction set) = set enum_class.enum"
    by (auto simp: enum_faction_def intro: faction.exhaust)
  show "distinct (enum_class.enum :: faction list)" by (simp add: enum_faction_def)
  show "enum_class.enum_all P = Ball (UNIV :: faction set) P" for P
    unfolding univ by (simp add: enum_all_faction_def enum_faction_def)
  show "enum_class.enum_ex P = Bex (UNIV :: faction set) P" for P
    unfolding univ by (simp add: enum_ex_faction_def enum_faction_def)
qed

end

instantiation backstory_status :: enum
begin

definition "enum_backstory_status = [Submitted, Approved, Revisions]"
definition "enum_all_backstory_status P \<longleftrightarrow> list_all P [Submitted, Approved, Revisions]"
definition "enum_ex_backstory_status P \<longleftrightarrow> list_ex P [Submitted, Approved, Revisions]"

instance
proof
  show univ: "(UNIV :: backstory_status set) = set enum_class.enum"
    by (auto simp: enum_backstory_status_def intro: backstory_status.exhaust)
  show "distinct (enum_class.enum :: backstory_status list)"
    by (simp add: enum_backstory_status_def)
  show "enum_class.enum_all P = Ball (UNIV :: backstory_status set) P" for P
    unfolding univ by (simp add: enum_all_backstory_status_def enum_backstory_status_def)
  show "enum_class.enum_ex P = Bex (UNIV :: backstory_status set) P" for P
    unfolding univ by (simp add: enum_ex_backstory_status_def enum_backstory_status_def)
qed

end

instantiation event_kind :: enum
begin

definition "enum_event_kind = [QuestEvent, DndSession, Market, Tournament, Social]"
definition "enum_all_event_kind P \<longleftrightarrow>
  list_all P [QuestEvent, DndSession, Market, Tournament, Social]"
definition "enum_ex_event_kind P \<longleftrightarrow>
  list_ex P [QuestEvent, DndSession, Market, Tournament, Social]"

instance
proof
  show univ: "(UNIV :: event_kind set) = set enum_class.enum"
    by (auto simp: enum_event_kind_def intro: event_kind.exhaust)
  show "distinct (enum_class.enum :: event_kind list)" by (simp add: enum_event_kind_def)
  show "enum_class.enum_all P = Ball (UNIV :: event_kind set) P" for P
    unfolding univ by (simp add: enum_all_event_kind_def enum_event_kind_def)
  show "enum_class.enum_ex P = Bex (UNIV :: event_kind set) P" for P
    unfolding univ by (simp add: enum_ex_event_kind_def enum_event_kind_def)
qed

end

instantiation difficulty :: enum
begin

definition "enum_difficulty = [Easy, Normal, Hard, Epic]"
definition "enum_all_difficulty P \<longleftrightarrow> list_all P [Easy, Normal, Hard, Epic]"
definition "enum_ex_difficulty P \<longleftrightarrow> list_ex P [Easy, Normal, Hard, Epic]"

instance
proof
  show univ: "(UNIV :: difficulty set) = set enum_class.enum"
    by (auto simp: enum_difficulty_def intro: difficulty.exhaust)
  show "distinct (enum_class.enum :: difficulty list)" by (simp add: enum_difficulty_def)
  show "enum_class.enum_all P = Ball (UNIV :: difficulty set) P" for P
    unfolding univ by (simp add: enum_all_difficulty_def enum_difficulty_def)
  show "enum_class.enum_ex P = Bex (UNIV :: difficulty set) P" for P
    unfolding univ by (simp add: enum_ex_difficulty_def enum_difficulty_def)
qed

end

instantiation quest_status :: enum
begin

definition "enum_quest_status = [Open, InProgress, Completed]"
definition "enum_all_quest_status P \<longleftrightarrow> list_all P [Open, InProgress, Completed]"
definition "enum_ex_quest_status P \<longleftrightarrow> list_ex P [Open, InProgress, Completed]"

instance
proof
  show univ: "(UNIV :: quest_status set) = set enum_class.enum"
    by (auto simp: enum_quest_status_def intro: quest_status.exhaust)
  show "distinct (enum_class.enum :: quest_status list)" by (simp add: enum_quest_status_def)
  show "enum_class.enum_all P = Ball (UNIV :: quest_status set) P" for P
    unfolding univ by (simp add: enum_all_quest_status_def enum_quest_status_def)
  show "enum_class.enum_ex P = Bex (UNIV :: quest_status set) P" for P
    unfolding univ by (simp add: enum_ex_quest_status_def enum_quest_status_def)
qed

end

instantiation quality :: enum
begin

definition "enum_quality = [Poor, Common, Uncommon, Rare, EpicQuality, Legendary]"
definition "enum_all_quality P \<longleftrightarrow>
  list_all P [Poor, Common, Uncommon, Rare, EpicQuality, Legendary]"
definition "enum_ex_quality P \<longleftrightarrow>
  list_ex P [Poor, Common, Uncommon, Rare, EpicQuality, Legendary]"

instance
proof
  show univ: "(UNIV :: quality set) = set enum_class.enum"
    by (auto simp: enum_quality_def intro: quality.exhaust)
  show "distinct (enum_class.enum :: quality list)" by (simp add: enum_quality_def)
  show "enum_class.enum_all P = Ball (UNIV :: quality set) P" for P
    unfolding univ by (simp add: enum_all_quality_def enum_quality_def)
  show "enum_class.enum_ex P = Bex (UNIV :: quality set) P" for P
    unfolding univ by (simp add: enum_ex_quality_def enum_quality_def)
qed

end

section \<open>Attribute values\<close>

text \<open>
  How the value of an attribute is read from a value of a dictionary and written back,
  for each shape of annotation the module uses. A reader returns \<open>None\<close> on a value
  of another shape.
\<close>

fun str_of :: "pyval \<Rightarrow> string option" where
  "str_of (VStr s) = Some s"
| "str_of _ = None"

fun int_of :: "pyval \<Rightarrow> int option" where
  "int_of (VInt i) = Some i"
| "int_of _ = None"

fun datetime_of :: "pyval \<Rightarrow> datetime option" where
  "datetime_of (VDatetime t) = Some t"
| "datetime_of _ = None"

fun dict_of :: "pyval \<Rightarrow> pydict option" where
  "dict_of (VDict d) = Some d"
| "dict_of _ = None"

definition literal_of :: "('a::enum \<Rightarrow> string) \<Rightarrow> pyval \<Rightarrow> 'a option" where
  "literal_of text v =
     (case v of VStr s \<Rightarrow> find (\<lambda>x. text x = s) enum_class.enum | _ \<Rightarrow> None)"

definition literal :: "('a \<Rightarrow> string) \<Rightarrow> 'a \<Rightarrow> pyval" where
  "literal text x = VStr (text x)"

fun optional_of :: "(pyval \<Rightarrow> 'a option) \<Rightarrow> pyval \<Rightarrow> 'a option option" where
  "optional_of f VNone = Some None"
| "optional_of f v = map_option Some (f v)"

definition optional :: "('a \<Rightarrow> pyval) \<Rightarrow> 'a option \<Rightarrow> pyval" where
  "optional f x = (case x of None \<Rightarrow> VNone | Some y \<Rightarrow> f y)"

fun list_of :: "(pyval \<Rightarrow> 'a option) \<Rightarrow> pyval \<Rightarrow> 'a list option" where
  "list_of f (VList vs) = those (map f vs)"
| "list_of f _ = None"

definition list_val :: "('a \<Rightarrow> pyval) \<Rightarrow> 'a list \<Rightarrow> pyval" where
  "list_val f xs = VList (map f xs)"

definition attr :: "pydict \<Rightarrow> string \<Rightarrow> (pyval \<Rightarrow> 'a option) \<Rightarrow> 'a option" where
  "attr d k f = Option.bind (map_of d k) f"

text \<open>
  \<open>codec a P enc dec\<close>: the values of annotation \<open>a\<close> are the images under \<open>enc\<close>
  of the attribute values that satisfy \<open>P\<close>, and \<open>dec\<close> reads them back.
\<close>

definition codec ::
    "annot \<Rightarrow> ('a \<Rightarrow> bool) \<Rightarrow> ('a \<Rightarrow> pyval) \<Rightarrow> (pyval \<Rightarrow> 'a option) \<Rightarrow> bool" where
  "codec a P enc dec \<longleftrightarrow>
     (\<forall>x. dec (enc x) = Some x) \<and> (\<forall>x. has_type a (enc x) = P x) \<and>
     (\<forall>v. has_type a v \<longrightarrow> (\<exists>x. enc x = v))"

section \<open>Instances\<close>

text \<open>
  One record for each class of \<open>src/schemas.py\<close>, with the attributes in the order
  of the class body. Classes share attribute names, so every attribute carries the
  initials of its class. The invariant of a record is what the bounds of \<open>Field\<close>
  and the calendar add to the types; \<open>dump\<close> is the dictionary of an instance and
  \<open>read\<close> builds the instance from a dictionary.
\<close>

record character =
  ch_name :: string
  ch_race :: string
  ch_clazz :: string
  ch_faction :: faction
  ch_level :: int
  ch_owner_discord :: "string option"
  ch_bio :: "string option"
  ch_alignment :: "string option"
  ch_skills :: "string list"
  ch_professions :: "string list"

definition character_inv :: "character \<Rightarrow> bool" where
  "character_inv c \<longleftrightarrow> 1 \<le> ch_level c \<and> ch_level c \<le> 70"

definition dump_character :: "character \<Rightarrow> pydict" where
  "dump_character c =
     [(''name'', VStr (ch_name c)), (''race'', VStr (ch_race c)),
      (''clazz'', VStr (ch_clazz c)), (''faction'', literal faction_text (ch_faction c)),
      (''level'', VInt (ch_level c)),
      (''owner_discord'', optional VStr (ch_owner_discord c)),
      (''bio'', optional VStr (ch_bio c)), (''alignment'', optional VStr (ch_alignment c)),
      (''skills'', list_val VStr (ch_skills c)),
      (''professions'', list_val VStr (ch_professions c))]"

definition read_character :: "pydict \<Rightarrow> character option" where
  "read_character d = do {
     name \<leftarrow> attr d ''name'' str_of;
     race \<leftarrow> attr d ''race'' str_of;
     clazz \<leftarrow> attr d ''clazz'' str_of;
     faction \<leftarrow> attr d ''faction'' (literal_of faction_text);
     level \<leftarrow> attr d ''level'' int_of;
     owner_discord \<leftarrow> attr d ''owner_discord'' (optional_of str_of);
     bio \<leftarrow> attr d ''bio'' (optional_of str_of);
     alignment \<leftarrow> attr d ''alignment'' (optional_of str_of);
     skills \<leftarrow> attr d ''skills'' (list_of str_of);
     professions \<leftarrow> attr d ''professions'' (list_of str_of);
     Some \<lparr>ch_name = name, ch_race = race, ch_clazz = clazz, ch_faction = faction,
       ch_level = level, ch_owner_discord = owner_discord, ch_bio = bio,
       ch_alignment = alignment, ch_skills = skills, ch_professions = professions\<rparr>
   }"

record backstory =
  bs_character_name :: string
  bs_title :: string
  bs_content :: string
  bs_tags :: "string list"
  bs_status :: backstory_status

definition dump_backstory :: "backstory \<Rightarrow> pydict" where
  "dump_backstory c =
     [(''character_name'', VStr (bs_character_name c)), (''title'', VStr (bs_title c)),
      (''content'', VStr (bs_content c)), (''tags'', list_val VStr (bs_tags c)),
      (''status'', literal backstory_status_text (bs_status c))]"

definition read_backstory :: "pydict \<Rightarrow> backstory option" where
  "read_backstory d = do {
     character_name \<leftarrow> attr d ''character_name'' str_of;
     title \<leftarrow> attr d ''title'' str_of;
     content \<leftarrow> attr d ''content'' str_of;
     tags \<leftarrow> attr d ''tags'' (list_of str_of);
     status \<leftarrow> attr d ''status'' (literal_of backstory_status_text);
     Some \<lparr>bs_character_name = character_name, bs_title = title, bs_content = content,
       bs_tags = tags, bs_status = status\<rparr>
   }"

record action_report =
  ar_character_name :: string
  ar_title :: string
  ar_content :: string
  ar_location :: "string option"
  ar_outcomes :: "string list"
  ar_rewards_requested :: "string list"
  ar_session_date :: "datetime option"

definition action_report_inv :: "action_report \<Rightarrow> bool" where
  "action_report_inv c \<longleftrightarrow> pred_option valid_datetime (ar_session_date c)"

definition dump_action_report :: "action_report \<Rightarrow> pydict" where
  "dump_action_report c =
     [(''character_name'', VStr (ar_character_name c)), (''title'', VStr (ar_title c)),
      (''content'', VStr (ar_content c)), (''location'', optional VStr (ar_location c)),
      (''outcomes'', list_val VStr (ar_outcomes c)),
      (''rewards_requested'', list_val VStr (ar_rewards_requested c)),
      (''session_date'', optional VDatetime (ar_session_date c))]"

definition read_action_report :: "pydict \<Rightarrow> action_report option" where
  "read_action_report d = do {
     character_name \<leftarrow> attr d ''character_name'' str_of;
     title \<leftarrow> attr d ''title'' str_of;
     content \<leftarrow> attr d ''content'' str_of;
     location \<leftarrow> attr d ''location'' (optional_of str_of);
     outcomes \<leftarrow> attr d ''outcomes'' (list_of str_of);
     rewards_requested \<leftarrow> attr d ''rewards_requested'' (list_of str_of);
     session_date \<leftarrow> attr d ''session_date'' (optional_of datetime_of);
     Some \<lparr>ar_character_name = character_name, ar_title = title, ar_content = content,
       ar_location = location, ar_outcomes = outcomes,
       ar_rewards_requested = rewards_requested, ar_session_date = session_date\<rparr>
   }"

record event =
  ev_title :: string
  ev_description :: string
  ev_date :: datetime
  ev_location :: string
  ev_organizer :: "string option"
  ev_event_type :: event_kind
  ev_capacity :: "int option"

definition event_inv :: "event \<Rightarrow> bool" where
  "event_inv c \<longleftrightarrow> valid_datetime (ev_date c)"

definition dump_event :: "event \<Rightarrow> pydict" where
  "dump_event c =
     [(''title'', VStr (ev_title c)), (''description'', VStr (ev_description c)),
      (''date'', VDatetime (ev_date c)), (''location'', VStr (ev_location c)),
      (''organizer'', optional VStr (ev_organizer c)),
      (''event_type'', literal event_kind_text (ev_event_type c)),
      (''capacity'', optional VInt (ev_capacity c))]"

definition read_event :: "pydict \<Rightarrow> event option" where
  "read_event d = do {
     title \<leftarrow> attr d ''title'' str_of;
     description \<leftarrow> attr d ''description'' str_of;
     date \<leftarrow> attr d ''date'' datetime_of;
     location \<leftarrow> attr d ''location'' str_of;
     organizer \<leftarrow> attr d ''organizer'' (optional_of str_of);
     event_type \<leftarrow> attr d ''event_type'' (literal_of event_kind_text);
     capacity \<leftarrow> attr d ''capacity'' (optional_of int_of);
     Some \<lparr>ev_title = title, ev_description = description, ev_date = date,
       ev_location = location, ev_organizer = organizer, ev_event_type = event_type,
       ev_capacity = capacity\<rparr>
   }"

record quest =
  qu_title :: string
  qu_description :: string
  qu_difficulty :: difficulty
  qu_status :: quest_status
  qu_rewards :: "string list"

definition dump_quest :: "quest \<Rightarrow> pydict" where
  "dump_quest c =
     [(''title'', VStr (qu_title c)), (''description'', VStr (qu_description c)),
      (''difficulty'', literal difficulty_text (qu_difficulty c)),
      (''status'', literal quest_status_text (qu_status c)),
      (''rewards'', list_val VStr (qu_rewards c))]"

definition read_quest :: "pydict \<Rightarrow> quest option" where
  "read_quest d = do {
     title \<leftarrow> attr d ''title'' str_of;
     description \<leftarrow> attr d ''description'' str_of;
     difficulty \<leftarrow> attr d ''difficulty'' (literal_of difficulty_text);
     status \<leftarrow> attr d ''status'' (literal_of quest_status_text);
     rewards \<leftarrow> attr d ''rewards'' (list_of str_of);
     Some \<lparr>qu_title = title, qu_description = description, qu_difficulty = difficulty,
       qu_status = status, qu_rewards = rewards\<rparr>
   }"

record item =
  it_name :: string
  it_quality :: quality
  it_description :: "string option"
  it_tags :: "string list"

definition dump_item :: "item \<Rightarrow> pydict" where
  "dump_item c =
     [(''name'', VStr (it_name c)), (''quality'', literal quality_text (it_quality c)),
      (''description'', optional VStr (it_description c)),
      (''tags'', list_val VStr (it_tags c))]"

definition read_item :: "pydict \<Rightarrow> item option" where
  "read_item d = do {
     name \<leftarrow> attr d ''name'' str_of;
     quality \<leftarrow> attr d ''quality'' (literal_of quality_text);
     description \<leftarrow> attr d ''description'' (optional_of str_of);
     tags \<leftarrow> attr d ''tags'' (list_of str_of);
     Some \<lparr>it_name = name, it_quality = quality, it_description = description, it_tags = tags\<rparr>
   }"

record craft_recipe =
  cr_name :: string
  cr_result_item :: string
  cr_ingredients :: "pydict list"
  cr_skill_required :: "string option"

definition dump_craft_recipe :: "craft_recipe \<Rightarrow> pydict" where
  "dump_craft_recipe c =
     [(''name'', VStr (cr_name c)), (''result_item'', VStr (cr_result_item c)),
      (''ingredients'', list_val VDict (cr_ingredients c)),
      (''skill_required'', optional VStr (cr_skill_required c))]"

definition read_craft_recipe :: "pydict \<Rightarrow> craft_recipe option" where
  "read_craft_recipe d = do {
     name \<leftarrow> attr d ''name'' str_of;
     result_item \<leftarrow> attr d ''result_item'' str_of;
     ingredients \<leftarrow> attr d ''ingredients'' (list_of dict_of);
     skill_required \<leftarrow> attr d ''skill_required'' (optional_of str_of);
     Some \<lparr>cr_name = name, cr_result_item = result_item, cr_ingredients = ingredients,
       cr_skill_required = skill_required\<rparr>
   }"

record skill_progress =
  sp_character_name :: string
  sp_skill :: string
  sp_rank :: int
  sp_xp :: int

definition skill_progress_inv :: "skill_progress \<Rightarrow> bool" where
  "skill_progress_inv c \<longleftrightarrow> 1 \<le> sp_rank c \<and> 0 \<le> sp_xp c"

definition dump_skill_progress :: "skill_progress \<Rightarrow> pydict" where
  "dump_skill_progress c =
     [(''character_name'', VStr (sp_character_name c)), (''skill'', VStr (sp_skill c)),
      (''rank'', VInt (sp_rank c)), (''xp'', VInt (sp_xp c))]"

definition read_skill_progress :: "pydict \<Rightarrow> skill_progress option" where
  "read_skill_progress d = do {
     character_name \<leftarrow> attr d ''character_name'' str_of;
     skill \<leftarrow> attr d ''skill'' str_of;
     rank \<leftarrow> attr d ''rank'' int_of;
     xp \<leftarrow> attr d ''xp'' int_of;
     Some \<lparr>sp_character_name = character_name, sp_skill = skill, sp_rank = rank, sp_xp = xp\<rparr>
   }"

record member =
  mb_nickname :: string
  mb_discord_id :: "string option"
  mb_roles :: "string list"

definition dump_member :: "member \<Rightarrow> pydict" where
  "dump_member c =
     [(''nickname'', VStr (mb_nickname c)),
      (''discord_id'', optional VStr (mb_discord_id c)),
      (''roles'', list_val VStr (mb_roles c))]"

definition read_member :: "pydict \<Rightarrow> member option" where
  "read_member d = do {
     nickname \<leftarrow> attr d ''nickname'' str_of;
     discord_id \<leftarrow> attr d ''discord_id'' (optional_of str_of);
     roles \<leftarrow> attr d ''roles'' (list_of str_of);
     Some \<lparr>mb_nickname = nickname, mb_discord_id = discord_id, mb_roles = roles\<rparr>
   }"

text \<open>
  An instance of any class of the module, as a create handler receives it in
  \<open>payload\<close>, with its class, its collection and its dictionary.
\<close>

datatype payload =
    CharacterOf character
  | BackstoryOf backstory
  | ActionReportOf action_report
  | EventOf event
  | QuestOf quest
  | ItemOf item
  | CraftRecipeOf craft_recipe
  | SkillProgressOf skill_progress
  | MemberOf member

fun model_of :: "payload \<Rightarrow> model" where
  "model_of (CharacterOf c) = Character"
| "model_of (BackstoryOf c) = Backstory"
| "model_of (ActionReportOf c) = ActionReport"
| "model_of (EventOf c) = Event"
| "model_of (QuestOf c) = Quest"
| "model_of (ItemOf c) = Item"
| "model_of (CraftRecipeOf c) = CraftRecipe"
| "model_of (SkillProgressOf c) = SkillProgress"
| "model_of (MemberOf c) = Member"

fun collection_of :: "payload \<Rightarrow> string" where
  "collection_of (CharacterOf c) = ''character''"
| "collection_of (BackstoryOf c) = ''backstory''"
| "collection_of (ActionReportOf c) = ''actionreport''"
| "collection_of (EventOf c) = ''event''"
| "collection_of (QuestOf c) = ''quest''"
| "collection_of (ItemOf c) = ''item''"
| "collection_of (CraftRecipeOf c) = ''craftrecipe''"
| "collection_of (SkillProgressOf c) = ''skillprogress''"
| "collection_of (MemberOf c) = ''member''"

fun model_dump :: "payload \<Rightarrow> pydict" where
  "model_dump (CharacterOf c) = dump_character c"
| "model_dump (BackstoryOf c) = dump_backstory c"
| "model_dump (ActionReportOf c) = dump_action_report c"
| "model_dump (EventOf c) = dump_event c"
| "model_dump (QuestOf c) = dump_quest c"
| "model_dump (ItemOf c) = dump_item c"
| "model_dump (CraftRecipeOf c) = dump_craft_recipe c"
| "model_dump (SkillProgressOf c) = dump_skill_progress c"
| "model_dump (MemberOf c) = dump_member c"

fun payload_inv :: "payload \<Rightarrow> bool" where
  "payload_inv (CharacterOf c) = character_inv c"
| "payload_inv (BackstoryOf c) = True"
| "payload_inv (ActionReportOf c) = action_report_inv c"
| "payload_inv (EventOf c) = event_inv c"
| "payload_inv (QuestOf c) = True"
| "payload_inv (ItemOf c) = True"
| "payload_inv (CraftRecipeOf c) = True"
| "payload_inv (SkillProgressOf c) = skill_progress_inv c"
| "payload_inv (MemberOf c) = True"

definition readers :: "(string \<times> (pydict \<Rightarrow> payload option)) list" where
  "readers =
     [(''character'', map_option CharacterOf \<circ> read_character),
      (''backstory'', map_option BackstoryOf \<circ> read_backstory),
      (''actionreport'', map_option ActionReportOf \<circ> read_action_report),
      (''event'', map_option EventOf \<circ> read_event),
      (''quest'', map_option QuestOf \<circ> read_quest),
      (''item'', map_option ItemOf \<circ> read_item),
      (''craftrecipe'', map_option CraftRecipeOf \<circ> read_craft_recipe),
      (''skillprogress'', map_option SkillProgressOf \<circ> read_skill_progress),
      (''member'', map_option MemberOf \<circ> read_member)]"

definition model_validate :: "string \<Rightarrow> pydict \<Rightarrow> payload option" where
  "model_validate c r = (case map_of readers c of None \<Rightarrow> None | Some rd \<Rightarrow> rd r)"

section \<open>Facts about attribute values\<close>

lemma find_eq_member: "x \<in> set xs \<Longrightarrow> find (\<lambda>y. y = x) xs = Some x"
  by (induction xs) auto

lemma optional_of_value: "v \<noteq> VNone \<Longrightarrow> optional_of f v = map_option Some (f v)"
  by (cases v) simp_all

lemma those_map_read: "(\<And>x. dec (enc x) = Some x) \<Longrightarrow> those (map (dec \<circ> enc) xs) = Some xs"
  by (induction xs) simp_all

lemma list_all_image: "list_all Q vs \<Longrightarrow> (\<And>v. Q v \<Longrightarrow> \<exists>x. enc x = v) \<Longrightarrow> \<exists>xs. map enc xs = vs"
proof (induction vs)
  case (Cons v vs)
  from Cons.prems obtain x where "enc x = v" by auto
  moreover from Cons obtain xs where "map enc xs = vs" by auto
  ultimately have "map enc (x # xs) = v # vs" by simp
  then show ?case ..
qed simp

lemma codec_str: "codec TStr (\<lambda>x. True) VStr str_of"
  by (auto simp: codec_def split: pyval.splits)

lemma codec_int: "codec TInt (\<lambda>x. True) VInt int_of"
  by (auto simp: codec_def split: pyval.splits)

lemma codec_datetime: "codec TDatetime valid_datetime VDatetime datetime_of"
  by (auto simp: codec_def split: pyval.splits)

lemma codec_dict: "codec TDict (\<lambda>x. True) VDict dict_of"
  by (auto simp: codec_def split: pyval.splits)

lemma codec_literal:
  assumes "inj text"
  shows "codec (TLiteral (map text enum_class.enum)) (\<lambda>x. True) (literal text) (literal_of text)"
proof -
  have "find (\<lambda>y. text y = text x) enum_class.enum = Some x" for x
    using find_eq_member [of x enum_class.enum] assms by (simp add: inj_eq enum_UNIV)
  then show ?thesis
    by (auto simp: codec_def literal_def literal_of_def enum_UNIV split: pyval.splits)
qed

lemma codec_optional:
  assumes "codec a P enc dec" and "\<And>x. enc x \<noteq> VNone"
  shows "codec (TOptional a) (pred_option P) (optional enc) (optional_of dec)"
proof -
  have "optional_of dec (optional enc x) = Some x" for x
    using assms by (cases x) (simp_all add: optional_def optional_of_value codec_def)
  moreover have "has_type (TOptional a) (optional enc x) = pred_option P x" for x
    using assms by (cases x) (simp_all add: optional_def codec_def)
  moreover have "\<exists>x. optional enc x = v" if "has_type (TOptional a) v" for v
  proof (cases "v = VNone")
    case True
    then have "optional enc None = v" by (simp add: optional_def)
    then show ?thesis ..
  next
    case False
    with that assms(1) obtain y where "enc y = v" by (auto simp: codec_def)
    then have "optional enc (Some y) = v" by (simp add: optional_def)
    then show ?thesis ..
  qed
  ultimately show ?thesis by (simp add: codec_def)
qed

lemma codec_list:
  assumes "codec a P enc dec"
  shows "codec (TList a) (list_all P) (list_val enc) (list_of dec)"
proof -
  have "list_of dec (list_val enc xs) = Some xs" for xs
    using assms by (simp add: list_val_def those_map_read codec_def)
  moreover have "has_type (TList a) (list_val enc xs) = list_all P xs" for xs
    using assms by (simp add: list_val_def codec_def list_all_iff)
  moreover have "\<exists>xs. list_val enc xs = v" if "has_type (TList a) v" for v
  proof (cases v)
    case (VList vs)
    with that have "list_all (has_type a) vs" by simp
    then have "\<exists>xs. map enc xs = vs"
      by (rule list_all_image) (use assms in \<open>simp add: codec_def\<close>)
    with VList show ?thesis by (simp add: list_val_def)
  qed (use that in simp_all)
  ultimately show ?thesis by (simp add: codec_def)
qed

lemma codec_read: "codec a P enc dec \<Longrightarrow> dec (enc x) = Some x"
  by (simp add: codec_def)

lemma codec_typed: "codec a P enc dec \<Longrightarrow> has_type a (enc x) = P x"
  by (simp add: codec_def)

lemma codec_view: "codec a P enc dec \<Longrightarrow> has_type a v \<longleftrightarrow> (\<exists>x. P x \<and> v = enc x)"
  unfolding codec_def by metis

lemma in_bounds_free [simp]:
  "in_bounds \<lparr>annotation = a, default_of = d, ge = None, le = None\<rparr> v"
  by (simp add: in_bounds_def split: pyval.splits)

lemma in_bounds_VInt:
  "in_bounds f (VInt i) \<longleftrightarrow>
     (case le f of Some u \<Rightarrow> i \<le> u | None \<Rightarrow> True) \<and> (case ge f of Some l \<Rightarrow> l \<le> i | None \<Rightarrow> True)"
  by (simp add: in_bounds_def)

lemma conforms_Nil_iff: "conforms [] r \<longleftrightarrow> r = []"
  by (cases r) simp_all

lemma conforms_Cons_iff:
  "conforms ((name, f) # m) r \<longleftrightarrow> (\<exists>v r'. r = (name, v) # r' \<and> field_ok f v \<and> conforms m r')"
  by (cases r) auto


text \<open>The texts of an enumeration are distinct, and they are the texts of its annotation.\<close>

lemma inj_faction_text: "inj faction_text"
  by (rule injI) (auto elim!: faction_text.elims)

lemma inj_backstory_status_text: "inj backstory_status_text"
  by (rule injI) (auto elim!: backstory_status_text.elims)

lemma inj_event_kind_text: "inj event_kind_text"
  by (rule injI) (auto elim!: event_kind_text.elims)

lemma inj_difficulty_text: "inj difficulty_text"
  by (rule injI) (auto elim!: difficulty_text.elims)

lemma inj_quest_status_text: "inj quest_status_text"
  by (rule injI) (auto elim!: quest_status_text.elims)

lemma inj_quality_text: "inj quality_text"
  by (rule injI) (auto elim!: quality_text.elims)

lemma codec_faction:
  "codec (TLiteral [''Alliance'', ''Horde'', ''Neutral'']) (\<lambda>x. True)
     (literal faction_text) (literal_of faction_text)"
  using codec_literal [OF inj_faction_text] by (simp add: enum_faction_def)

lemma codec_backstory_status:
  "codec (TLiteral [''submitted'', ''approved'', ''revisions'']) (\<lambda>x. True)
     (literal backstory_status_text) (literal_of backstory_status_text)"
  using codec_literal [OF inj_backstory_status_text] by (simp add: enum_backstory_status_def)

lemma codec_event_kind:
  "codec (TLiteral [''quest'', ''dnd-session'', ''market'', ''tournament'', ''social'']) (\<lambda>x. True)
     (literal event_kind_text) (literal_of event_kind_text)"
  using codec_literal [OF inj_event_kind_text] by (simp add: enum_event_kind_def)

lemma codec_difficulty:
  "codec (TLiteral [''easy'', ''normal'', ''hard'', ''epic'']) (\<lambda>x. True)
     (literal difficulty_text) (literal_of difficulty_text)"
  using codec_literal [OF inj_difficulty_text] by (simp add: enum_difficulty_def)

lemma codec_quest_status:
  "codec (TLiteral [''open'', ''in_progress'', ''completed'']) (\<lambda>x. True)
     (literal quest_status_text) (literal_of quest_status_text)"
  using codec_literal [OF inj_quest_status_text] by (simp add: enum_quest_status_def)

lemma codec_quality:
  "codec (TLiteral [''poor'', ''common'', ''uncommon'', ''rare'', ''epic'', ''legendary'']) (\<lambda>x. True)
     (literal quality_text) (literal_of quality_text)"
  using codec_literal [OF inj_quality_text] by (simp add: enum_quality_def)

lemmas codecs =
  codec_str codec_int codec_datetime codec_dict
  codec_faction codec_backstory_status codec_event_kind codec_difficulty
  codec_quest_status codec_quality
  codec_optional [OF codec_str] codec_optional [OF codec_int] codec_optional [OF codec_datetime]
  codec_list [OF codec_str] codec_list [OF codec_dict]

lemmas attr_reads = codecs [THEN codec_read]

lemmas attr_typed = codecs [THEN codec_typed, simplified list.pred_True option.pred_True]

lemmas attr_views = codecs [THEN codec_view, simplified list.pred_True option.pred_True]

lemmas record_defs =
  dump_character_def read_character_def dump_backstory_def read_backstory_def
  dump_action_report_def read_action_report_def dump_event_def read_event_def
  dump_quest_def read_quest_def dump_item_def read_item_def
  dump_craft_recipe_def read_craft_recipe_def
  dump_skill_progress_def read_skill_progress_def dump_member_def read_member_def
  character_inv_def action_report_inv_def event_inv_def skill_progress_inv_def attr_def

lemmas read_simps =
  Field_def conforms_Cons_iff conforms_Nil_iff field_ok_def in_bounds_VInt attr_views attr_reads
  record_defs

lemmas dump_simps = Field_def field_ok_def in_bounds_VInt attr_typed attr_reads record_defs

section \<open>Dictionaries and instances\<close>

text \<open>
  For each class: a dictionary that conforms to the model is the dictionary of the
  instance read from it, which satisfies the invariant; the dictionary of an instance
  that satisfies the invariant conforms, and the instance is read back from it.
\<close>

lemma character_read:
  "conforms Character r \<Longrightarrow> \<exists>c. read_character r = Some c \<and> dump_character c = r \<and> character_inv c"
  by (auto simp: Character_def read_simps simp del: has_type.simps)

lemma character_dump:
  "character_inv c \<Longrightarrow> conforms Character (dump_character c)"
  "read_character (dump_character c) = Some c"
  by (simp_all add: Character_def dump_simps del: has_type.simps)

lemma backstory_read:
  "conforms Backstory r \<Longrightarrow> \<exists>c. read_backstory r = Some c \<and> dump_backstory c = r"
  by (auto simp: Backstory_def read_simps simp del: has_type.simps)

lemma backstory_dump:
  "conforms Backstory (dump_backstory c)"
  "read_backstory (dump_backstory c) = Some c"
  by (simp_all add: Backstory_def dump_simps del: has_type.simps)

lemma action_report_read:
  "conforms ActionReport r \<Longrightarrow> \<exists>c. read_action_report r = Some c \<and> dump_action_report c = r \<and> action_report_inv c"
  by (auto simp: ActionReport_def read_simps simp del: has_type.simps)

lemma action_report_dump:
  "action_report_inv c \<Longrightarrow> conforms ActionReport (dump_action_report c)"
  "read_action_report (dump_action_report c) = Some c"
  by (simp_all add: ActionReport_def dump_simps del: has_type.simps)

lemma event_read:
  "conforms Event r \<Longrightarrow> \<exists>c. read_event r = Some c \<and> dump_event c = r \<and> event_inv c"
  by (auto simp: Event_def read_simps simp del: has_type.simps)

lemma event_dump:
  "event_inv c \<Longrightarrow> conforms Event (dump_event c)"
  "read_event (dump_event c) = Some c"
  by (simp_all add: Event_def dump_simps del: has_type.simps)

lemma quest_read:
  "conforms Quest r \<Longrightarrow> \<exists>c. read_quest r = Some c \<and> dump_quest c = r"
  by (auto simp: Quest_def read_simps simp del: has_type.simps)

lemma quest_dump:
  "conforms Quest (dump_quest c)"
  "read_quest (dump_quest c) = Some c"
  by (simp_all add: Quest_def dump_simps del: has_type.simps)

lemma item_read:
  "conforms Item r \<Longrightarrow> \<exists>c. read_item r = Some c \<and> dump_item c = r"
  by (auto simp: Item_def read_simps simp del: has_type.simps)

lemma item_dump:
  "conforms Item (dump_item c)"
  "read_item (dump_item c) = Some c"
  by (simp_all add: Item_def dump_simps del: has_type.simps)

lemma craft_recipe_read:
  "conforms CraftRecipe r \<Longrightarrow> \<exists>c. read_craft_recipe r = Some c \<and> dump_craft_recipe c = r"
  by (auto simp: CraftRecipe_def read_simps simp del: has_type.simps)

lemma craft_recipe_dump:
  "conforms CraftRecipe (dump_craft_recipe c)"
  "read_craft_recipe (dump_craft_recipe c) = Some c"
  by (simp_all add: CraftRecipe_def dump_simps del: has_type.simps)

lemma skill_progress_read:
  "conforms SkillProgress r \<Longrightarrow> \<exists>c. read_skill_progress r = Some c \<and> dump_skill_progress c = r \<and> skill_progress_inv c"
  by (auto simp: SkillProgress_def read_simps simp del: has_type.simps)

lemma skill_progress_dump:
  "skill_progress_inv c \<Longrightarrow> conforms SkillProgress (dump_skill_progress c)"
  "read_skill_progress (dump_skill_progress c) = Some c"
  by (simp_all add: SkillProgress_def dump_simps del: has_type.simps)

lemma member_read:
  "conforms Member r \<Longrightarrow> \<exists>c. read_member r = Some c \<and> dump_member c = r"
  by (auto simp: Member_def read_simps simp del: has_type.simps)

lemma member_dump:
  "conforms Member (dump_member c)"
  "read_member (dump_member c) = Some c"
  by (simp_all add: Member_def dump_simps del: has_type.simps)

lemmas record_reads =
  character_read backstory_read action_report_read event_read quest_read item_read
  craft_recipe_read skill_progress_read member_read

lemmas record_dumps =
  character_dump backstory_dump action_report_dump event_dump quest_dump item_dump
  craft_recipe_dump skill_progress_dump member_dump

text \<open>
  The same for an instance of any class: \<open>model_validate\<close> reads every conforming
  dictionary of a collection, and \<open>model_dump\<close> takes it back.
\<close>

lemma payload_of_conforms:
  assumes "(c, m) \<in> set catalog" and "conforms m r"
  shows "\<exists>p. model_validate c r = Some p \<and> model_of p = m \<and> collection_of p = c \<and>
     payload_inv p \<and> model_dump p = r"
  using assms
  by (simp add: catalog_def)
     (elim disjE conjE; clarsimp simp: model_validate_def readers_def dest!: record_reads)

lemma payload_conforms: "payload_inv p \<Longrightarrow> conforms (model_of p) (model_dump p)"
  by (cases p) (simp_all add: record_dumps)

lemma payload_roundtrip: "model_validate (collection_of p) (model_dump p) = Some p"
  by (cases p) (simp_all add: model_validate_def readers_def record_dumps)

lemma payload_catalog: "(collection_of p, model_of p) \<in> set catalog"
  by (cases p) (simp_all add: catalog_def)

section \<open>Properties of the instances\<close>





end
