(* ===== verification/Spec2Isabelle.thy ===== *)
theory Spec2Isabelle
  imports Server Json Records
begin

text \<open>
  Verification of the Twist of Fate role-play community backend: the HTTP API of
  \<open>src/main.py\<close> and the record schemas of \<open>src/schemas.py\<close>, together with the
  persistence layer and the framework behaviour the API relies on.

  \<^bold>\<open>The program.\<close> \<open>src/schemas.py\<close> declares nine pydantic models (Character,
  Backstory, ActionReport, Event, Quest, Item, CraftRecipe, SkillProgress, Member).
  \<open>src/main.py\<close> builds a FastAPI application with a permissive CORS middleware,
  two serialisation helpers (\<open>_serialize\<close>, \<open>_serialize_list\<close>), three basic
  endpoints (\<open>read_root\<close>, \<open>test_database\<close>, \<open>get_schema\<close>) and, for five of the
  models, a create handler and a list handler. A create handler receives a body the
  framework has validated against the model, calls \<open>create_document\<close> of the module
  \<open>database\<close> and answers with the new identifier; a list handler builds an
  exact-match filter from its query parameter, calls \<open>get_documents\<close> and serialises
  the documents. The only state shared by requests is the database handle of the
  module \<open>database\<close>, set once at start-up. The process entry reads the port from
  the environment.

  \<^bold>\<open>The theories.\<close>

  \<^item> \<open>Prelude\<close>: the fact collections, the result type \<open>'e + 'a\<close> of operations that
    can raise, decimal and hexadecimal texts of numbers, and association lists as
    insertion-ordered dictionaries.

  \<^item> \<open>PyValue\<close>: the values a document holds (\<open>pyval\<close>), naive date-times with
    \<open>isoformat\<close> and the reading of ISO 8601 texts, the twelve-byte identifier
    \<open>objectid\<close> as a \<open>96 word\<close> with its 24-digit text \<open>oid_str\<close>, Python's truth
    test, \<open>str\<close> and \<open>repr\<close>, and \<open>dict.pop\<close>, item assignment and \<open>dict.get\<close>.

  \<^item> \<open>Schemas\<close>: the nine models, translated field by field from the class bodies of
    \<open>src/schemas.py\<close> as ordered tables of field name, annotation, default and
    bounds; \<open>catalog\<close> names them by collection. Validation (\<open>validate_value\<close>,
    \<open>validate_field\<close>, \<open>validate_model\<close>) follows the specification of the schema
    catalogue: all fields are checked and all errors are reported, each with its
    location, its kind and the offending input. \<open>conforms\<close> is the data model as a
    predicate.

  \<^item> \<open>Records\<close>: the instances of the classes of \<open>src/schemas.py\<close>, which
    the create handlers receive as \<open>payload\<close>: a record type for each class, a
    datatype of class \<open>enum\<close> for each \<open>Literal\<close> annotation, the invariant the
    bounds add (\<open>character_inv\<close> and the like), \<open>model_dump\<close> from an instance to
    its dictionary and \<open>model_validate\<close> back. \<open>codec\<close> relates an annotation to
    the reader and the writer of its attribute values.

  \<^item> \<open>Database\<close>: the persistence access layer, modelled from the specification
    because its source is not under \<open>src/\<close>. The handle is \<open>None\<close> or a
    \<open>database\<close> record (name, collections in insertion order, next identifier, fault);
    \<open>connect\<close> is the one start-up transition; \<open>create_document\<close> and
    \<open>get_documents\<close> are the two operations, \<open>list_collection_names\<close> the accessor
    of the diagnostics. \<open>db_inv\<close> is the invariant of a store.

  \<^item> \<open>Api\<close>: \<open>src/main.py\<close>. \<open>cors\<close> is the middleware configuration;
    \<open>serialize\<close> and \<open>serialize_list\<close> are the helpers, with the loop of
    \<open>_serialize\<close> as a fold of \<open>iso_step\<close> over a snapshot of the items;
    \<open>read_root\<close>, \<open>test_database\<close> and \<open>get_schema\<close> (with \<open>model_fields\<close>) are
    the basic endpoints; \<open>create_character\<close>, \<open>list_characters\<close>,
    \<open>submit_backstory\<close>, \<open>list_backstories\<close>, \<open>submit_report\<close>, \<open>list_reports\<close>,
    \<open>create_event\<close>, \<open>list_events\<close>, \<open>create_quest\<close> and \<open>list_quests\<close> are
    the handlers, each taking the handle and returning it with the result;
    \<open>main_port\<close> is the port of the process entry with \<open>py_int\<close> for \<open>int\<close>.
    \<open>handle\<close> dispatches a \<open>request\<close> to its handler the way the framework does
    (\<open>with_body\<close>: status 422 with the errors for a body the model rejects, status
    500 for an exception the handler lets through), \<open>run\<close> serves a list of requests
    in order, and \<open>reachable\<close> is the step relation of the service.
    \<open>next_handle\<close> is the contract of the layer on the store.

  \<^item> \<open>Http\<close>: the route table \<open>routes\<close>, which lists the decorators
    \<open>@app.get\<close> and \<open>@app.post\<close> of \<open>src/main.py\<close> with what the signature
    of each handler takes, and the router of the framework on it: \<open>route\<close> binds an
    HTTP request (method, path, query pairs, parsed body) to a request of the dispatch or
    answers with status 404, 405, 307 or 422; \<open>serve_http\<close> is the application on
    an HTTP request, \<open>run_http\<close> on a list of them.

  \<^item> \<open>Server\<close>: the entry block (\<open>main\<close>: the port and the address handed to
    \<open>uvicorn.run\<close>; \<open>startup\<close>: the connection attempt and the entry block) and
    the server loop \<open>serve\<close>, a \<open>while_option\<close> over the pending requests of the
    accepted connections, the handle and the access log, with the scheduler's choice
    of the next connection as a parameter.

  \<^item> \<open>Json\<close>: what the application hands to the JSON encoder. \<open>json_native\<close>
    holds of a value made of null, booleans, numbers, texts, arrays and objects only;
    \<open>plain\<close> and \<open>flat\<close> classify the annotations of \<open>src/schemas.py\<close> by
    where a date and time can occur in their values, \<open>native_body\<close> says that
    the body of a request came from JSON, and \<open>json_inv\<close> is the invariant of
    the server loop for the encoder.

  \<^item> \<open>Concurrency\<close>: requests in flight together, as runs over the interleavings
    (\<open>shuffles\<close>) of the clients' request sequences; \<open>payloads\<close> are the
    records a request sequence sends to a collection.

  \<^item> This theory: the properties that need the schemas, the store and the handlers
    together.

  \<^bold>\<open>What is proved.\<close> For the values: \<open>isoformat\<close> is inverted by the reader of
  ISO 8601 texts, and the identifier text is injective. For validation: soundness and
  completeness against \<open>conforms\<close> for every model of the catalogue, application of
  defaults, rejection of out-of-range integers and of texts outside an enumeration,
  location of every error, and that undeclared keys are ignored. For the instances: a
  validated body is the dictionary of exactly one instance of its class, which
  satisfies the bounds, and the dictionary of such an instance is validated unchanged
  and read back, so that handing the validated record to a handler is handing it the
  instance. For the store: the
  invariant \<open>db_inv\<close> is kept by every insertion, and identifiers are fresh. For the
  API: what \<open>_serialize\<close> returns (as a lookup table, and on stored documents, where
  its loop equals the field-wise conversion \<open>iso_fields\<close>), that the handlers refine
  \<open>next_handle\<close>, that reads never change the store, that a rejected body changes
  nothing, that every stored document conforms to the model of its collection in every
  reachable state, exactness of filters, the behaviour with no database and with a
  failing one, and what the diagnostics and the schema endpoint return. Across the
  components: a created record is listed afterwards, under the identifier the create
  answered with, and nowhere else; no identifier is issued twice. For requests in
  flight together: a run leaves in each collection the records sent to it, in order;
  after any interleaving of two clients the invariants hold, each collection holds an
  interleaving of the clients' records, and clients writing to different collections do
  not disturb each other. For the router: the table is unambiguous and followed,
  every request of the dispatch is reached by its HTTP request, a request that is not a
  \<open>POST\<close> never changes the store, and a request that reaches no handler is answered
  with the status the table gives and changes nothing. For the encoder: from a
  typed store, every answer the server writes to connections whose bodies came from
  JSON, errors included, holds no date and time and no identifier of the store at any
  depth (\<open>json_inv\<close> is the invariant of the loop that carries it); that \<open>_serialize\<close> would
  leave a date and time inside a list is shown on an example, and no model with a
  route declares such a field. For the server: the loop
  terminates under every scheduling policy, every connection is answered exactly its
  requests in its order, the answers and the final store are those of the sequential
  run over the order of service, which for two connections is an interleaving of their
  requests, and the store stays sound and typed.

  \<^bold>\<open>Bounds.\<close> Identifiers are \<open>96 word\<close>s issued by a counter, so the generator wraps
  after \<open>2 ^ 96\<close> insertions. \<open>room n db\<close> says that \<open>n\<close> more identifiers can be
  issued before that; the theorems on runs assume room for the length of the run,
  which is what uniqueness needs and no more. Nothing uses fuel. The loop of
  \<open>_serialize\<close> is a fold over a finite list. The server loop is the only loop
  that is not structural: it is a \<open>while_option\<close>, and that it returns is proved
  from the number of pending requests, which every step decreases by one.

  \<^bold>\<open>Order of requests.\<close> Every handler makes at most one call to the store, and a
  call is one step of the store. A concurrent execution of requests is therefore an
  interleaving of whole handler steps, which is a sequential \<open>run\<close> in the order of
  the store's steps; \<open>run\<close> and \<open>reachable\<close> quantify over all such orders.

  \<^bold>\<open>Not modelled.\<close> Sockets, the parsing of HTTP messages, headers (the target of
  a redirection, the CORS headers of a response and the preflight requests the
  middleware answers) and JSON parsing and printing: a request starts as its method,
  path, query pairs and parsed body, a response is a status with a value. Requests that
  arrive while the server runs: the loop serves the requests of the connections it has
  accepted. The lax coercions of the validation library,
  such as a numeric text read as an integer: a value of another type than declared is
  rejected, and a date and time is read from the two \<open>isoformat\<close> spellings
  only. The creation time-stamps the store adds to a
  document, which no handler reads: insertion order stands for them. Descriptions of
  fields, which do not affect behaviour. The printing of annotations by
  \<open>get_schema\<close> follows the \<open>typing\<close> module's \<open>repr\<close>.
\<close>

section \<open>Properties that span the components\<close>

lemma parse_example:
  "parse_isoformat ''2024-05-01T18:00:00'' =
     Some \<lparr>year = 2024, month = 5, day = 1, hour = 18, minute = 0, second = 0, microsecond = 0\<rparr>"
proof -
  have "isoformat \<lparr>year = 2024, month = 5, day = 1, hour = 18, minute = 0, second = 0,
      microsecond = 0\<rparr> = ''2024-05-01T18:00:00''"
    by code_simp
  moreover have "valid_datetime \<lparr>year = 2024, month = 5, day = 1, hour = 18, minute = 0,
      second = 0, microsecond = 0\<rparr>"
    by (simp add: valid_datetime_def days_in_month_def)
  ultimately show ?thesis using parse_isoformat_isoformat by metis
qed

lemma event_example:
  "validate_model Event [(''title'', VStr ''Darkmoon Faire''), (''description'', VStr ''Fair''),
        (''date'', VStr ''2024-05-01T18:00:00''), (''location'', VStr ''Elwynn'')]
     = Inr [(''title'', VStr ''Darkmoon Faire''), (''description'', VStr ''Fair''),
          (''date'', VDatetime \<lparr>year = 2024, month = 5, day = 1, hour = 18, minute = 0,
             second = 0, microsecond = 0\<rparr>), (''location'', VStr ''Elwynn''),
          (''organizer'', VNone), (''event_type'', VStr ''quest''), (''capacity'', VNone)]"
  by (simp add: validate_model_def validate_field_def model_defs check_bounds_def
      check_le_def check_ge_def parse_example)

text \<open>
  C1. Create then list: when a \<open>POST\<close> with a body its model accepts is served on
  an available store, the answer carries the new identifier, and the listing of that
  collection, under any filter the validated record satisfies, is the listing from
  before followed by the validated record, its dates as ISO 8601 texts and the same
  identifier added last as \<open>id\<close>.
\<close>

theorem create_then_list:
  assumes "target r = Some (c, m, VDict d)" and "validate_model m d = Inr p"
    and "list_target g = Some (c, k, q)" and "fault db = None"
    and "matches (query_filter k q) p"
  shows "fst (handle env r (Some db)) =
           ok_response (VDict ((''id'', VStr (oid_str (next_id db))) # ack r)) \<and>
         fst (handle env g (snd (handle env r (Some db)))) =
           listing (serialize_list (get_documents c (query_filter k q) (Some db)) @
                    [iso_fields p @ [(''id'', VStr (oid_str (next_id db)))]])"
proof -
  from assms(1,2) have eff: "effect r = Some (c, p)" by (auto simp: effect_Some)
  note wf = effect_wf [OF eff]
  have post: "handle env r (Some db) =
      (ok_response (VDict ((''id'', VStr (oid_str (next_id db))) # ack r)),
       Some (snd (insert_one c p db)))"
    using assms(1,2,4) by (rule handle_post_stored)
  have h': "snd (handle env r (Some db)) = snd (create_document c p (Some db))"
    by (simp add: post create_document_ok [OF assms(4)])
  from assms(3) have "''_id'' \<notin> set (keys (query_filter k q))"
    using keys_query_filter [of k q] by (auto dest: list_target_key)
  with assms(5) have "matches (query_filter k q) (stored_doc (next_id db) p)"
    by (simp add: matches_stored_doc)
  then have docs: "get_documents c (query_filter k q) (snd (create_document c p (Some db))) =
      get_documents c (query_filter k q) (Some db) @ [stored_doc (next_id db) p]"
    by (simp add: get_documents_after_create [OF assms(4)])
  have ser: "serialize (stored_doc (next_id db) p) =
      iso_fields p @ [(''id'', VStr (oid_str (next_id db)))]"
    using wf by (simp add: stored_doc_no_id serialize_stored)
  have "fst (handle env g (snd (handle env r (Some db)))) =
      listing (serialize_list (get_documents c (query_filter k q) (snd (handle env r (Some db)))))"
    by (simp add: handle_list [OF assms(3)])
  then show ?thesis
    unfolding h' docs by (simp add: post serialize_list_def ser)
qed

theorem create_then_list_witness:
  "fst (handle \<lparr>DATABASE_URL = None, PORT = None\<rparr>
      (POST_events (VDict [(''title'', VStr ''Darkmoon Faire''), (''description'', VStr ''Fair''),
        (''date'', VStr ''2024-05-01T18:00:00''), (''location'', VStr ''Elwynn'')]))
      (Some (empty_database ''twist''))) =
     ok_response (VDict ((''id'', VStr (oid_str (next_id (empty_database ''twist'')))) #
       ack (POST_events (VDict [(''title'', VStr ''Darkmoon Faire''), (''description'', VStr ''Fair''),
        (''date'', VStr ''2024-05-01T18:00:00''), (''location'', VStr ''Elwynn'')])))) \<and>
   fst (handle \<lparr>DATABASE_URL = None, PORT = None\<rparr> (GET_events (Some ''quest''))
      (snd (handle \<lparr>DATABASE_URL = None, PORT = None\<rparr>
        (POST_events (VDict [(''title'', VStr ''Darkmoon Faire''), (''description'', VStr ''Fair''),
        (''date'', VStr ''2024-05-01T18:00:00''), (''location'', VStr ''Elwynn'')]))
        (Some (empty_database ''twist''))))) =
     listing (serialize_list (get_documents ''event'' (query_filter ''event_type'' (Some ''quest''))
         (Some (empty_database ''twist''))) @
       [iso_fields [(''title'', VStr ''Darkmoon Faire''), (''description'', VStr ''Fair''),
          (''date'', VDatetime \<lparr>year = 2024, month = 5, day = 1, hour = 18, minute = 0,
             second = 0, microsecond = 0\<rparr>), (''location'', VStr ''Elwynn''),
          (''organizer'', VNone), (''event_type'', VStr ''quest''), (''capacity'', VNone)] @
        [(''id'', VStr (oid_str (next_id (empty_database ''twist''))))]])"
proof (rule create_then_list [OF _ event_example])
  show "target (POST_events (VDict [(''title'', VStr ''Darkmoon Faire''), (''description'', VStr ''Fair''),
        (''date'', VStr ''2024-05-01T18:00:00''), (''location'', VStr ''Elwynn'')]))
    = Some (''event'', Event, VDict [(''title'', VStr ''Darkmoon Faire''), (''description'', VStr ''Fair''),
        (''date'', VStr ''2024-05-01T18:00:00''), (''location'', VStr ''Elwynn'')])"
    by simp
  show "list_target (GET_events (Some ''quest'')) = Some (''event'', ''event_type'', Some ''quest'')"
    by simp
  show "fault (empty_database ''twist'') = None" by simp
  show "matches (query_filter ''event_type'' (Some ''quest''))
      [(''title'', VStr ''Darkmoon Faire''), (''description'', VStr ''Fair''),
          (''date'', VDatetime \<lparr>year = 2024, month = 5, day = 1, hour = 18, minute = 0,
             second = 0, microsecond = 0\<rparr>), (''location'', VStr ''Elwynn''),
          (''organizer'', VNone), (''event_type'', VStr ''quest''), (''capacity'', VNone)]"
    by simp
qed

text \<open>
  C25. A create is seen only where it belongs: the listing of another collection, and
  the listing under a filter the new record does not satisfy, are what they were.
\<close>

theorem create_invisible_elsewhere:
  assumes "target r = Some (c, m, VDict d)" and "validate_model m d = Inr p"
    and "list_target g = Some (c', k, q)" and "fault db = None"
    and "c' \<noteq> c \<or> \<not> matches (query_filter k q) p"
  shows "fst (handle env g (snd (handle env r (Some db)))) = fst (handle env g (Some db))"
proof -
  from assms(1,2) have eff: "effect r = Some (c, p)" by (auto simp: effect_Some)
  from assms(3) have "''_id'' \<notin> set (keys (query_filter k q))"
    using keys_query_filter [of k q] by (auto dest: list_target_key)
  then have "matches (query_filter k q) (stored_doc (next_id db) p) = matches (query_filter k q) p"
    by (rule matches_stored_doc)
  moreover have "snd (handle env r (Some db)) = snd (create_document c p (Some db))"
    using eff by (simp add: snd_handle next_handle_def)
  ultimately show ?thesis
    using assms(3-5) by (auto simp: handle_list get_documents_after_create)
qed

theorem create_invisible_elsewhere_witness:
  "fst (handle \<lparr>DATABASE_URL = None, PORT = None\<rparr> (GET_quests (Some ''completed''))
      (snd (handle \<lparr>DATABASE_URL = None, PORT = None\<rparr>
        (POST_quests (VDict [(''title'', VStr ''Bounty''), (''description'', VStr ''Hogger'')]))
        (Some (empty_database ''twist'')))))
   = fst (handle \<lparr>DATABASE_URL = None, PORT = None\<rparr> (GET_quests (Some ''completed''))
      (Some (empty_database ''twist'')))"
proof (rule create_invisible_elsewhere)
  show "target (POST_quests (VDict [(''title'', VStr ''Bounty''), (''description'', VStr ''Hogger'')]))
      = Some (''quest'', Quest, VDict [(''title'', VStr ''Bounty''), (''description'', VStr ''Hogger'')])"
    by simp
  show "validate_model Quest [(''title'', VStr ''Bounty''), (''description'', VStr ''Hogger'')]
      = Inr [(''title'', VStr ''Bounty''), (''description'', VStr ''Hogger''),
          (''difficulty'', VStr ''normal''), (''status'', VStr ''open''), (''rewards'', VList [])]"
    by code_simp
  show "list_target (GET_quests (Some ''completed'')) = Some (''quest'', ''status'', Some ''completed'')"
    by simp
  show "fault (empty_database ''twist'') = None" by simp
  show "''quest'' \<noteq> ''quest'' \<or> \<not> matches (query_filter ''status'' (Some ''completed''))
      [(''title'', VStr ''Bounty''), (''description'', VStr ''Hogger''),
       (''difficulty'', VStr ''normal''), (''status'', VStr ''open''), (''rewards'', VList [])]"
    by simp
qed

text \<open>
  C3. Identifiers are unique: in a run that the identifier generator has room for,
  no two created records are answered with the same identifier.
\<close>

theorem identifiers_unique:
  assumes "handle_room (length rs) h"
  shows "distinct (issued (fst (run env rs h)))"
proof (cases h)
  case (Some db)
  with assms show ?thesis by (simp add: handle_room_def issued_run)
qed simp

theorem identifiers_unique_witness:
  "distinct (issued (fst (run \<lparr>DATABASE_URL = None, PORT = None\<rparr>
     [POST_quests (VDict [(''title'', VStr ''Bounty''), (''description'', VStr ''Hogger'')]),
      POST_quests (VDict [(''title'', VStr ''Bounty''), (''description'', VStr ''Hogger'')])]
     (Some (empty_database ''twist'')))))"
  by (rule identifiers_unique) simp

text \<open>
  From start-up on, the store is typed and its invariant holds: whatever the
  connection string, every state reached from the handle that start-up leaves on an
  empty database holds only documents of the models of their collections.
\<close>

theorem service_store_typed:
  assumes "reachable env (connect url (Some (empty_database name))) h"
  shows "handle_typed h"
proof -
  have "handle_typed (connect url (Some (empty_database name)))"
    by (simp add: connect_def handle_typed_def store_typed_def collection_def empty_database_def
        exposed_eq split: option.splits)
  with assms show ?thesis by (rule reachable_typed)
qed

theorem service_store_typed_witness:
  "handle_typed (snd (handle \<lparr>DATABASE_URL = None, PORT = None\<rparr> GET_root
     (connect (Some ''mongodb://localhost'') (Some (empty_database ''twist'')))))"
  by (rule service_store_typed) (rule reachable.step [OF reachable.start refl])

end
